(* ===== verification/Prelude.thy ===== *)
theory Prelude
  imports Complex_Main "HOL-Library.Sublist" "HOL-Library.Multiset"
begin

text \<open>
  Shared vocabulary of the DiscipulusClient development: the types that stand for the
  TypeScript primitive types, the named collections the component theories add their
  evaluation and invariant rules to, and generic lemmas on lists and options that more
  than one component needs.

  TypeScript \<open>number\<close> values are modelled as exact rationals (\<open>js_number\<close>): every
  number the program computes is a small decimal (ratings, prices, minutes), none of
  its computations overflows, and the one division it performs
  (\<open>hourlyRate * duration / 60\<close>) is exact on rationals. TypeScript strings are
  Isabelle strings; characters are Latin-1 code units, which covers every character of
  the program's data.
\<close>

type_synonym js_number = rat

named_theorems js_eval
  "rules that evaluate the modelled JavaScript builtins on literal arguments"
named_theorems data_eval
  "unfolding rules of the static data tables"
named_theorems step_eval
  "unfolding rules of the components' event handlers"

declare char_of_def [js_eval] bit_simps [js_eval]

subsection \<open>Lists\<close>

text \<open>
  Filtering a list keeps the relative order of what it keeps: the result is a
  subsequence of the input, and filtering a subsequence again gives a subsequence.
\<close>

lemma subseq_filter_mono:
  "subseq xs ys \<Longrightarrow> subseq (filter P xs) ys"
  using subseq_filter_left subseq_order.trans by blast

lemma filter_all_True:
  "(\<And>x. x \<in> set xs \<Longrightarrow> P x) \<Longrightarrow> filter P xs = xs"
  by (induction xs) auto

lemma filter_cong_set:
  "(\<And>x. x \<in> set xs \<Longrightarrow> P x = Q x) \<Longrightarrow> filter P xs = filter Q xs"
  by (rule filter_cong) auto

text \<open>
  A list in which every element satisfies \<open>P\<close> keeps that property under any
  permutation; used for sorted results.
\<close>

lemma set_mset_eq_all:
  "mset xs = mset ys \<Longrightarrow> (\<forall>x\<in>set ys. P x) \<longleftrightarrow> (\<forall>x\<in>set xs. P x)"
  by (metis set_mset_mset)

text \<open>A list sorted on a key is sorted for every relation the key order implies.\<close>

lemma sorted_wrt_key:
  "sorted (map f xs) \<Longrightarrow> (\<And>a b. f a \<le> f b \<Longrightarrow> R a b) \<Longrightarrow> sorted_wrt R xs"
  by (auto simp: sorted_map elim: sorted_wrt_mono_rel[rotated])

text \<open>What \<open>dropWhile\<close> leaves of a sorted list lies above the bound.\<close>

lemma sorted_dropWhile_gt:
  "sorted xs \<Longrightarrow> x \<in> set (dropWhile (\<lambda>d. d \<le> u) xs) \<Longrightarrow> u < (x::'a::linorder)"
proof (induction xs)
  case Nil
  then show ?case by simp
next
  case (Cons y ys)
  show ?case
  proof (cases "y \<le> u")
    case True
    with Cons show ?thesis by simp
  next
    case False
    with Cons.prems show ?thesis by auto
  qed
qed

subsection \<open>Options\<close>

lemma option_case_same:
  "(case x of None \<Rightarrow> a | Some _ \<Rightarrow> a) = a"
  by (cases x) auto

end
