(* ===== verification/JsLib.thy ===== *)
theory JsLib
  imports Prelude
begin

text \<open>
  The ECMAScript builtins that the program's components call, modelled from the
  language specification (they are not code of the repository): case-insensitive
  comparison through \<open>String.prototype.toLowerCase\<close>, \<open>String.prototype.includes\<close>,
  \<open>String.prototype.trim\<close>, \<open>String.prototype.padStart\<close>, \<open>Number.prototype.toString\<close>
  on small naturals, the \<open>Date\<close> operations the booking wizard uses (an instant in
  milliseconds read in a fixed time-zone offset), \<open>String.prototype.split\<close> and
  \<open>Array.prototype.join\<close>, \<open>parseFloat\<close> (with \<open>NaN\<close> and the infinities as values
  of \<open>js_num\<close> and its comparisons with a number), and \<open>Array.prototype.sort\<close> with
  a comparator (stable since ES2019). Each is an executable function with the lemmas
  that relate it to the corresponding library notion (\<open>sublist\<close>, \<open>sort_key\<close>) or
  give its round trip (\<open>js_split_join\<close>).
\<close>

subsection \<open>Lower case\<close>

text \<open>
  \<open>toLowerCase\<close> on Latin-1 code units: A--Z and the upper-case letters U+00C0--U+00DE
  (except the multiplication sign U+00D7) move up by 32; all other characters stay.
\<close>

definition js_is_upper :: "nat \<Rightarrow> bool" where
  "js_is_upper n \<longleftrightarrow> (65 \<le> n \<and> n \<le> 90) \<or> (192 \<le> n \<and> n \<le> 222 \<and> n \<noteq> 215)"

definition js_lower_char :: "char \<Rightarrow> char" where
  "js_lower_char c =
     (if js_is_upper (of_char c) then char_of (of_char c + (32::nat)) else c)"

definition js_to_lower_case :: "string \<Rightarrow> string" where
  "js_to_lower_case s = map js_lower_char s"

declare js_is_upper_def [js_eval] js_lower_char_def [js_eval] js_to_lower_case_def [js_eval]

lemma of_char_js_lower_char:
  "of_char (js_lower_char c) =
     (if js_is_upper (of_char c) then of_char c + 32 else (of_char c :: nat))"
  by (auto simp: js_lower_char_def js_is_upper_def)

lemma js_lower_char_idem [simp]: "js_lower_char (js_lower_char c) = js_lower_char c"
proof (cases "js_is_upper (of_char c)")
  case True
  then have "\<not> js_is_upper (of_char (js_lower_char c))"
    by (auto simp: of_char_js_lower_char js_is_upper_def)
  then show ?thesis by (simp add: js_lower_char_def [of "js_lower_char c"])
next
  case False
  then show ?thesis by (simp add: js_lower_char_def)
qed

lemma js_to_lower_case_idem [simp]:
  "js_to_lower_case (js_to_lower_case s) = js_to_lower_case s"
  by (simp add: js_to_lower_case_def comp_def)

lemma js_to_lower_case_append [simp]:
  "js_to_lower_case (xs @ ys) = js_to_lower_case xs @ js_to_lower_case ys"
  by (simp add: js_to_lower_case_def)

lemma js_to_lower_case_Nil [simp]: "js_to_lower_case [] = []"
  by (simp add: js_to_lower_case_def)

lemma length_js_to_lower_case [simp]: "length (js_to_lower_case s) = length s"
  by (simp add: js_to_lower_case_def)

subsection \<open>Substring search\<close>

fun js_prefix :: "string \<Rightarrow> string \<Rightarrow> bool" where
  "js_prefix [] ys = True"
| "js_prefix (x # xs) [] = False"
| "js_prefix (x # xs) (y # ys) = (x = y \<and> js_prefix xs ys)"

text \<open>\<open>s.includes(p)\<close>: \<open>p\<close> occurs in \<open>s\<close> at some position; the empty pattern occurs in every string.\<close>

fun js_str_includes :: "string \<Rightarrow> string \<Rightarrow> bool" where
  "js_str_includes [] p = (p = [])"
| "js_str_includes (c # s) p = (js_prefix p (c # s) \<or> js_str_includes s p)"

lemma js_prefix_iff [simp]: "js_prefix xs ys \<longleftrightarrow> prefix xs ys"
  by (induction xs ys rule: js_prefix.induct) auto

lemma js_str_includes_iff_sublist: "js_str_includes s p \<longleftrightarrow> sublist p s"
  by (induction s) (auto simp: sublist_Cons_right)

lemma js_str_includes_Nil [simp]: "js_str_includes s []"
  by (simp add: js_str_includes_iff_sublist)

lemma js_str_includes_self [simp]: "js_str_includes s s"
  by (simp add: js_str_includes_iff_sublist)

lemma js_str_includes_append:
  "js_str_includes s p \<Longrightarrow> js_str_includes (a @ s @ b) p"
proof -
  assume "js_str_includes s p"
  then obtain ps ss where "s = ps @ p @ ss"
    by (auto simp: js_str_includes_iff_sublist sublist_def)
  then have "a @ s @ b = (a @ ps) @ p @ (ss @ b)" by simp
  then show ?thesis unfolding js_str_includes_iff_sublist sublist_def by blast
qed

text \<open>Lower-casing keeps every occurrence of a pattern, lower-cased.\<close>

lemma js_str_includes_lower:
  "js_str_includes s p \<Longrightarrow> js_str_includes (js_to_lower_case s) (js_to_lower_case p)"
proof -
  assume "js_str_includes s p"
  then obtain ps ss where "s = ps @ p @ ss"
    by (auto simp: js_str_includes_iff_sublist sublist_def)
  then have "js_to_lower_case s =
      js_to_lower_case ps @ js_to_lower_case p @ js_to_lower_case ss" by simp
  then show ?thesis by (auto simp: js_str_includes_iff_sublist sublist_def)
qed

subsection \<open>Whitespace and trim\<close>

text \<open>
  The white space and line terminators of ECMAScript that lie in Latin-1: tab, line
  feed, vertical tab, form feed, carriage return, space and no-break space.
\<close>

definition js_is_space :: "char \<Rightarrow> bool" where
  "js_is_space c \<longleftrightarrow>
     (let n = (of_char c :: nat) in (9 \<le> n \<and> n \<le> 13) \<or> n = 32 \<or> n = 160)"

definition js_trim :: "string \<Rightarrow> string" where
  "js_trim s = rev (dropWhile js_is_space (rev (dropWhile js_is_space s)))"

declare js_is_space_def [js_eval] js_trim_def [js_eval]

lemma js_trim_Nil_iff: "js_trim s = [] \<longleftrightarrow> list_all js_is_space s"
proof -
  have "rev (dropWhile js_is_space (rev (dropWhile js_is_space s))) = [] \<longleftrightarrow>
        list_all js_is_space (dropWhile js_is_space s)"
    by (simp add: dropWhile_eq_Nil_conv list_all_iff)
  also have "\<dots> \<longleftrightarrow> list_all js_is_space s"
    by (induction s) auto
  finally show ?thesis by (simp add: js_trim_def)
qed

subsection \<open>Number formatting\<close>

text \<open>\<open>n.toString()\<close> for a natural number: its decimal digits.\<close>

fun js_nat_to_string :: "nat \<Rightarrow> string" where
  "js_nat_to_string n =
     (if n < 10 then [char_of (48 + n)]
      else js_nat_to_string (n div 10) @ [char_of (48 + n mod 10)])"

declare js_nat_to_string.simps [simp del]

text \<open>\<open>s.padStart(n, c)\<close>: \<open>c\<close> repeated in front of \<open>s\<close> up to length \<open>n\<close>.\<close>

definition js_pad_start :: "nat \<Rightarrow> char \<Rightarrow> string \<Rightarrow> string" where
  "js_pad_start n c s = replicate (n - length s) c @ s"

declare js_pad_start_def [js_eval]

lemma js_nat_to_string_nonempty: "js_nat_to_string n \<noteq> []"
  by (subst js_nat_to_string.simps) simp

lemma length_js_nat_to_string_small:
  "n < 100 \<Longrightarrow> length (js_nat_to_string n) = (if n < 10 then 1 else 2)"
  by (simp add: js_nat_to_string.simps [of n] js_nat_to_string.simps [of "n div 10"])

lemma length_js_pad_start: "length (js_pad_start n c s) = max n (length s)"
  by (simp add: js_pad_start_def)

subsection \<open>Dates\<close>

text \<open>
  A \<open>Date\<close> is an instant, the milliseconds since 1970-01-01T00:00Z. The host's time
  zone is a fixed offset \<open>tz\<close> in minutes east of UTC (no daylight saving), so local time
  is \<open>ms + tz * 60000\<close>. \<open>getDay\<close> reads the local weekday (0 is Sunday; day 0 of
  the epoch was a Thursday); \<open>setDate(getDate() + i)\<close> moves the instant by \<open>i\<close>
  local days; the date part of \<open>toISOString()\<close> is the UTC calendar day, and parsing a
  date-only string \<open>YYYY-MM-DD\<close> gives UTC midnight of that day. A calendar day is
  represented by its day number since the epoch: the \<open>YYYY-MM-DD\<close> string and the
  day number determine each other.
\<close>

definition ms_per_day :: int where
  "ms_per_day = 86400000"

definition js_local_day :: "int \<Rightarrow> int \<Rightarrow> int" where
  "js_local_day tz ms = (ms + tz * 60000) div ms_per_day"

definition js_get_day :: "int \<Rightarrow> int \<Rightarrow> nat" where
  "js_get_day tz ms = nat ((js_local_day tz ms + 4) mod 7)"

definition js_add_days :: "int \<Rightarrow> int \<Rightarrow> int" where
  "js_add_days ms i = ms + i * ms_per_day"

definition js_iso_day :: "int \<Rightarrow> int" where
  "js_iso_day ms = ms div ms_per_day"

definition js_parse_iso_day :: "int \<Rightarrow> int" where
  "js_parse_iso_day d = d * ms_per_day"

declare ms_per_day_def [js_eval] js_local_day_def [js_eval] js_get_day_def [js_eval]
  js_add_days_def [js_eval] js_iso_day_def [js_eval] js_parse_iso_day_def [js_eval]

lemma js_get_day_lt: "js_get_day tz ms < 7"
  by (simp add: js_get_day_def nat_less_iff)

lemma js_local_day_add_days:
  "js_local_day tz (js_add_days ms i) = js_local_day tz ms + i"
  by (simp add: js_local_day_def js_add_days_def algebra_simps ms_per_day_def)

lemma js_iso_day_add_days: "js_iso_day (js_add_days ms i) = js_iso_day ms + i"
  by (simp add: js_iso_day_def js_add_days_def ms_per_day_def)

text \<open>
  The UTC day and the local day of an instant differ by at most one, and agree exactly
  when the offset does not carry the time of day across midnight.
\<close>

lemma js_local_day_iso_day:
  "\<bar>tz\<bar> < 1440 \<Longrightarrow> js_local_day tz ms - js_iso_day ms \<in> {-1, 0, 1}"
  by (auto simp: js_local_day_def js_iso_day_def ms_per_day_def)

text \<open>
  West of UTC the UTC day of an instant is its local day, or the next day from local
  time \<open>24:00 + tz\<close> on (21:00 in UTC-3).
\<close>

lemma div_shift_west:
  fixes D c a :: int
  assumes "- D < c" and "c < 0"
  shows "(a - c) div D = a div D + (if D + c \<le> a mod D then 1 else 0)"
proof -
  have D: "0 < D" using assms by simp
  have split: "a - c = (a mod D - c) + D * (a div D)"
    by (metis add.commute add_diff_eq div_mult_mod_eq mult.commute)
  have r: "0 \<le> a mod D" "a mod D < D" using D by simp_all
  have q: "(a mod D - c) div D = (if D + c \<le> a mod D then 1 else 0)"
  proof (cases "D + c \<le> a mod D")
    case True
    then have "(a mod D - c) div D = ((a mod D - c - D) + D * 1) div D" by simp
    also have "\<dots> = (a mod D - c - D) div D + 1" using D by (simp only: div_mult_self2)
    also have "(a mod D - c - D) div D = 0" using True r assms by (intro div_pos_pos_trivial) linarith+
    finally show ?thesis using True by simp
  next
    case False
    then have "(a mod D - c) div D = 0" using r assms by (intro div_pos_pos_trivial) linarith+
    with False show ?thesis by simp
  qed
  have "(a - c) div D = (a mod D - c) div D + a div D"
    using D by (subst split) simp
  with q show ?thesis by simp
qed

lemma js_iso_day_west:
  assumes "tz < 0" and "-1440 < tz"
  shows "js_iso_day ms =
           js_local_day tz ms + (if ms_per_day + tz * 60000 \<le> (ms + tz * 60000) mod ms_per_day then 1 else 0)"
proof -
  have "- ms_per_day < tz * 60000" "tz * 60000 < 0" using assms by (simp_all add: ms_per_day_def)
  from div_shift_west [OF this, of "ms + tz * 60000"]
  show ?thesis by (simp add: js_iso_day_def js_local_day_def)
qed
subsection \<open>Split and join\<close>

text \<open>
  \<open>s.split(sep)\<close> for a non-empty separator cuts at every occurrence found scanning left
  to right (an empty string gives one empty piece); for the empty separator it yields the
  characters. \<open>xs.join(sep)\<close> puts the separator between the elements.
\<close>

function js_split_acc :: "string \<Rightarrow> string \<Rightarrow> string \<Rightarrow> string list" where
  "js_split_acc sep cur [] = [rev cur]"
| "js_split_acc sep cur (c # cs) =
     (if sep \<noteq> [] \<and> js_prefix sep (c # cs)
      then rev cur # js_split_acc sep [] (drop (length sep) (c # cs))
      else js_split_acc sep (c # cur) cs)"
  by pat_completeness auto
termination
  by (relation "measure (\<lambda>(sep, cur, s). length s)") auto

definition js_split :: "string \<Rightarrow> string \<Rightarrow> string list" where
  "js_split sep s = (if sep = [] then map (\<lambda>c. [c]) s else js_split_acc sep [] s)"

definition js_join :: "string \<Rightarrow> string list \<Rightarrow> string" where
  "js_join sep xs = (case xs of [] \<Rightarrow> [] | x # ys \<Rightarrow> x @ concat (map (\<lambda>y. sep @ y) ys))"

text \<open>
  Splitting a join gives the elements back when no element, followed by all but the last
  character of the separator, contains the separator: no occurrence then starts inside
  an element.
\<close>

lemma prefix_sep_within:
  assumes "prefix sep (w @ sep @ r)" and "w \<noteq> []"
  shows "prefix sep (w @ butlast sep)"
proof -
  have le: "length sep \<le> length (w @ butlast sep)"
    using assms(2) by (cases w) auto
  have "prefix (w @ butlast sep) (w @ sep @ r)"
    by (metis prefixeq_butlast prefixI prefix_order.trans same_prefix_prefix)
  with assms(1) le show ?thesis
    by (metis prefix_length_prefix)
qed

lemma js_split_acc_sep:
  assumes "\<not> sublist sep (x @ butlast sep)" and "sep \<noteq> []"
  shows "js_split_acc sep cur (x @ sep @ r) = (rev cur @ x) # js_split_acc sep [] r"
  using assms(1)
proof (induction x arbitrary: cur)
  case Nil
  from assms(2) obtain c cs where "sep = c # cs" by (cases sep) auto
  then show ?case by simp
next
  case (Cons c x)
  have np: "\<not> prefix sep (c # x @ sep @ r)"
  proof
    assume "prefix sep (c # x @ sep @ r)"
    then have "prefix sep ((c # x) @ butlast sep)"
      using prefix_sep_within [of sep "c # x" r] by simp
    then have "sublist sep ((c # x) @ butlast sep)" by (rule prefix_imp_sublist)
    with Cons.prems show False by simp
  qed
  have "\<not> sublist sep (x @ butlast sep)"
    using Cons.prems by (auto simp: sublist_Cons_right)
  then have "js_split_acc sep (c # cur) (x @ sep @ r) = (rev (c # cur) @ x) # js_split_acc sep [] r"
    by (rule Cons.IH)
  with np show ?case by simp
qed

lemma js_split_acc_last:
  assumes "\<not> sublist sep x" and "sep \<noteq> []"
  shows "js_split_acc sep cur x = [rev cur @ x]"
  using assms(1)
proof (induction x arbitrary: cur)
  case Nil
  then show ?case by simp
next
  case (Cons c x)
  have "\<not> prefix sep (c # x)" using Cons.prems prefix_imp_sublist by blast
  moreover have "\<not> sublist sep x" using Cons.prems by (auto simp: sublist_Cons_right)
  ultimately show ?case using Cons.IH by simp
qed

lemma sublist_butlast_mono: "\<not> sublist sep (x @ butlast sep) \<Longrightarrow> \<not> sublist sep x"
  by (metis sublist_append_rightI sublist_order.order_trans)

lemma js_split_join:
  assumes "xs \<noteq> []" and "\<forall>x\<in>set xs. \<not> sublist sep (x @ butlast sep)" and "sep \<noteq> []"
  shows "js_split sep (js_join sep xs) = xs"
proof -
  obtain x ys where xs: "xs = x # ys" using assms(1) by (cases xs) auto
  have "js_split_acc sep [] (x @ concat (map (\<lambda>y. sep @ y) ys)) = x # ys"
    if "\<forall>z\<in>set (x # ys). \<not> sublist sep (z @ butlast sep)" for x ys
    using that
  proof (induction ys arbitrary: x)
    case Nil
    then show ?case by (simp add: js_split_acc_last assms(3) sublist_butlast_mono)
  next
    case (Cons y ys)
    have "js_split_acc sep [] (x @ sep @ (y @ concat (map (\<lambda>y. sep @ y) ys))) =
          x # js_split_acc sep [] (y @ concat (map (\<lambda>y. sep @ y) ys))"
      using Cons.prems assms(3) by (simp add: js_split_acc_sep)
    with Cons.IH Cons.prems show ?case by simp
  qed
  with assms(2,3) xs show ?thesis by (simp add: js_split_def js_join_def)
qed

declare js_split_def [js_eval] js_join_def [js_eval]

subsection \<open>Numbers from strings\<close>

text \<open>
  \<open>parseFloat(s)\<close>: skip leading white space, read an optional sign, then either
  \<open>Infinity\<close> or the longest prefix of the form \<open>digits [. digits] [(e|E) [sign] digits]\<close>
  with at least one mantissa digit; no such prefix gives \<open>NaN\<close>. Numbers are exact
  rationals (the rounding to a double is not modelled). The comparisons of a parsed
  value with a number follow IEEE: every comparison with \<open>NaN\<close> is false.
\<close>

datatype js_num = Num rat | NaN | PosInf | NegInf

definition js_is_digit :: "char \<Rightarrow> bool" where
  "js_is_digit c \<longleftrightarrow> 48 \<le> (of_char c :: nat) \<and> (of_char c :: nat) \<le> 57"

definition digits_value :: "string \<Rightarrow> nat" where
  "digits_value ds = foldl (\<lambda>acc c. 10 * acc + (of_char c - 48)) 0 ds"

definition js_sign :: "string \<Rightarrow> int \<times> string" where
  "js_sign s =
     (if s \<noteq> [] \<and> hd s = CHR ''-'' then (-1, tl s)
      else if s \<noteq> [] \<and> hd s = CHR ''+'' then (1, tl s) else (1, s))"

definition js_exponent :: "string \<Rightarrow> int" where
  "js_exponent r =
     (if r \<noteq> [] \<and> (hd r = CHR ''e'' \<or> hd r = CHR ''E'')
      then (let (es, r') = js_sign (tl r); ds = takeWhile js_is_digit r'
            in if ds = [] then 0 else es * int (digits_value ds))
      else 0)"

definition pow10 :: "int \<Rightarrow> rat" where
  "pow10 e = (if 0 \<le> e then 10 ^ nat e else 1 / 10 ^ nat (- e))"

definition js_parse_float :: "string \<Rightarrow> js_num" where
  "js_parse_float s =
     (let (sg, s2) = js_sign (dropWhile js_is_space s)
      in if js_prefix ''Infinity'' s2 then (if sg < 0 then NegInf else PosInf)
         else
           (let d1 = takeWhile js_is_digit s2; r1 = dropWhile js_is_digit s2;
                d2 = (if r1 \<noteq> [] \<and> hd r1 = CHR ''.'' then takeWhile js_is_digit (tl r1) else []);
                r2 = (if r1 \<noteq> [] \<and> hd r1 = CHR ''.'' then dropWhile js_is_digit (tl r1) else r1)
            in if d1 = [] \<and> d2 = [] then NaN
               else Num (of_int sg * (of_nat (digits_value (d1 @ d2)) / 10 ^ length d2) *
                         pow10 (js_exponent r2))))"

fun js_num_le :: "js_num \<Rightarrow> js_number \<Rightarrow> bool" where
  "js_num_le (Num a) r = (a \<le> r)"
| "js_num_le NaN r = False"
| "js_num_le PosInf r = False"
| "js_num_le NegInf r = True"

fun js_num_gt :: "js_num \<Rightarrow> js_number \<Rightarrow> bool" where
  "js_num_gt (Num a) r = (r < a)"
| "js_num_gt NaN r = False"
| "js_num_gt PosInf r = True"
| "js_num_gt NegInf r = False"

declare js_is_digit_def [js_eval] digits_value_def [js_eval] js_sign_def [js_eval]
  js_exponent_def [js_eval] pow10_def [js_eval] js_parse_float_def [js_eval]

lemma js_parse_float_Nil [simp]: "js_parse_float [] = NaN"
  by (simp add: js_eval)

lemma js_num_le_gt: "x \<noteq> NaN \<Longrightarrow> js_num_le x r \<longleftrightarrow> \<not> js_num_gt x r"
  by (cases x) auto

subsection \<open>Number inputs\<close>

text \<open>
  The value of an \<open><input type="number">\<close>, which its \<open>onChange\<close> handler reads as
  \<open>e.target.value\<close>: the HTML value sanitization algorithm keeps the typed text only
  when it is a valid floating-point number (HTML, section 2.3.4.3: an optional \<open>-\<close>,
  digits with an optional fraction \<open>.digits\<close> or the fraction alone, then an optional
  exponent \<open>e\<close> or \<open>E\<close> with an optional sign and digits), and is the empty string
  otherwise. Such a value is read by \<open>parseFloat\<close> as a number.
\<close>

definition html_exponent_ok :: "string \<Rightarrow> bool" where
  "html_exponent_ok r \<longleftrightarrow>
     r = [] \<or>
     (hd r \<in> {CHR ''e'', CHR ''E''} \<and>
      (let r' = (if tl r \<noteq> [] \<and> hd (tl r) \<in> {CHR ''-'', CHR ''+''} then tl (tl r) else tl r)
       in r' \<noteq> [] \<and> list_all js_is_digit r'))"

definition html_valid_float :: "string \<Rightarrow> bool" where
  "html_valid_float s \<longleftrightarrow>
     (let s1 = (if s \<noteq> [] \<and> hd s = CHR ''-'' then tl s else s);
          d1 = takeWhile js_is_digit s1; r1 = dropWhile js_is_digit s1
      in if r1 \<noteq> [] \<and> hd r1 = CHR ''.''
         then takeWhile js_is_digit (tl r1) \<noteq> [] \<and> html_exponent_ok (dropWhile js_is_digit (tl r1))
         else d1 \<noteq> [] \<and> html_exponent_ok r1)"

definition number_input_value :: "string \<Rightarrow> string" where
  "number_input_value s = (if html_valid_float s then s else [])"

declare html_exponent_ok_def [js_eval] html_valid_float_def [js_eval] number_input_value_def [js_eval]

lemma html_valid_float_Nil [simp]: "\<not> html_valid_float []"
  by (simp add: html_valid_float_def)

lemma number_input_value_valid: "html_valid_float (number_input_value s) \<longleftrightarrow> number_input_value s \<noteq> []"
  by (cases "html_valid_float s") (auto simp: number_input_value_def)

lemma html_valid_float_head:
  assumes "html_valid_float s"
  obtains (digit) "js_is_digit (hd s)" "s \<noteq> []" | (dot) "hd s = CHR ''.''" "s \<noteq> []"
  | (minus) "hd s = CHR ''-''" "tl s \<noteq> []" "js_is_digit (hd (tl s)) \<or> hd (tl s) = CHR ''.''"
proof -
  define s1 where "s1 = (if s \<noteq> [] \<and> hd s = CHR ''-'' then tl s else s)"
  have "s1 \<noteq> [] \<and> (js_is_digit (hd s1) \<or> hd s1 = CHR ''.'')"
  proof (cases "takeWhile js_is_digit s1 = []")
    case True
    then have "dropWhile js_is_digit s1 = s1" by (metis append_Nil takeWhile_dropWhile_id)
    with True assms show ?thesis by (auto simp: html_valid_float_def s1_def [symmetric] Let_def split: if_splits)
  next
    case False
    then show ?thesis by (cases s1) (auto split: if_splits)
  qed
  then show ?thesis using that by (cases "s \<noteq> [] \<and> hd s = CHR ''-''") (auto simp: s1_def)
qed

lemma html_valid_float_parse:
  assumes "html_valid_float s"
  shows "\<exists>r. js_parse_float s = Num r"
proof -
  define s1 where "s1 = (if s \<noteq> [] \<and> hd s = CHR ''-'' then tl s else s)"
  have nd: "\<not> js_is_space c" "\<not> js_is_digit c" if "c \<in> {CHR ''-'', CHR ''.''}" for c
    using that by (auto simp: js_is_space_def js_is_digit_def)
  have ds: "\<not> js_is_space c" if "js_is_digit c" for c
    using that by (auto simp: js_is_space_def js_is_digit_def Let_def)
  from assms have "s \<noteq> [] \<and> \<not> js_is_space (hd s) \<and> hd s \<noteq> CHR ''+''"
    by (cases rule: html_valid_float_head) (auto simp: nd ds js_is_digit_def)
  then have sp: "dropWhile js_is_space s = s" and sg: "js_sign s = ((if hd s = CHR ''-'' then -1 else 1), s1)"
    by (auto simp: js_sign_def s1_def neq_Nil_conv)
  have h1: "s1 \<noteq> [] \<and> (js_is_digit (hd s1) \<or> hd s1 = CHR ''.'')"
    using assms by (cases rule: html_valid_float_head) (auto simp: s1_def nd)
  then have ni: "\<not> prefix ''Infinity'' s1"
    by (auto simp: js_is_digit_def neq_Nil_conv)
  have "takeWhile js_is_digit s1 \<noteq> [] \<or>
        (dropWhile js_is_digit s1 \<noteq> [] \<and> hd (dropWhile js_is_digit s1) = CHR ''.'' \<and>
         takeWhile js_is_digit (tl (dropWhile js_is_digit s1)) \<noteq> [])"
    using assms by (auto simp: html_valid_float_def s1_def [symmetric] Let_def split: if_splits)
  then show ?thesis
    by (auto simp: js_parse_float_def sp sg ni Let_def)
qed

subsection \<open>Sorting with a comparator\<close>

text \<open>
  \<open>xs.sort(cmp)\<close> orders the array so that \<open>cmp a b > 0\<close> puts \<open>b\<close> first; since ES2019
  the sort is stable, so for a consistent comparator the result is unique and equals
  that of a stable insertion sort: each element is inserted before the first element it
  does not compare greater than.
\<close>

fun js_insert :: "('a \<Rightarrow> 'a \<Rightarrow> js_number) \<Rightarrow> 'a \<Rightarrow> 'a list \<Rightarrow> 'a list" where
  "js_insert cmp x [] = [x]"
| "js_insert cmp x (y # ys) =
     (if 0 < cmp x y then y # js_insert cmp x ys else x # y # ys)"

fun js_sort :: "('a \<Rightarrow> 'a \<Rightarrow> js_number) \<Rightarrow> 'a list \<Rightarrow> 'a list" where
  "js_sort cmp [] = []"
| "js_sort cmp (x # xs) = js_insert cmp x (js_sort cmp xs)"

lemma mset_js_insert [simp]: "mset (js_insert cmp x xs) = add_mset x (mset xs)"
  by (induction xs) auto

lemma mset_js_sort [simp]: "mset (js_sort cmp xs) = mset xs"
  by (induction xs) auto

lemma set_js_sort [simp]: "set (js_sort cmp xs) = set xs"
  by (metis mset_js_sort set_mset_mset)

lemma length_js_sort [simp]: "length (js_sort cmp xs) = length xs"
  by (metis mset_js_sort size_mset)

text \<open>
  A comparator that is the difference of a key is the library's stable sort on that
  key; the comparator that is always 0 leaves the array as it is.
\<close>

lemma js_insert_key:
  assumes "\<And>a b. cmp a b = k a - k b"
  shows "js_insert cmp x xs = insort_key k x xs"
  by (induction xs) (auto simp: assms)

lemma js_sort_key:
  assumes "\<And>a b. cmp a b = k a - k b"
  shows "js_sort cmp xs = sort_key k xs"
  by (induction xs) (simp_all add: js_insert_key [OF assms])

lemma js_insert_zero: "js_insert (\<lambda>_ _. 0) x xs = x # xs"
  by (cases xs) auto

lemma js_sort_zero: "js_sort (\<lambda>_ _. 0) xs = xs"
  by (induction xs) (simp_all add: js_insert_zero)

end
