(* ===== verification/Data.thy ===== *)
theory Data
  imports JsLib
begin

text \<open>
  The data model of \<open>src/types/index.ts\<close> and the static tables of
  \<open>src/data/teachers.ts\<close> and \<open>src/data/subjects.ts\<close>. Interfaces are records; the
  field \<open>id\<close> of each interface is renamed with the record's initial (\<open>tid\<close>,
  \<open>uid\<close>, \<open>sid\<close>) and the other fields shared between interfaces get the same
  prefix, since record fields are global names in HOL. The string-literal union
  \<open>'student' | 'teacher'\<close> is a datatype. The tables are transcribed literally;
  accented letters are written as their Latin-1 code units (\<open>CHR 0xE1\<close> is
  the letter a with an acute accent).
\<close>

record teacher =
  tid :: string
  name :: string
  avatar :: string
  subjects :: "string list"
  rating :: js_number
  reviewCount :: js_number
  hourlyRate :: js_number
  experience :: string
  bio :: string
  languages :: "string list"
  availability :: "string list"
  verified :: bool

datatype role = Student | Teacher

record user =
  uid :: string
  uname :: string
  email :: string
  uavatar :: "string option"
  role :: role

record subject =
  sid :: string
  sname :: string
  category :: string
  icon :: string

definition teachers :: "teacher list" where
  "teachers = [
   \<lparr>tid = ''1'',
    name = ''Sarah Johnson'',
    avatar = ''https://images.pexels.com/photos/774909/pexels-photo-774909.jpeg?auto=compress&cs=tinysrgb&w=400'',
    subjects = [''Matem'' @ [CHR 0xE1] @ ''tica'', ''F'' @ [CHR 0xED] @ ''sica''],
    rating = 49/10, reviewCount = 127, hourlyRate = 45,
    experience = ''8 anos'',
    bio = ''Professora apaixonada por matem'' @ [CHR 0xE1] @ ''tica e f'' @ [CHR 0xED] @ ''sica com doutorado em Matem'' @ [CHR 0xE1] @ ''tica Aplicada. Especializo-me em tornar conceitos complexos acess'' @ [CHR 0xED] @ ''veis e envolventes para estudantes de todos os n'' @ [CHR 0xED] @ ''veis.'',
    languages = [''Portugu'' @ [CHR 0xEA] @ ''s'', ''Ingl'' @ [CHR 0xEA] @ ''s''],
    availability = [''Segunda'', ''Ter'' @ [CHR 0xE7] @ ''a'', ''Quarta'', ''Sexta''],
    verified = True\<rparr>,
   \<lparr>tid = ''2'',
    name = ''Michael Chen'',
    avatar = ''https://images.pexels.com/photos/1222271/pexels-photo-1222271.jpeg?auto=compress&cs=tinysrgb&w=400'',
    subjects = [''Ci'' @ [CHR 0xEA] @ ''ncia da Computa'' @ [CHR 0xE7] @ [CHR 0xE3] @ ''o'', ''Programa'' @ [CHR 0xE7] @ [CHR 0xE3] @ ''o''],
    rating = 48/10, reviewCount = 89, hourlyRate = 55,
    experience = ''6 anos'',
    bio = ''Engenheiro de software s'' @ [CHR 0xEA] @ ''nior que se tornou educador. Ensino fundamentos de programa'' @ [CHR 0xE7] @ [CHR 0xE3] @ ''o, desenvolvimento web e conceitos de ci'' @ [CHR 0xEA] @ ''ncia da computa'' @ [CHR 0xE7] @ [CHR 0xE3] @ ''o com aplica'' @ [CHR 0xE7] @ [CHR 0xF5] @ ''es do mundo real.'',
    languages = [''Portugu'' @ [CHR 0xEA] @ ''s'', ''Ingl'' @ [CHR 0xEA] @ ''s'', ''Mandarim''],
    availability = [''Ter'' @ [CHR 0xE7] @ ''a'', ''Quinta'', ''S'' @ [CHR 0xE1] @ ''bado'', ''Domingo''],
    verified = True\<rparr>,
   \<lparr>tid = ''3'',
    name = ''Emily Rodriguez'',
    avatar = ''https://images.pexels.com/photos/1239291/pexels-photo-1239291.jpeg?auto=compress&cs=tinysrgb&w=400'',
    subjects = [''Literatura'', ''Reda'' @ [CHR 0xE7] @ [CHR 0xE3] @ ''o''],
    rating = 49/10, reviewCount = 156, hourlyRate = 40,
    experience = ''10 anos'',
    bio = ''Ex-professora universit'' @ [CHR 0xE1] @ ''ria com expertise em literatura e escrita criativa. Ajudo estudantes a desenvolver pensamento cr'' @ [CHR 0xED] @ ''tico e habilidades de escrita.'',
    languages = [''Portugu'' @ [CHR 0xEA] @ ''s'', ''Espanhol'', ''Franc'' @ [CHR 0xEA] @ ''s''],
    availability = [''Segunda'', ''Quarta'', ''Quinta'', ''Sexta''],
    verified = True\<rparr>,
   \<lparr>tid = ''4'',
    name = ''David Kim'',
    avatar = ''https://images.pexels.com/photos/1681010/pexels-photo-1681010.jpeg?auto=compress&cs=tinysrgb&w=400'',
    subjects = [''Qu'' @ [CHR 0xED] @ ''mica'', ''Biologia''],
    rating = 47/10, reviewCount = 73, hourlyRate = 42,
    experience = ''5 anos'',
    bio = ''Estudante de medicina com forte forma'' @ [CHR 0xE7] @ [CHR 0xE3] @ ''o em qu'' @ [CHR 0xED] @ ''mica e biologia. Foco em ajudar estudantes a entender conceitos cient'' @ [CHR 0xED] @ ''ficos atrav'' @ [CHR 0xE9] @ ''s de exemplos pr'' @ [CHR 0xE1] @ ''ticos.'',
    languages = [''Portugu'' @ [CHR 0xEA] @ ''s'', ''Ingl'' @ [CHR 0xEA] @ ''s'', ''Coreano''],
    availability = [''Segunda'', ''Ter'' @ [CHR 0xE7] @ ''a'', ''S'' @ [CHR 0xE1] @ ''bado'', ''Domingo''],
    verified = True\<rparr>,
   \<lparr>tid = ''5'',
    name = ''Anna Petrov'',
    avatar = ''https://images.pexels.com/photos/1181686/pexels-photo-1181686.jpeg?auto=compress&cs=tinysrgb&w=400'',
    subjects = [''Hist'' @ [CHR 0xF3] @ ''ria'', ''Geografia''],
    rating = 48/10, reviewCount = 94, hourlyRate = 38,
    experience = ''7 anos'',
    bio = ''Entusiasta da hist'' @ [CHR 0xF3] @ ''ria com mestrado em Hist'' @ [CHR 0xF3] @ ''ria Europeia. Fa'' @ [CHR 0xE7] @ ''o eventos hist'' @ [CHR 0xF3] @ ''ricos ganharem vida atrav'' @ [CHR 0xE9] @ ''s de narrativas e aprendizado interativo.'',
    languages = [''Portugu'' @ [CHR 0xEA] @ ''s'', ''Ingl'' @ [CHR 0xEA] @ ''s'', ''Russo'', ''Alem'' @ [CHR 0xE3] @ ''o''],
    availability = [''Quarta'', ''Quinta'', ''Sexta'', ''S'' @ [CHR 0xE1] @ ''bado''],
    verified = True\<rparr>,
   \<lparr>tid = ''6'',
    name = ''James Wilson'',
    avatar = ''https://images.pexels.com/photos/1043471/pexels-photo-1043471.jpeg?auto=compress&cs=tinysrgb&w=400'',
    subjects = [''Economia'', ''Administra'' @ [CHR 0xE7] @ [CHR 0xE3] @ ''o''],
    rating = 46/10, reviewCount = 61, hourlyRate = 48,
    experience = ''9 anos'',
    bio = ''Consultor empresarial e professor de economia. Ajudo estudantes a entender princ'' @ [CHR 0xED] @ ''pios econ'' @ [CHR 0xF4] @ ''micos e suas aplica'' @ [CHR 0xE7] @ [CHR 0xF5] @ ''es no mundo real dos neg'' @ [CHR 0xF3] @ ''cios.'',
    languages = [''Portugu'' @ [CHR 0xEA] @ ''s'', ''Ingl'' @ [CHR 0xEA] @ ''s''],
    availability = [''Segunda'', ''Ter'' @ [CHR 0xE7] @ ''a'', ''Quinta'', ''Sexta''],
    verified = True\<rparr>]"

definition subjects_table :: "subject list" where
  "subjects_table = [
   \<lparr>sid = ''1'', sname = ''Matem'' @ [CHR 0xE1] @ ''tica'', category = ''Exatas'', icon = ''Calculator''\<rparr>,
   \<lparr>sid = ''2'', sname = ''F'' @ [CHR 0xED] @ ''sica'', category = ''Exatas'', icon = ''Atom''\<rparr>,
   \<lparr>sid = ''3'', sname = ''Qu'' @ [CHR 0xED] @ ''mica'', category = ''Exatas'', icon = ''TestTube''\<rparr>,
   \<lparr>sid = ''4'', sname = ''Biologia'', category = ''Exatas'', icon = ''Microscope''\<rparr>,
   \<lparr>sid = ''5'', sname = ''Ci'' @ [CHR 0xEA] @ ''ncia da Computa'' @ [CHR 0xE7] @ [CHR 0xE3] @ ''o'', category = ''Exatas'', icon = ''Monitor''\<rparr>,
   \<lparr>sid = ''6'', sname = ''Programa'' @ [CHR 0xE7] @ [CHR 0xE3] @ ''o'', category = ''Exatas'', icon = ''Code''\<rparr>,
   \<lparr>sid = ''7'', sname = ''Literatura'', category = ''Humanas'', icon = ''BookOpen''\<rparr>,
   \<lparr>sid = ''8'', sname = ''Reda'' @ [CHR 0xE7] @ [CHR 0xE3] @ ''o'', category = ''Humanas'', icon = ''PenTool''\<rparr>,
   \<lparr>sid = ''9'', sname = ''Hist'' @ [CHR 0xF3] @ ''ria'', category = ''Humanas'', icon = ''Clock''\<rparr>,
   \<lparr>sid = ''10'', sname = ''Geografia'', category = ''Humanas'', icon = ''Globe''\<rparr>,
   \<lparr>sid = ''11'', sname = ''Economia'', category = ''Neg'' @ [CHR 0xF3] @ ''cios'', icon = ''TrendingUp''\<rparr>,
   \<lparr>sid = ''12'', sname = ''Administra'' @ [CHR 0xE7] @ [CHR 0xE3] @ ''o'', category = ''Neg'' @ [CHR 0xF3] @ ''cios'', icon = ''Briefcase''\<rparr>]"

definition categories :: "string list" where
  "categories = [''Todas'', ''Exatas'', ''Humanas'', ''Neg'' @ [CHR 0xF3] @ ''cios'']"

declare teachers_def [data_eval] subjects_table_def [data_eval] categories_def [data_eval]

end
