(* ===== verification/Catalog.thy ===== *)
theory Catalog
  imports Data
begin

text \<open>
  The teacher catalog: \<open>src/pages/TeacherCatalog.tsx\<close> with its filter side bar
  \<open>src/components/SubjectFilter.tsx\<close>. The component's \<open>useState\<close> hooks are the
  record \<open>catalog_state\<close>; the memoised values \<open>availableSubjects\<close> and
  \<open>filteredTeachers\<close> are functions of the state; each control the page renders is a
  constructor of \<open>catalog_event\<close>, and \<open>catalog_step\<close> applies the control's
  handler, \<open>None\<close> when the control is not on the screen. The filter is proved to
  return exactly the matching teachers, the sort to be the library's stable sort on a
  key, and the reachable states to keep the side bar's selections well formed;
  the spec's invariant that the selected subjects are among the visible ones is
  refuted by a reachable state.
\<close>

subsection \<open>State and derived values\<close>

record catalog_state =
  searchTerm :: string
  selectedCategory :: string
  selectedSubjects :: "string list"
  showFilters :: bool
  sortBy :: string

definition catalog_init :: catalog_state where
  "catalog_init = \<lparr>searchTerm = [], selectedCategory = ''Todas'', selectedSubjects = [],
                   showFilters = False, sortBy = ''rating''\<rparr>"

text \<open>\<open>availableSubjects\<close>: all subject names, or those of the selected category.\<close>

definition available_subjects :: "string \<Rightarrow> string list" where
  "available_subjects cat =
     (if cat = ''Todas'' then map sname subjects_table
      else map sname (filter (\<lambda>s. category s = cat) subjects_table))"

text \<open>The two conjuncts of the filter predicate of \<open>filteredTeachers\<close>.\<close>

definition matches_search :: "string \<Rightarrow> teacher \<Rightarrow> bool" where
  "matches_search term t \<longleftrightarrow>
     js_str_includes (js_to_lower_case (name t)) (js_to_lower_case term) \<or>
     list_ex (\<lambda>s. js_str_includes (js_to_lower_case s) (js_to_lower_case term)) (subjects t)"

definition matches_subjects :: "string list \<Rightarrow> teacher \<Rightarrow> bool" where
  "matches_subjects sel t \<longleftrightarrow> length sel = 0 \<or> list_ex (\<lambda>s. s \<in> set (subjects t)) sel"

text \<open>The comparator passed to \<open>filtered.sort\<close>: the \<open>switch (sortBy)\<close>.\<close>

definition compare_teachers :: "string \<Rightarrow> teacher \<Rightarrow> teacher \<Rightarrow> js_number" where
  "compare_teachers sb a b =
     (if sb = ''rating'' then rating b - rating a
      else if sb = ''price-low'' then hourlyRate a - hourlyRate b
      else if sb = ''price-high'' then hourlyRate b - hourlyRate a
      else if sb = ''reviews'' then reviewCount b - reviewCount a
      else 0)"

definition filter_teachers ::
  "string \<Rightarrow> string list \<Rightarrow> string \<Rightarrow> teacher list \<Rightarrow> teacher list" where
  "filter_teachers term sel sb ts =
     js_sort (compare_teachers sb)
       (filter (\<lambda>t. matches_search term t \<and> matches_subjects sel t) ts)"

text \<open>\<open>filteredTeachers\<close> of a state: the filter over the static table.\<close>

definition catalog_results :: "catalog_state \<Rightarrow> teacher list" where
  "catalog_results st =
     filter_teachers (searchTerm st) (selectedSubjects st) (sortBy st) teachers"

text \<open>The result count line: \<open>n professor(es) encontrado(s)\<close>.\<close>

definition results_label :: "nat \<Rightarrow> string" where
  "results_label n =
     js_nat_to_string n @ '' professor'' @ (if n \<noteq> 1 then ''es'' else []) @
     '' encontrado'' @ (if n \<noteq> 1 then ''s'' else [])"

subsection \<open>Events\<close>

text \<open>The values of the sort \<open><select>\<close>.\<close>

definition sort_options :: "string list" where
  "sort_options = [''rating'', ''price-low'', ''price-high'', ''reviews'']"

text \<open>\<open>handleSubjectToggle\<close> of the side bar.\<close>

definition handle_subject_toggle :: "string list \<Rightarrow> string \<Rightarrow> string list" where
  "handle_subject_toggle sel s =
     (if s \<in> set sel then filter (\<lambda>x. x \<noteq> s) sel else sel @ [s])"

datatype catalog_event =
    SetSearchTerm string
  | ToggleFilters
  | SetSortBy string
  | CategoryChange string
  | SubjectToggle string
  | ClearSubjects

text \<open>
  The side bar's controls exist only while \<open>showFilters\<close> holds; its category buttons
  range over \<open>categories\<close>, its check boxes over \<open>availableSubjects\<close>, and its
  clear button is rendered only while a subject is selected.
\<close>

fun catalog_step :: "catalog_state \<Rightarrow> catalog_event \<Rightarrow> catalog_state option" where
  "catalog_step st (SetSearchTerm v) = Some (st\<lparr>searchTerm := v\<rparr>)"
| "catalog_step st ToggleFilters = Some (st\<lparr>showFilters := \<not> showFilters st\<rparr>)"
| "catalog_step st (SetSortBy v) =
     (if v \<in> set sort_options then Some (st\<lparr>sortBy := v\<rparr>) else None)"
| "catalog_step st (CategoryChange c) =
     (if showFilters st \<and> c \<in> set categories then Some (st\<lparr>selectedCategory := c\<rparr>)
      else None)"
| "catalog_step st (SubjectToggle s) =
     (if showFilters st \<and> s \<in> set (available_subjects (selectedCategory st))
      then Some (st\<lparr>selectedSubjects := handle_subject_toggle (selectedSubjects st) s\<rparr>)
      else None)"
| "catalog_step st ClearSubjects =
     (if showFilters st \<and> length (selectedSubjects st) > 0
      then Some (st\<lparr>selectedSubjects := []\<rparr>) else None)"

inductive catalog_reachable :: "catalog_state \<Rightarrow> bool" where
  init: "catalog_reachable catalog_init"
| step: "catalog_reachable st \<Longrightarrow> catalog_step st e = Some st' \<Longrightarrow> catalog_reachable st'"

fun catalog_run :: "catalog_state \<Rightarrow> catalog_event list \<Rightarrow> catalog_state option" where
  "catalog_run st [] = Some st"
| "catalog_run st (e # es) =
     (case catalog_step st e of None \<Rightarrow> None | Some st' \<Rightarrow> catalog_run st' es)"

text \<open>The sort key that the comparator is the difference of.\<close>

definition catalog_key :: "string \<Rightarrow> teacher \<Rightarrow> js_number" where
  "catalog_key sb t =
     (if sb = ''rating'' then - rating t
      else if sb = ''price-low'' then hourlyRate t
      else if sb = ''price-high'' then - hourlyRate t
      else if sb = ''reviews'' then - reviewCount t
      else 0)"

definition subject_names :: "string list" where
  "subject_names = map sname subjects_table"

text \<open>What every reachable state keeps: the selections come from the rendered controls.\<close>

definition catalog_inv :: "catalog_state \<Rightarrow> bool" where
  "catalog_inv st \<longleftrightarrow>
     distinct (selectedSubjects st) \<and> set (selectedSubjects st) \<subseteq> set subject_names \<and>
     selectedCategory st \<in> set categories \<and> sortBy st \<in> set sort_options"

text \<open>A state reached by opening the side bar and ticking \<open>Literatura\<close>.\<close>

definition catalog_literature :: catalog_state where
  "catalog_literature = catalog_init\<lparr>showFilters := True, selectedSubjects := [''Literatura'']\<rparr>"

declare catalog_init_def [step_eval] available_subjects_def [step_eval]
  handle_subject_toggle_def [step_eval] sort_options_def [step_eval]

fun_cases catalog_step_SubjectToggleE: "catalog_step st (SubjectToggle s) = Some st'"
fun_cases catalog_step_CategoryChangeE: "catalog_step st (CategoryChange c) = Some st'"
fun_cases catalog_step_SetSortByE: "catalog_step st (SetSortBy v) = Some st'"
fun_cases catalog_step_ClearSubjectsE: "catalog_step st ClearSubjects = Some st'"

lemmas catalog_eval = catalog_results_def filter_teachers_def matches_search_def
  matches_subjects_def compare_teachers_def

subsection \<open>The filter and the sort\<close>

lemma compare_teachers_key: "compare_teachers sb a b = catalog_key sb a - catalog_key sb b"
  by (simp add: compare_teachers_def catalog_key_def)

lemma filter_teachers_sort_key:
  "filter_teachers term sel sb ts =
     sort_key (catalog_key sb) (filter (\<lambda>t. matches_search term t \<and> matches_subjects sel t) ts)"
  unfolding filter_teachers_def by (rule js_sort_key [OF compare_teachers_key])

lemma mset_filter_teachers:
  "mset (filter_teachers term sel sb ts) =
     mset (filter (\<lambda>t. matches_search term t \<and> matches_subjects sel t) ts)"
  by (simp add: filter_teachers_def)

lemma set_filter_teachers:
  "set (filter_teachers term sel sb ts) =
     {t \<in> set ts. matches_search term t \<and> matches_subjects sel t}"
  by (simp add: filter_teachers_def)

lemma sorted_filter_teachers:
  "sorted (map (catalog_key sb) (filter_teachers term sel sb ts))"
  by (simp add: filter_teachers_sort_key)

lemma matches_subjects_Nil [simp]: "matches_subjects [] t"
  by (simp add: matches_subjects_def)

lemma matches_search_Nil [simp]: "matches_search [] t"
  by (simp add: matches_search_def)

lemma matches_search_lower:
  "matches_search (js_to_lower_case term) t = matches_search term t"
  by (simp add: matches_search_def)

lemma catalog_key_unknown:
  "sb \<notin> set sort_options \<Longrightarrow> catalog_key sb t = 0"
  by (simp add: catalog_key_def sort_options_def)

subsection \<open>The side bar's selections\<close>

lemma set_handle_subject_toggle:
  "set (handle_subject_toggle sel s) =
     (if s \<in> set sel then set sel - {s} else insert s (set sel))"
  by (auto simp: handle_subject_toggle_def)

lemma distinct_handle_subject_toggle:
  "distinct sel \<Longrightarrow> distinct (handle_subject_toggle sel s)"
  by (simp add: handle_subject_toggle_def)

lemma available_subjects_subset: "set (available_subjects c) \<subseteq> set subject_names"
  by (auto simp: available_subjects_def subject_names_def)

lemma catalog_inv_init: "catalog_inv catalog_init"
  by (simp add: catalog_inv_def catalog_init_def data_eval sort_options_def)

lemma catalog_step_inv:
  assumes "catalog_inv st" and "catalog_step st e = Some st'"
  shows "catalog_inv st'"
proof (cases e)
  case (SubjectToggle s)
  with assms(2) have s: "s \<in> set (available_subjects (selectedCategory st))"
    and st': "st' = st\<lparr>selectedSubjects := handle_subject_toggle (selectedSubjects st) s\<rparr>"
    by (auto elim!: catalog_step_SubjectToggleE split: if_splits)
  from s have "s \<in> set subject_names" using available_subjects_subset by blast
  with assms(1) show ?thesis
    by (auto simp: st' catalog_inv_def set_handle_subject_toggle distinct_handle_subject_toggle)
qed (use assms in \<open>auto simp: catalog_inv_def split: if_splits\<close>)

lemma catalog_reachable_inv: "catalog_reachable st \<Longrightarrow> catalog_inv st"
  by (induction rule: catalog_reachable.induct) (auto intro: catalog_inv_init catalog_step_inv)

lemma catalog_run_reachable:
  "catalog_reachable st \<Longrightarrow> catalog_run st es = Some st' \<Longrightarrow> catalog_reachable st'"
proof (induction es arbitrary: st)
  case Nil
  then show ?case by simp
next
  case (Cons e es)
  then obtain s1 where "catalog_step st e = Some s1" and "catalog_run s1 es = Some st'"
    by (auto split: option.splits)
  with Cons show ?case by (blast intro: catalog_reachable.step)
qed

subsection \<open>Properties of the catalog\<close>

text \<open>
  C1: \<open>filteredTeachers\<close> holds exactly the teachers of the table whose name or a subject contains the search term case-insensitively and that have one of the selected subjects (or no subject is selected), each as often as in the table: the result is a permutation of the filtered table.
\<close>
theorem catalog_filter_exact:
  "mset (filter_teachers q sel sb ts) =
     filter_mset (\<lambda>t. matches_search q t \<and> matches_subjects sel t) (mset ts)"
  by (simp add: mset_filter_teachers mset_filter)

text \<open>
  C2: for each sort key the result is ordered as the spec says: \<open>rating\<close> by descending rating, \<open>price-low\<close> by ascending and \<open>price-high\<close> by descending hourly rate, \<open>reviews\<close> by descending review count.
\<close>
theorem catalog_sorted:
  "sorted_wrt (\<lambda>a b. rating b \<le> rating a) (filter_teachers q sel ''rating'' ts) \<and>
   sorted_wrt (\<lambda>a b. hourlyRate a \<le> hourlyRate b) (filter_teachers q sel ''price-low'' ts) \<and>
   sorted_wrt (\<lambda>a b. hourlyRate b \<le> hourlyRate a) (filter_teachers q sel ''price-high'' ts) \<and>
   sorted_wrt (\<lambda>a b. reviewCount b \<le> reviewCount a) (filter_teachers q sel ''reviews'' ts)"
  by (intro conjI; rule sorted_wrt_key [OF sorted_filter_teachers]) (simp_all add: catalog_key_def)

text \<open>
  C3: the sort is stable: teachers that tie on the sort key appear in the order of the static table.
\<close>
theorem catalog_ties_in_table_order:
  "filter (\<lambda>t. catalog_key sb t = v) (filter_teachers q sel sb ts) =
   filter (\<lambda>t. catalog_key sb t = v \<and> matches_search q t \<and> matches_subjects sel t) ts"
  by (simp add: filter_teachers_sort_key sort_key_stable filter_filter conj_commute)

text \<open>
  A sort key outside the four options of the select leaves the filtered teachers in table order.
\<close>
theorem catalog_unknown_sort_keeps_order:
  "sb \<notin> set sort_options \<Longrightarrow>
   filter_teachers q sel sb ts = filter (\<lambda>t. matches_search q t \<and> matches_subjects sel t) ts"
proof -
  assume "sb \<notin> set sort_options"
  then have "compare_teachers sb = (\<lambda>_ _. 0)"
    by (intro ext) (simp add: compare_teachers_key catalog_key_unknown)
  then show ?thesis by (simp add: filter_teachers_def js_sort_zero)
qed

theorem catalog_unknown_sort_keeps_order_witness:
  "''name'' \<notin> set sort_options \<and>
   map name (filter_teachers [] [] ''name'' teachers) = map name teachers"
  using catalog_unknown_sort_keeps_order [of "''name''" "[]" "[]" teachers]
  by (simp add: sort_options_def)

text \<open>
  Selecting subjects never shows a teacher who lacks every selected subject, and every shown teacher matches the search term.
\<close>
theorem catalog_subject_sound:
  assumes "t \<in> set (catalog_results st)" and "selectedSubjects st \<noteq> []"
  shows "matches_search (searchTerm st) t \<and> (\<exists>s\<in>set (selectedSubjects st). s \<in> set (subjects t))"
  using assms by (auto simp: catalog_results_def set_filter_teachers matches_subjects_def list_ex_iff)

theorem catalog_subject_sound_witness:
  "teachers ! 2 \<in> set (catalog_results (catalog_init\<lparr>selectedSubjects := [''Literatura'']\<rparr>)) \<and>
   [''Literatura''] \<noteq> [] \<and> ''Literatura'' \<in> set (subjects (teachers ! 2))"
proof -
  have r: "teachers ! 2 \<in> set (catalog_results (catalog_init\<lparr>selectedSubjects := [''Literatura'']\<rparr>))"
    by (simp add: catalog_eval catalog_init_def data_eval js_eval)
  show ?thesis
    using r catalog_subject_sound [OF r] by simp
qed

text \<open>
  The side bar's clear button returns the catalog to the search-only result: every teacher matching the search term, and only those.
\<close>
theorem catalog_clear_search_only:
  "catalog_step st ClearSubjects = Some st' \<Longrightarrow>
   set (catalog_results st') = {t \<in> set teachers. matches_search (searchTerm st) t}"
  by (auto simp: catalog_results_def set_filter_teachers split: if_splits)

theorem catalog_clear_search_only_witness:
  "catalog_step (catalog_init\<lparr>showFilters := True, selectedSubjects := [''Literatura'']\<rparr>) ClearSubjects
     = Some (catalog_init\<lparr>showFilters := True\<rparr>) \<and>
   set (catalog_results (catalog_init\<lparr>showFilters := True\<rparr>)) = set teachers"
proof -
  have s: "catalog_step (catalog_init\<lparr>showFilters := True, selectedSubjects := [''Literatura'']\<rparr>)
             ClearSubjects = Some (catalog_init\<lparr>showFilters := True\<rparr>)"
    by (simp add: catalog_init_def)
  show ?thesis
    using s catalog_clear_search_only [OF s] by (simp add: catalog_init_def)
qed

text \<open>
  C7: the search is case-insensitive: lower-casing the query does not change the result.
\<close>
theorem catalog_case_insensitive:
  "filter_teachers (js_to_lower_case q) sel sb ts = filter_teachers q sel sb ts"
  by (simp add: filter_teachers_def matches_search_lower)

text \<open>
  C8: in every reachable state of the page the selected subjects are distinct names of the subject table, the category is one of the category buttons and the sort key one of the select's options.
\<close>
theorem catalog_invariant: "catalog_reachable st \<Longrightarrow> catalog_inv st"
  by (rule catalog_reachable_inv)

lemma catalog_literature_reachable: "catalog_reachable catalog_literature"
proof -
  have "catalog_run catalog_init [ToggleFilters, SubjectToggle ''Literatura''] = Some catalog_literature"
    by (simp add: catalog_literature_def step_eval data_eval)
  then show ?thesis by (rule catalog_run_reachable [OF catalog_reachable.init])
qed

theorem catalog_invariant_witness:
  "catalog_reachable catalog_literature \<and> catalog_inv catalog_literature"
  using catalog_literature_reachable catalog_invariant [OF catalog_literature_reachable] by simp

text \<open>
  C9: the spec's invariant that the selected subjects are a subset of the visible subject list does not hold: after ticking Literatura and switching the category to Exatas, Literatura is selected but not visible, and it still filters the result.
\<close>
theorem catalog_selected_not_visible:
  "catalog_reachable (catalog_literature\<lparr>selectedCategory := ''Exatas''\<rparr>) \<and>
   \<not> set (selectedSubjects (catalog_literature\<lparr>selectedCategory := ''Exatas''\<rparr>))
       \<subseteq> set (available_subjects ''Exatas'') \<and>
   map name (catalog_results (catalog_literature\<lparr>selectedCategory := ''Exatas''\<rparr>)) =
     [''Emily Rodriguez'']"
proof (intro conjI)
  have "catalog_step catalog_literature (CategoryChange ''Exatas'') =
          Some (catalog_literature\<lparr>selectedCategory := ''Exatas''\<rparr>)"
    by (simp add: catalog_literature_def catalog_init_def data_eval)
  then show "catalog_reachable (catalog_literature\<lparr>selectedCategory := ''Exatas''\<rparr>)"
    by (rule catalog_reachable.step [OF catalog_literature_reachable])
  show "\<not> set (selectedSubjects (catalog_literature\<lparr>selectedCategory := ''Exatas''\<rparr>))
       \<subseteq> set (available_subjects ''Exatas'')"
    by (simp add: catalog_literature_def catalog_init_def step_eval data_eval)
  show "map name (catalog_results (catalog_literature\<lparr>selectedCategory := ''Exatas''\<rparr>)) =
     [''Emily Rodriguez'']"
    by (simp add: catalog_literature_def catalog_init_def catalog_eval data_eval js_eval)
qed

text \<open>
  On the static table, the initial page lists the teachers by descending rating with ties in table order, the query MAT finds Sarah Johnson by her subject, and the price-high key orders by descending hourly rate.
\<close>
theorem catalog_examples:
  "map name (catalog_results catalog_init) =
     [''Sarah Johnson'', ''Emily Rodriguez'', ''Michael Chen'', ''Anna Petrov'', ''David Kim'',
      ''James Wilson''] \<and>
   map name (filter_teachers ''MAT'' [] ''price-low'' teachers) = [''Sarah Johnson''] \<and>
   map name (filter_teachers [] [] ''price-high'' teachers) =
     [''Michael Chen'', ''James Wilson'', ''Sarah Johnson'', ''David Kim'', ''Emily Rodriguez'',
      ''Anna Petrov'']"
  by (simp add: catalog_init_def catalog_eval data_eval js_eval)

end
