(* ===== verification/WizardSpec.thy ===== *)
theory WizardSpec
  imports Prelude
begin

text \<open>
  The booking wizard's contract as the specification states it (section 4.2 of the
  spec): a three-step linear wizard, open or closed, that records whether a date and a
  time are chosen; the move from step 1 to step 2 needs both, steps 2 and 3 move forward
  and back freely, and the submission from step 3 closes the wizard at step 1 with the
  price \<open>rate * duration / 60\<close> for a duration of 30, 60, 90 or 120 minutes. The
  abstract machine \<open>awiz_step\<close> is a labelled relation: \<open>Tau\<close> for an internal step,
  \<open>Submit d p\<close> for a submission of duration \<open>d\<close> at price \<open>p\<close>. The refinement
  theorem in \<open>Booking\<close> maps every run of \<open>sched_step\<close> to an abstract trace
  of the same length with the same submissions.
\<close>

datatype wstep = Step1 | Step2 | Step3

record awiz =
  a_open :: bool
  a_step :: wstep
  a_date :: bool
  a_time :: bool

datatype wlabel = Tau | Submit js_number js_number

definition awiz_init :: awiz where
  "awiz_init = \<lparr>a_open = False, a_step = Step1, a_date = False, a_time = False\<rparr>"

inductive awiz_step :: "js_number \<Rightarrow> awiz \<Rightarrow> wlabel \<Rightarrow> awiz \<Rightarrow> bool" for r :: js_number where
  open_wiz: "\<not> a_open w \<Longrightarrow> awiz_step r w Tau (w\<lparr>a_open := True\<rparr>)"
| close_wiz: "a_open w \<Longrightarrow> awiz_step r w Tau (w\<lparr>a_open := False\<rparr>)"
| pick_date: "a_open w \<Longrightarrow> a_step w = Step1 \<Longrightarrow> awiz_step r w Tau (w\<lparr>a_date := True\<rparr>)"
| pick_time: "a_open w \<Longrightarrow> a_step w = Step1 \<Longrightarrow> awiz_step r w Tau (w\<lparr>a_time := True\<rparr>)"
| forward1: "a_open w \<Longrightarrow> a_step w = Step1 \<Longrightarrow> a_date w \<Longrightarrow> a_time w \<Longrightarrow>
             awiz_step r w Tau (w\<lparr>a_step := Step2\<rparr>)"
| forward2: "a_open w \<Longrightarrow> a_step w = Step2 \<Longrightarrow> awiz_step r w Tau (w\<lparr>a_step := Step3\<rparr>)"
| back2: "a_open w \<Longrightarrow> a_step w = Step2 \<Longrightarrow> awiz_step r w Tau (w\<lparr>a_step := Step1\<rparr>)"
| back3: "a_open w \<Longrightarrow> a_step w = Step3 \<Longrightarrow> awiz_step r w Tau (w\<lparr>a_step := Step2\<rparr>)"
| edit: "a_open w \<Longrightarrow> awiz_step r w Tau w"
| submit: "a_open w \<Longrightarrow> a_step w = Step3 \<Longrightarrow> d \<in> {30, 60, 90, 120} \<Longrightarrow>
           awiz_step r w (Submit d (r * d / 60)) (w\<lparr>a_open := False, a_step := Step1\<rparr>)"

inductive awiz_trace :: "js_number \<Rightarrow> awiz \<Rightarrow> wlabel list \<Rightarrow> awiz \<Rightarrow> bool" for r :: js_number where
  nil: "awiz_trace r w [] w"
| cons: "awiz_step r w l w' \<Longrightarrow> awiz_trace r w' ls w'' \<Longrightarrow> awiz_trace r w (l # ls) w''"

fun submissions :: "wlabel list \<Rightarrow> (js_number \<times> js_number) list" where
  "submissions [] = []"
| "submissions (Tau # ls) = submissions ls"
| "submissions (Submit d p # ls) = (d, p) # submissions ls"

subsection \<open>The specification's invariant\<close>

text \<open>The specification's own invariant: past step 1 a date and a time are chosen.\<close>

definition awiz_inv :: "awiz \<Rightarrow> bool" where
  "awiz_inv w \<longleftrightarrow> (a_step w \<noteq> Step1 \<longrightarrow> a_date w \<and> a_time w)"

lemma awiz_step_inv: "awiz_step r w l w' \<Longrightarrow> awiz_inv w \<Longrightarrow> awiz_inv w'"
  by (induction rule: awiz_step.induct) (auto simp: awiz_inv_def)

lemma awiz_trace_inv: "awiz_trace r w ls w' \<Longrightarrow> awiz_inv w \<Longrightarrow> awiz_inv w'"
  by (induction rule: awiz_trace.induct) (auto dest: awiz_step_inv)

end
