(* ===== verification/Booking.thy ===== *)
theory Booking
  imports Data WizardSpec
begin

text \<open>
  The booking wizard \<open>src/components/SchedulingModal.tsx\<close>. Its \<open>useState\<close> hooks
  and the \<open>isOpen\<close> flag its parent (\<open>TeacherProfile\<close>) passes in form
  \<open>sched_state\<close>; \<open>getAvailableDates\<close>, \<open>getAvailableTimes\<close> and
  \<open>totalPrice\<close> are functions of the teacher, the clock and the time zone; each button,
  select and text field of the three steps is an event of \<open>sched_step\<close>, which
  returns the next state and, for the confirmation, the booking that
  \<open>handleSchedule\<close> logs, and \<open>None\<close> for a control that is not rendered in the
  current state. The instant \<open>now\<close> at which the dates are computed is a parameter of
  the whole run. A date button's key, the \<open>YYYY-MM-DD\<close> string of \<open>toISOString\<close>,
  is represented by its UTC day number (see \<open>JsLib\<close>); the empty string of
  \<open>selectedDate\<close> is \<open>None\<close>.
\<close>

subsection \<open>Dates, times and price\<close>

definition day_names :: "string list" where
  "day_names = [''Domingo'', ''Segunda'', ''Ter'' @ [CHR 0xE7] @ ''a'', ''Quarta'', ''Quinta'',
                ''Sexta'', ''S'' @ [CHR 0xE1] @ ''bado'']"

text \<open>One entry of \<open>getAvailableDates\<close>: the ISO key, the displayed (local) day, the weekday name.\<close>

record date_option =
  date :: int
  display :: int
  dayName :: string

definition date_option_at :: "int \<Rightarrow> int \<Rightarrow> int \<Rightarrow> date_option" where
  "date_option_at tz now i =
     (let d = js_add_days now i
      in \<lparr>date = js_iso_day d, display = js_local_day tz d,
          dayName = day_names ! js_get_day tz d\<rparr>)"

text \<open>The loop \<open>for (let i = 1; i <= 14; i++)\<close>, pushing the days the teacher works.\<close>

function date_loop :: "teacher \<Rightarrow> int \<Rightarrow> int \<Rightarrow> int \<Rightarrow> date_option list" where
  "date_loop t tz now i =
     (if i \<le> 14 then
        (if dayName (date_option_at tz now i) \<in> set (availability t)
         then date_option_at tz now i # date_loop t tz now (i + 1)
         else date_loop t tz now (i + 1))
      else [])"
  by pat_completeness auto
termination
  by (relation "measure (\<lambda>(t, tz, now, i). nat (15 - i))") auto

definition get_available_dates :: "teacher \<Rightarrow> int \<Rightarrow> int \<Rightarrow> date_option list" where
  "get_available_dates t tz now = date_loop t tz now 1"

text \<open>The two nested loops of \<open>getAvailableTimes\<close>, with \<open>padStart(2, '0')\<close>.\<close>

definition time_string :: "nat \<Rightarrow> nat \<Rightarrow> string" where
  "time_string h m =
     js_pad_start 2 (CHR ''0'') (js_nat_to_string h) @ '':'' @
     js_pad_start 2 (CHR ''0'') (js_nat_to_string m)"

function minute_loop :: "nat \<Rightarrow> nat \<Rightarrow> string list" where
  "minute_loop h m = (if m < 60 then time_string h m # minute_loop h (m + 30) else [])"
  by pat_completeness auto
termination
  by (relation "measure (\<lambda>(h, m). 60 - m)") auto

function hour_loop :: "nat \<Rightarrow> string list" where
  "hour_loop h = (if h \<le> 20 then minute_loop h 0 @ hour_loop (h + 1) else [])"
  by pat_completeness auto
termination
  by (relation "measure (\<lambda>h. 21 - h)") auto

definition get_available_times :: "string list" where
  "get_available_times = hour_loop 8"

definition total_price :: "js_number \<Rightarrow> js_number \<Rightarrow> js_number" where
  "total_price hourly_rate dur = hourly_rate * dur / 60"

text \<open>The labels' prices of the duration \<open><select>\<close> (lines 208--211).\<close>

definition duration_options :: "(js_number \<times> (js_number \<Rightarrow> js_number)) list" where
  "duration_options =
     [(30, \<lambda>r. r * 0.5), (60, \<lambda>r. r), (90, \<lambda>r. r * 1.5), (120, \<lambda>r. r * 2)]"

definition duration_values :: "js_number list" where
  "duration_values = map fst duration_options"

text \<open>The keys of the rendered date buttons.\<close>

definition date_keys :: "teacher \<Rightarrow> int \<Rightarrow> int \<Rightarrow> int list" where
  "date_keys t tz now = map date (get_available_dates t tz now)"

definition payment_options :: "string list" where
  "payment_options = [''credit'', ''pix'']"

subsection \<open>State and events\<close>

record sched_state =
  modal_open :: bool
  step :: nat
  selectedDate :: "int option"
  selectedTime :: string
  duration :: js_number
  notes' :: string
  paymentMethod :: string

definition sched_init :: sched_state where
  "sched_init = \<lparr>modal_open = False, step = 1, selectedDate = None, selectedTime = [],
                 duration = 60, notes' = [], paymentMethod = ''credit''\<rparr>"

text \<open>What \<open>handleSchedule\<close> logs.\<close>

record booking =
  b_teacher :: string
  b_date :: "int option"
  b_time :: string
  b_duration :: js_number
  b_notes :: string
  b_payment :: string
  b_total :: js_number

datatype sched_event =
    OpenModal
  | CloseModal
  | SelectDate int
  | SelectTime string
  | ContinueToDetails
  | SetDuration js_number
  | SetNotes string
  | BackToDate
  | ContinueToPayment
  | SetPaymentMethod string
  | BackToDetails
  | ConfirmBooking

text \<open>
  \<open>handleSchedule\<close>: log the booking, \<open>onClose()\<close> (the parent clears
  \<open>isOpen\<close>), then \<open>setStep(1)\<close>; nothing else is reset.
\<close>

definition handle_schedule :: "teacher \<Rightarrow> sched_state \<Rightarrow> sched_state \<times> booking" where
  "handle_schedule t st =
     (st\<lparr>modal_open := False, step := 1\<rparr>,
      \<lparr>b_teacher = tid t, b_date = selectedDate st, b_time = selectedTime st,
       b_duration = duration st, b_notes = notes' st, b_payment = paymentMethod st,
       b_total = total_price (hourlyRate t) (duration st)\<rparr>)"

text \<open>
  The controls: the close button of the header exists whenever the modal is open;
  step 1 renders a button per available date, the time buttons once a date is
  chosen, and \<open>Continuar\<close> once both are chosen; step 2 the duration select, the notes
  and its two buttons; step 3 the payment radios and its two buttons. The modal renders
  nothing while closed, when only the profile page's button opens it.
\<close>

fun sched_step ::
  "teacher \<Rightarrow> int \<Rightarrow> int \<Rightarrow> sched_state \<Rightarrow> sched_event \<Rightarrow> (sched_state \<times> booking option) option"
where
  "sched_step t tz now st OpenModal =
     (if \<not> modal_open st then Some (st\<lparr>modal_open := True\<rparr>, None) else None)"
| "sched_step t tz now st CloseModal =
     (if modal_open st then Some (st\<lparr>modal_open := False\<rparr>, None) else None)"
| "sched_step t tz now st (SelectDate d) =
     (if modal_open st \<and> step st = 1 \<and> d \<in> set (date_keys t tz now)
      then Some (st\<lparr>selectedDate := Some d\<rparr>, None) else None)"
| "sched_step t tz now st (SelectTime tm) =
     (if modal_open st \<and> step st = 1 \<and> selectedDate st \<noteq> None \<and> tm \<in> set get_available_times
      then Some (st\<lparr>selectedTime := tm\<rparr>, None) else None)"
| "sched_step t tz now st ContinueToDetails =
     (if modal_open st \<and> step st = 1 \<and> selectedDate st \<noteq> None \<and> selectedTime st \<noteq> []
      then Some (st\<lparr>step := 2\<rparr>, None) else None)"
| "sched_step t tz now st (SetDuration v) =
     (if modal_open st \<and> step st = 2 \<and> v \<in> set duration_values
      then Some (st\<lparr>duration := v\<rparr>, None) else None)"
| "sched_step t tz now st (SetNotes s) =
     (if modal_open st \<and> step st = 2 then Some (st\<lparr>notes' := s\<rparr>, None) else None)"
| "sched_step t tz now st BackToDate =
     (if modal_open st \<and> step st = 2 then Some (st\<lparr>step := 1\<rparr>, None) else None)"
| "sched_step t tz now st ContinueToPayment =
     (if modal_open st \<and> step st = 2 then Some (st\<lparr>step := 3\<rparr>, None) else None)"
| "sched_step t tz now st (SetPaymentMethod m) =
     (if modal_open st \<and> step st = 3 \<and> m \<in> set payment_options
      then Some (st\<lparr>paymentMethod := m\<rparr>, None) else None)"
| "sched_step t tz now st BackToDetails =
     (if modal_open st \<and> step st = 3 then Some (st\<lparr>step := 2\<rparr>, None) else None)"
| "sched_step t tz now st ConfirmBooking =
     (if modal_open st \<and> step st = 3
      then (let (st', b) = handle_schedule t st in Some (st', Some b)) else None)"

inductive sched_reachable :: "teacher \<Rightarrow> int \<Rightarrow> int \<Rightarrow> sched_state \<Rightarrow> bool"
  for t :: teacher and tz :: int and now :: int where
  init: "sched_reachable t tz now sched_init"
| step: "sched_reachable t tz now st \<Longrightarrow> sched_step t tz now st e = Some (st', out) \<Longrightarrow>
         sched_reachable t tz now st'"

fun sched_run ::
  "teacher \<Rightarrow> int \<Rightarrow> int \<Rightarrow> sched_state \<Rightarrow> sched_event list \<Rightarrow> (sched_state \<times> booking list) option"
where
  "sched_run t tz now st [] = Some (st, [])"
| "sched_run t tz now st (e # es) =
     (case sched_step t tz now st e of
        None \<Rightarrow> None
      | Some (st', out) \<Rightarrow>
          (case sched_run t tz now st' es of
             None \<Rightarrow> None
           | Some (st'', bs) \<Rightarrow> Some (st'', (case out of None \<Rightarrow> bs | Some b \<Rightarrow> b # bs))))"

text \<open>The date line of the step-2 summary: \<open>new Date(selectedDate)\<close> shown in local time.\<close>

definition summary_day :: "int \<Rightarrow> int \<Rightarrow> int" where
  "summary_day tz d = js_local_day tz (js_parse_iso_day d)"

text \<open>The step indicator: circle \<open>k\<close> is highlighted from step \<open>k\<close> on and checked after it.\<close>

definition indicator_active :: "nat \<Rightarrow> nat \<Rightarrow> bool" where
  "indicator_active k s \<longleftrightarrow> s \<ge> k"

definition indicator_checked :: "nat \<Rightarrow> nat \<Rightarrow> bool" where
  "indicator_checked k s \<longleftrightarrow> k < 3 \<and> s > k"

text \<open>What every reachable state keeps.\<close>

definition sched_inv :: "teacher \<Rightarrow> int \<Rightarrow> int \<Rightarrow> sched_state \<Rightarrow> bool" where
  "sched_inv t tz now st \<longleftrightarrow>
     step st \<in> {1, 2, 3} \<and>
     duration st \<in> set duration_values \<and>
     paymentMethod st \<in> set payment_options \<and>
     (\<forall>d. selectedDate st = Some d \<longrightarrow> d \<in> set (date_keys t tz now)) \<and>
     (selectedTime st = [] \<or> selectedTime st \<in> set get_available_times) \<and>
     (2 \<le> step st \<longrightarrow> selectedDate st \<noteq> None \<and> selectedTime st \<noteq> [])"

text \<open>The instant 2024-01-01T12:00Z; in UTC-3 (offset -180) it is 09:00 on Monday.\<close>

abbreviation jan1_noon :: int where "jan1_noon \<equiv> 1704110400000"

definition sched_ready :: sched_state where
  "sched_ready = sched_init\<lparr>modal_open := True, step := 3, selectedDate := Some 19724,
                            selectedTime := ''14:00'', duration := 90\<rparr>"

declare day_names_def [data_eval] date_option_at_def [step_eval]
  get_available_dates_def [step_eval] sched_init_def [step_eval]
  duration_options_def [step_eval] duration_values_def [step_eval] payment_options_def [step_eval]
  handle_schedule_def [step_eval] total_price_def [step_eval]

declare date_loop.simps [simp del] minute_loop.simps [simp del] hour_loop.simps [simp del]

subsection \<open>Abstraction onto the specification's wizard\<close>

text \<open>The abstraction: the step number as a wizard step, and whether a date and a time are chosen.\<close>

definition wstep_of :: "nat \<Rightarrow> wstep" where
  "wstep_of n = (if n = 1 then Step1 else if n = 2 then Step2 else Step3)"

definition sched_abs :: "sched_state \<Rightarrow> awiz" where
  "sched_abs st =
     \<lparr>a_open = modal_open st, a_step = wstep_of (step st),
      a_date = selectedDate st \<noteq> None, a_time = selectedTime st \<noteq> []\<rparr>"

definition label_of :: "booking option \<Rightarrow> wlabel" where
  "label_of out = (case out of None \<Rightarrow> Tau | Some b \<Rightarrow> Submit (b_duration b) (b_total b))"


subsection \<open>Lemmas\<close>

lemma get_available_times_eq:
  "get_available_times =
     [''08:00'', ''08:30'', ''09:00'', ''09:30'', ''10:00'', ''10:30'', ''11:00'', ''11:30'',
      ''12:00'', ''12:30'', ''13:00'', ''13:30'', ''14:00'', ''14:30'', ''15:00'', ''15:30'',
      ''16:00'', ''16:30'', ''17:00'', ''17:30'', ''18:00'', ''18:30'', ''19:00'', ''19:30'',
      ''20:00'', ''20:30'']"
  by (simp add: get_available_times_def hour_loop.simps minute_loop.simps time_string_def
      js_eval js_nat_to_string.simps)

lemma date_loop_eq:
  "date_loop t tz now i =
     map (date_option_at tz now)
       (filter (\<lambda>j. dayName (date_option_at tz now j) \<in> set (availability t)) [i..14])"
proof (induction t tz now i rule: date_loop.induct)
  case (1 t tz now i)
  show ?case
  proof (cases "i \<le> 14")
    case True
    with "1.IH" show ?thesis
      by (simp add: date_loop.simps [of t tz now i] upto_rec1 [of i])
  next
    case False
    then show ?thesis by (simp add: date_loop.simps [of t tz now i])
  qed
qed

lemma date_date_option_at [simp]:
  "date (date_option_at tz now j) = js_iso_day now + j"
  by (simp add: date_option_at_def Let_def js_iso_day_add_days)

lemma display_date_option_at [simp]:
  "display (date_option_at tz now j) = js_local_day tz now + j"
  by (simp add: date_option_at_def Let_def js_local_day_add_days)

lemma set_get_available_dates:
  "set (get_available_dates t tz now) =
     {date_option_at tz now j | j. 1 \<le> j \<and> j \<le> 14 \<and>
        dayName (date_option_at tz now j) \<in> set (availability t)}"
  by (auto simp: get_available_dates_def date_loop_eq)

lemma sorted_dates_upto:
  "sorted_wrt (<) (map (\<lambda>j. c + j) (filter P [i..k]))"
  by (auto simp: sorted_wrt_map intro: sorted_wrt_filter)

lemma sched_inv_init: "sched_inv t tz now sched_init"
  by (simp add: sched_inv_def step_eval)

lemma sched_step_inv:
  assumes "sched_inv t tz now st" and "sched_step t tz now st e = Some (st', out)"
  shows "sched_inv t tz now st'"
  using assms by (cases e) (auto simp: sched_inv_def handle_schedule_def split: if_splits)

lemma sched_reachable_inv:
  "sched_reachable t tz now st \<Longrightarrow> sched_inv t tz now st"
  by (induction rule: sched_reachable.induct) (auto intro: sched_inv_init sched_step_inv)

lemma sched_step_output:
  "sched_step t tz now st e = Some (st', Some b) \<Longrightarrow>
   e = ConfirmBooking \<and> modal_open st \<and> step st = 3 \<and> (st', b) = handle_schedule t st"
  by (cases e) (auto simp: handle_schedule_def split: if_splits)

lemma sched_run_reachable:
  "sched_reachable t tz now st \<Longrightarrow> sched_run t tz now st es = Some (st', bs) \<Longrightarrow>
   sched_reachable t tz now st'"
proof (induction es arbitrary: st bs)
  case Nil
  then show ?case by simp
next
  case (Cons e es)
  then obtain s1 out bs1 where s1: "sched_step t tz now st e = Some (s1, out)"
    and r: "sched_run t tz now s1 es = Some (st', bs1)"
    by (auto split: option.splits prod.splits)
  from Cons.prems(1) s1 have "sched_reachable t tz now s1" by (rule sched_reachable.step)
  then show ?case using r by (rule Cons.IH)
qed

text \<open>What a confirmed booking carries, from a state that keeps the invariant, and along a whole run.\<close>

definition booking_ok :: "teacher \<Rightarrow> int \<Rightarrow> int \<Rightarrow> booking \<Rightarrow> bool" where
  "booking_ok t tz now b \<longleftrightarrow>
     b_teacher b = tid t \<and> (\<exists>d. b_date b = Some d \<and> d \<in> set (date_keys t tz now)) \<and>
     b_time b \<in> set get_available_times \<and> b_duration b \<in> set duration_values \<and>
     b_total b = hourlyRate t * b_duration b / 60 \<and> b_payment b \<in> set payment_options"

lemma sched_step_booking_ok:
  assumes "sched_inv t tz now st" and "sched_step t tz now st e = Some (st', Some b)"
  shows "booking_ok t tz now b"
proof -
  from assms(2) have "step st = 3" "(st', b) = handle_schedule t st"
    by (auto dest: sched_step_output)
  with assms(1) show ?thesis
    by (auto simp: booking_ok_def sched_inv_def handle_schedule_def total_price_def)
qed

lemma sched_run_bookings_ok:
  "sched_reachable t tz now st \<Longrightarrow> sched_run t tz now st es = Some (st', bs) \<Longrightarrow>
   \<forall>b\<in>set bs. booking_ok t tz now b"
proof (induction es arbitrary: st bs)
  case Nil
  then show ?case by simp
next
  case (Cons e es)
  then obtain s1 out bs1 where s1: "sched_step t tz now st e = Some (s1, out)"
    and r: "sched_run t tz now s1 es = Some (st', bs1)"
    and bs: "bs = (case out of None \<Rightarrow> bs1 | Some b \<Rightarrow> b # bs1)"
    by (auto split: option.splits prod.splits)
  have r1: "sched_reachable t tz now s1" using Cons.prems(1) s1 by (rule sched_reachable.step)
  have "\<forall>b\<in>set bs1. booking_ok t tz now b" using Cons.IH [OF r1 r] .
  moreover have "booking_ok t tz now b" if "out = Some b" for b
    using sched_step_booking_ok [OF sched_reachable_inv [OF Cons.prems(1)]] s1 that by blast
  ultimately show ?case using bs by (auto split: option.splits)
qed

lemma sarah_date_keys:
  "date_keys (teachers ! 0) (-180) jan1_noon =
     [19724, 19725, 19727, 19730, 19731, 19732, 19734, 19737]"
  by (simp add: date_keys_def get_available_dates_def date_loop.simps step_eval data_eval js_eval)

lemma sched_ready_reachable: "sched_reachable (teachers ! 0) (-180) jan1_noon sched_ready"
proof -
  have "sched_run (teachers ! 0) (-180) jan1_noon sched_init
          [OpenModal, SelectDate 19724, SelectTime ''14:00'', ContinueToDetails, SetDuration 90,
           ContinueToPayment] = Some (sched_ready, [])"
    by (simp add: sarah_date_keys get_available_times_eq sched_ready_def step_eval)
  then show ?thesis by (rule sched_run_reachable [OF sched_reachable.init])
qed

subsection \<open>Simulation of the specification's wizard\<close>

lemmas abs_simps = sched_abs_def label_of_def wstep_of_def

lemma sched_step_refines:
  assumes inv: "sched_inv t tz now st" and s: "sched_step t tz now st e = Some (st', out)"
  shows "awiz_step (hourlyRate t) (sched_abs st) (label_of out) (sched_abs st')"
proof (cases e)
  case OpenModal
  with s have "st' = st\<lparr>modal_open := True\<rparr>" "out = None" "\<not> modal_open st"
    by (auto split: if_splits)
  then show ?thesis using awiz_step.open_wiz [of "sched_abs st"] by (simp add: abs_simps)
next
  case CloseModal
  with s have "st' = st\<lparr>modal_open := False\<rparr>" "out = None" "modal_open st"
    by (auto split: if_splits)
  then show ?thesis using awiz_step.close_wiz [of "sched_abs st"] by (simp add: abs_simps)
next
  case (SelectDate d)
  with s have "st' = st\<lparr>selectedDate := Some d\<rparr>" "out = None" "modal_open st" "step st = 1"
    by (auto split: if_splits)
  then show ?thesis using awiz_step.pick_date [of "sched_abs st"] by (simp add: abs_simps)
next
  case (SelectTime tm)
  with s have "st' = st\<lparr>selectedTime := tm\<rparr>" "out = None" "modal_open st" "step st = 1"
      "tm \<in> set get_available_times"
    by (auto split: if_splits)
  moreover have "tm \<noteq> []" using \<open>tm \<in> set get_available_times\<close> by (auto simp: get_available_times_eq)
  ultimately show ?thesis using awiz_step.pick_time [of "sched_abs st"] by (simp add: abs_simps)
next
  case ContinueToDetails
  with s have "st' = st\<lparr>step := 2\<rparr>" "out = None" "modal_open st" "step st = 1"
      "selectedDate st \<noteq> None" "selectedTime st \<noteq> []"
    by (auto split: if_splits)
  then show ?thesis using awiz_step.forward1 [of "sched_abs st"] by (simp add: abs_simps)
next
  case (SetDuration v)
  with s have "st' = st\<lparr>duration := v\<rparr>" "out = None" "modal_open st"
    by (auto split: if_splits)
  then show ?thesis using awiz_step.edit [of "sched_abs st"] by (simp add: abs_simps)
next
  case (SetNotes v)
  with s have "st' = st\<lparr>notes' := v\<rparr>" "out = None" "modal_open st"
    by (auto split: if_splits)
  then show ?thesis using awiz_step.edit [of "sched_abs st"] by (simp add: abs_simps)
next
  case BackToDate
  with s have "st' = st\<lparr>step := 1\<rparr>" "out = None" "modal_open st" "step st = 2"
    by (auto split: if_splits)
  then show ?thesis using awiz_step.back2 [of "sched_abs st"] by (simp add: abs_simps)
next
  case ContinueToPayment
  with s have "st' = st\<lparr>step := 3\<rparr>" "out = None" "modal_open st" "step st = 2"
    by (auto split: if_splits)
  then show ?thesis using awiz_step.forward2 [of "sched_abs st"] by (simp add: abs_simps)
next
  case (SetPaymentMethod m)
  with s have "st' = st\<lparr>paymentMethod := m\<rparr>" "out = None" "modal_open st"
    by (auto split: if_splits)
  then show ?thesis using awiz_step.edit [of "sched_abs st"] by (simp add: abs_simps)
next
  case BackToDetails
  with s have "st' = st\<lparr>step := 2\<rparr>" "out = None" "modal_open st" "step st = 3"
    by (auto split: if_splits)
  then show ?thesis using awiz_step.back3 [of "sched_abs st"] by (simp add: abs_simps)
next
  case ConfirmBooking
  with s have "st' = st\<lparr>modal_open := False, step := 1\<rparr>" "modal_open st" "step st = 3"
      "out = Some (snd (handle_schedule t st))"
    by (auto simp: handle_schedule_def split: if_splits)
  moreover have "duration st \<in> {30, 60, 90, 120}"
    using inv by (simp add: sched_inv_def duration_values_def duration_options_def)
  ultimately show ?thesis
    using awiz_step.submit [of "sched_abs st" "duration st" "hourlyRate t"]
    by (simp add: abs_simps handle_schedule_def total_price_def)
qed

lemma sched_abs_init: "sched_abs sched_init = awiz_init"
  by (simp add: abs_simps sched_init_def awiz_init_def)

lemma sched_run_refines:
  assumes "sched_reachable t tz now st" and "sched_run t tz now st es = Some (st', bs)"
  shows "\<exists>ls. awiz_trace (hourlyRate t) (sched_abs st) ls (sched_abs st') \<and> length ls = length es \<and>
              submissions ls = map (\<lambda>b. (b_duration b, b_total b)) bs"
  using assms
proof (induction es arbitrary: st bs)
  case Nil
  then show ?case by (auto intro: awiz_trace.nil)
next
  case (Cons e es)
  from Cons.prems(2) obtain st1 out bs1 where
    s1: "sched_step t tz now st e = Some (st1, out)" and
    r1: "sched_run t tz now st1 es = Some (st', bs1)" and
    bs: "bs = (case out of None \<Rightarrow> bs1 | Some b \<Rightarrow> b # bs1)"
    by (auto split: option.splits)
  have reach1: "sched_reachable t tz now st1"
    using Cons.prems(1) s1 by (rule sched_reachable.step)
  obtain ls where ls: "awiz_trace (hourlyRate t) (sched_abs st1) ls (sched_abs st')"
      "length ls = length es" "submissions ls = map (\<lambda>b. (b_duration b, b_total b)) bs1"
    using Cons.IH [OF reach1 r1] by blast
  have "awiz_step (hourlyRate t) (sched_abs st) (label_of out) (sched_abs st1)"
    using sched_reachable_inv [OF Cons.prems(1)] s1 by (rule sched_step_refines)
  then have "awiz_trace (hourlyRate t) (sched_abs st) (label_of out # ls) (sched_abs st')"
    using ls(1) by (rule awiz_trace.cons)
  moreover have "submissions (label_of out # ls) = map (\<lambda>b. (b_duration b, b_total b)) bs"
    using ls(3) bs by (cases out) (simp_all add: label_of_def)
  ultimately show ?case using ls(2) by auto
qed

subsection \<open>Properties of the booking wizard\<close>

text \<open>
  C11: every booking the wizard confirms from a reachable state names the teacher, a date among the rendered date buttons, a time among the rendered time slots, a duration of the select, a listed payment method and the price hourlyRate * duration / 60, and the confirmation closes the modal back at step 1.
\<close>
theorem booking_confirmed_safe:
  assumes "sched_reachable t tz now st" and "sched_step t tz now st e = Some (st', Some b)"
  shows "e = ConfirmBooking \<and> b_teacher b = tid t \<and>
         (\<exists>d. b_date b = Some d \<and> d \<in> set (date_keys t tz now)) \<and>
         b_time b \<in> set get_available_times \<and> b_duration b \<in> set duration_values \<and>
         b_total b = hourlyRate t * b_duration b / 60 \<and> b_payment b \<in> set payment_options \<and>
         \<not> modal_open st' \<and> step st' = 1"
proof -
  from assms(1) have inv: "sched_inv t tz now st" by (rule sched_reachable_inv)
  from assms(2) have "e = ConfirmBooking" "step st = 3" "(st', b) = handle_schedule t st"
    by (auto dest: sched_step_output)
  with inv show ?thesis
    by (auto simp: sched_inv_def handle_schedule_def total_price_def)
qed

theorem booking_confirmed_safe_witness:
  "\<exists>st' b. sched_reachable (teachers ! 0) (-180) jan1_noon sched_ready \<and>
     sched_step (teachers ! 0) (-180) jan1_noon sched_ready ConfirmBooking = Some (st', Some b) \<and>
     b_date b = Some 19724 \<and> b_total b = 135 / 2 \<and> b_time b \<in> set get_available_times"
proof -
  let ?b = "snd (handle_schedule (teachers ! 0) sched_ready)"
  let ?st' = "fst (handle_schedule (teachers ! 0) sched_ready)"
  have s: "sched_step (teachers ! 0) (-180) jan1_noon sched_ready ConfirmBooking
      = Some (?st', Some ?b)"
    by (simp add: sched_ready_def step_eval)
  have v: "b_date ?b = Some 19724 \<and> b_total ?b = 135 / 2"
    by (simp add: sched_ready_def step_eval data_eval)
  from booking_confirmed_safe [OF sched_ready_reachable s]
  have "b_time ?b \<in> set get_available_times" by blast
  with s v sched_ready_reachable show ?thesis by blast
qed

text \<open>
  Confirming at step 3 logs the booking of the current selections and closes the modal with the step reset to 1; the date, time, duration, notes and payment method are kept.
\<close>
theorem booking_confirm_resets:
  assumes "modal_open st" and "step st = 3"
  shows "sched_step t tz now st ConfirmBooking =
           Some (st\<lparr>modal_open := False, step := 1\<rparr>,
                 Some \<lparr>b_teacher = tid t, b_date = selectedDate st, b_time = selectedTime st,
                       b_duration = duration st, b_notes = notes' st,
                       b_payment = paymentMethod st,
                       b_total = hourlyRate t * duration st / 60\<rparr>)"
  using assms by (simp add: handle_schedule_def total_price_def)

theorem booking_confirm_resets_witness:
  "modal_open sched_ready \<and> step sched_ready = 3 \<and>
   sched_step (teachers ! 0) (-180) jan1_noon sched_ready ConfirmBooking =
     Some (sched_ready\<lparr>modal_open := False, step := 1\<rparr>,
           Some \<lparr>b_teacher = ''1'', b_date = Some 19724, b_time = ''14:00'', b_duration = 90,
                 b_notes = [], b_payment = ''credit'', b_total = 135 / 2\<rparr>)"
proof -
  have h: "modal_open sched_ready" "step sched_ready = 3" by (simp_all add: sched_ready_def)
  show ?thesis
    using h booking_confirm_resets [OF h, of "teachers ! 0" "-180" jan1_noon]
    by (simp add: sched_ready_def step_eval data_eval)
qed

text \<open>
  C14: every event keeps the step, moves it one step forward (1 to 2, 2 to 3) or back (2 to 1, 3 to 2), or is the confirmation from step 3 to 1, which alone produces a booking.
\<close>
theorem booking_step_moves:
  assumes "sched_step t tz now st e = Some (st', out)"
  shows "(step st' = step st \<and> out = None) \<or>
         ((step st, step st') \<in> {(1, 2), (2, 3), (2, 1), (3, 2)} \<and> out = None) \<or>
         (e = ConfirmBooking \<and> step st = 3 \<and> step st' = 1 \<and> out \<noteq> None)"
  using assms by (cases e) (auto simp: handle_schedule_def split: if_splits)

theorem booking_step_moves_witness:
  "sched_step (teachers ! 0) (-180) jan1_noon sched_ready BackToDetails =
     Some (sched_ready\<lparr>step := 2\<rparr>, None) \<and> step (sched_ready\<lparr>step := 2\<rparr>) = 2"
proof -
  have s: "sched_step (teachers ! 0) (-180) jan1_noon sched_ready BackToDetails =
     Some (sched_ready\<lparr>step := 2\<rparr>, None)" by (simp add: sched_ready_def)
  from booking_step_moves [OF s] have "step (sched_ready\<lparr>step := 2\<rparr>) \<in> {1, 2, 3}"
    by (auto simp: sched_ready_def)
  with s show ?thesis by simp
qed

text \<open>
  The spec's price examples: at a rate of 45, 90 minutes cost 67.5, 120 minutes 90 and 30 minutes 22.5.
\<close>
theorem booking_price_examples:
  "total_price 45 90 = 67.5 \<and> total_price 45 120 = 90 \<and> total_price 45 30 = 22.5"
  by (simp add: total_price_def)

text \<open>
  C16: the duration select offers 30, 60, 90 and 120 minutes, and the price printed in each option's label equals the total price computed for that duration.
\<close>
theorem booking_labels_match_price:
  "duration_values = [30, 60, 90, 120] \<and>
   list_all (\<lambda>(v, f). f r = total_price r v) duration_options"
  by (simp add: duration_values_def duration_options_def total_price_def)

text \<open>
  C17: getAvailableTimes yields 26 distinct half-hour slots from 08:00 to 20:30; the spec's range 08:00 to 20:00 inclusive omits the last slot the code produces.
\<close>
theorem booking_times_slots:
  "length get_available_times = 26 \<and> hd get_available_times = ''08:00'' \<and>
   last get_available_times = ''20:30'' \<and> distinct get_available_times \<and>
   ''20:30'' \<in> set get_available_times"
  by (simp add: get_available_times_eq)

text \<open>
  C18: getAvailableDates lists exactly the days 1 to 14 after now whose local weekday name is in the teacher's availability, with strictly increasing keys and at most 14 entries.
\<close>
theorem booking_dates_exact:
  "set (get_available_dates t tz now) =
     {date_option_at tz now j | j. 1 \<le> j \<and> j \<le> 14 \<and>
        day_names ! js_get_day tz (js_add_days now j) \<in> set (availability t)} \<and>
   sorted_wrt (<) (date_keys t tz now) \<and> length (get_available_dates t tz now) \<le> 14"
proof (intro conjI)
  show "set (get_available_dates t tz now) = {date_option_at tz now j | j. 1 \<le> j \<and> j \<le> 14 \<and>
        day_names ! js_get_day tz (js_add_days now j) \<in> set (availability t)}"
    by (simp add: set_get_available_dates date_option_at_def Let_def)
  show "sorted_wrt (<) (date_keys t tz now)"
    by (simp add: date_keys_def get_available_dates_def date_loop_eq comp_def sorted_dates_upto)
  have "length (get_available_dates t tz now) \<le> length [1..14::int]"
    unfolding get_available_dates_def date_loop_eq length_map by (rule length_filter_le)
  then show "length (get_available_dates t tz now) \<le> 14" by simp
qed

text \<open>
  C19: for every time zone west of UTC, the step-2 summary shows the day before the chosen date: new Date(key) is UTC midnight, which is the previous local day.
\<close>
theorem booking_summary_day_before:
  "tz < 0 \<Longrightarrow> -1440 < tz \<Longrightarrow> summary_day tz d = d - 1"
  by (simp add: summary_day_def js_local_day_def js_parse_iso_day_def ms_per_day_def
      div_eq_minus1)

theorem booking_summary_day_before_witness:
  "summary_day (-180) 19724 = 19723"
  using booking_summary_day_before [of "-180" 19724] by simp

text \<open>
  C20: in every time zone west of UTC, the key of every offered date button is the
  day the button shows, or, when the modal is rendered at local time 24:00 + offset or
  later (21:00 or later in Brazil), the day after it: the key is the UTC day of
  \<open>toISOString\<close> while the label is the local day.
\<close>
theorem booking_timezone_mismatch:
  assumes "tz < 0" and "-1440 < tz" and "opt \<in> set (get_available_dates t tz now)"
  shows "date opt =
           display opt + (if ms_per_day + tz * 60000 \<le> (now + tz * 60000) mod ms_per_day then 1 else 0)"
proof -
  from assms(3) obtain j where "opt = date_option_at tz now j"
    by (auto simp: set_get_available_dates)
  with js_iso_day_west [OF assms(1,2), of now] show ?thesis by simp
qed

theorem booking_timezone_mismatch_witness:
  "hd (get_available_dates (teachers ! 0) (-180) 1704157200000) \<in>
     set (get_available_dates (teachers ! 0) (-180) 1704157200000) \<and>
   date (hd (get_available_dates (teachers ! 0) (-180) 1704157200000)) =
     display (hd (get_available_dates (teachers ! 0) (-180) 1704157200000)) + 1"
proof -
  have ne: "get_available_dates (teachers ! 0) (-180) 1704157200000 \<noteq> []"
    by (simp add: get_available_dates_def date_loop.simps step_eval data_eval js_eval)
  then have m: "hd (get_available_dates (teachers ! 0) (-180) 1704157200000) \<in>
     set (get_available_dates (teachers ! 0) (-180) 1704157200000)" by simp
  from booking_timezone_mismatch [OF _ _ m] m show ?thesis by (simp add: ms_per_day_def)
qed

text \<open>
  C21: closing the modal and opening it again restores the wizard exactly, including its step and selections: closing does not reset the wizard.
\<close>
theorem booking_close_reopen:
  assumes "modal_open st"
  shows "sched_step t tz now st CloseModal = Some (st\<lparr>modal_open := False\<rparr>, None) \<and>
         sched_step t tz now (st\<lparr>modal_open := False\<rparr>) OpenModal = Some (st, None)"
  using assms by simp

theorem booking_close_reopen_witness:
  "sched_step (teachers ! 0) (-180) jan1_noon sched_ready CloseModal =
     Some (sched_ready\<lparr>modal_open := False\<rparr>, None) \<and>
   sched_step (teachers ! 0) (-180) jan1_noon (sched_ready\<lparr>modal_open := False\<rparr>) OpenModal =
     Some (sched_ready, None) \<and> step sched_ready = 3"
proof -
  have h: "modal_open sched_ready" by (simp add: sched_ready_def)
  show ?thesis using booking_close_reopen [OF h] by (simp add: sched_ready_def)
qed

text \<open>
  C22: every reachable wizard state has its step in 1..3, a listed duration and payment method, a selected date among the date buttons, a selected time among the slots, and a date and time chosen whenever it is past step 1.
\<close>
theorem booking_invariant: "sched_reachable t tz now st \<Longrightarrow> sched_inv t tz now st"
  by (rule sched_reachable_inv)

theorem booking_invariant_witness:
  "sched_reachable (teachers ! 0) (-180) jan1_noon sched_ready \<and>
   sched_inv (teachers ! 0) (-180) jan1_noon sched_ready"
  using sched_ready_reachable booking_invariant [OF sched_ready_reachable] by simp

text \<open>
  C15. The booking wizard refines the specification's wizard (\<open>WizardSpec\<close>): every
  run of the modal's controls from its initial state is matched, event by event, by a
  run of the abstract three-step machine that submits the same durations at the same prices, in the same order, and ends in a
  state that satisfies the specification's invariant (past step 1 a date and a time are
  chosen).
\<close>

theorem booking_refines_spec:
  assumes "sched_run t tz now sched_init es = Some (st, bs)"
  shows "\<exists>ls. awiz_trace (hourlyRate t) awiz_init ls (sched_abs st) \<and> length ls = length es \<and>
              submissions ls = map (\<lambda>b. (b_duration b, b_total b)) bs \<and> awiz_inv (sched_abs st)"
proof -
  obtain ls where ls: "awiz_trace (hourlyRate t) awiz_init ls (sched_abs st)"
      "length ls = length es" "submissions ls = map (\<lambda>b. (b_duration b, b_total b)) bs"
    using sched_run_refines [OF sched_reachable.init assms] by (auto simp: sched_abs_init)
  have "awiz_inv awiz_init" by (simp add: awiz_inv_def awiz_init_def)
  with ls(1) have "awiz_inv (sched_abs st)" by (rule awiz_trace_inv)
  with ls show ?thesis by blast
qed

theorem booking_refines_spec_witness:
  "sched_run (teachers ! 0) (-180) jan1_noon sched_init
     [OpenModal, SelectDate 19724, SelectTime ''14:00'', ContinueToDetails, SetDuration 90,
      ContinueToPayment, ConfirmBooking] =
     Some (sched_ready\<lparr>modal_open := False, step := 1\<rparr>, [snd (handle_schedule (teachers ! 0) sched_ready)]) \<and>
   (\<exists>ls. awiz_trace (hourlyRate (teachers ! 0)) awiz_init ls
           (sched_abs (sched_ready\<lparr>modal_open := False, step := 1\<rparr>)) \<and>
         submissions ls = [(90, 135 / 2)])"
proof -
  have run: "sched_run (teachers ! 0) (-180) jan1_noon sched_init
     [OpenModal, SelectDate 19724, SelectTime ''14:00'', ContinueToDetails, SetDuration 90,
      ContinueToPayment, ConfirmBooking] =
     Some (sched_ready\<lparr>modal_open := False, step := 1\<rparr>, [snd (handle_schedule (teachers ! 0) sched_ready)])"
    by (simp add: sarah_date_keys get_available_times_eq sched_ready_def step_eval)
  have b: "(b_duration (snd (handle_schedule (teachers ! 0) sched_ready)),
            b_total (snd (handle_schedule (teachers ! 0) sched_ready))) = (90, 135 / 2)"
    by (simp add: sched_ready_def step_eval data_eval)
  show ?thesis using booking_refines_spec [OF run] run b by auto
qed

end
