(* ===== verification/Chat.thy ===== *)
theory Chat
  imports Data
begin

text \<open>
  The chat modal \<open>src/components/ChatModal.tsx\<close>. Its state hooks and the parent's
  \<open>isOpen\<close> flag form \<open>chat_state\<close>, together with the two things the browser keeps
  for it: the clock \<open>Date.now()\<close> (milliseconds) and the queue of pending
  \<open>setTimeout\<close> callbacks, each recorded by the instant it is due. All callbacks use the
  same delay of 2000 ms, so they fire in the order they were scheduled. Events are the
  rendered controls (text area, send button, Enter key, close button), the parent's
  open button, and the passing of time (\<open>Tick\<close>), which runs every callback that falls
  due. Message ids, \<open>Date.now().toString()\<close>, are represented by the number before
  \<open>toString\<close>; the initial message's id \<open>'1'\<close> is 1. The component stays mounted
  while the modal is closed (it returns \<open>null\<close>), so its state and its timers survive
  closing.
\<close>

datatype sender = SenderUser | SenderTeacher

record message =
  mid :: int
  text' :: string
  sender :: sender
  timestamp :: int

record chat_state =
  chat_open :: bool
  messages :: "message list"
  newMessage :: string
  isTyping :: bool
  pending :: "int list"
  clock :: int

text \<open>The greeting the state is initialised with, stamped five minutes before mounting.\<close>

definition greeting :: "teacher \<Rightarrow> int \<Rightarrow> message" where
  "greeting t t0 =
     \<lparr>mid = 1,
      text' = ''Ol'' @ [CHR 0xE1] @ ''! Sou '' @ name t @ ''. Como posso ajud'' @ [CHR 0xE1] @
             ''-lo hoje?'',
      sender = SenderTeacher, timestamp = t0 - 5 * 60 * 1000\<rparr>"

definition chat_init :: "teacher \<Rightarrow> int \<Rightarrow> chat_state" where
  "chat_init t t0 =
     \<lparr>chat_open = False, messages = [greeting t t0], newMessage = [], isTyping = False,
      pending = [], clock = t0\<rparr>"

definition reply_text :: string where
  "reply_text =
     ''Obrigado pela sua mensagem! Vou responder em breve. Enquanto isso, que tal agendar '' @
     ''uma aula para discutirmos melhor?''"

definition reply_delay :: int where
  "reply_delay = 2000"

text \<open>The message the timeout callback appends when it runs at instant \<open>d\<close>.\<close>

definition teacher_response :: "int \<Rightarrow> message" where
  "teacher_response d = \<lparr>mid = d + 1, text' = reply_text, sender = SenderTeacher, timestamp = d\<rparr>"

text \<open>
  \<open>handleSendMessage\<close>: nothing for a blank input; otherwise append the user's message,
  clear the input, set the typing flag and schedule the reply.
\<close>

definition handle_send_message :: "chat_state \<Rightarrow> chat_state" where
  "handle_send_message st =
     (if js_trim (newMessage st) = [] then st
      else st\<lparr>messages := messages st @
                  [\<lparr>mid = clock st, text' = newMessage st, sender = SenderUser,
                    timestamp = clock st\<rparr>],
              newMessage := [], isTyping := True,
              pending := pending st @ [clock st + reply_delay]\<rparr>)"

text \<open>\<open>handleKeyPress\<close>: Enter without Shift sends.\<close>

definition handle_key_press :: "string \<Rightarrow> bool \<Rightarrow> chat_state \<Rightarrow> chat_state" where
  "handle_key_press key shift st =
     (if key = ''Enter'' \<and> \<not> shift then handle_send_message st else st)"

text \<open>The callbacks due by instant \<open>u\<close> run in order, each at its due instant.\<close>

function fire_due :: "int \<Rightarrow> chat_state \<Rightarrow> chat_state" where
  "fire_due u st =
     (case pending st of
        [] \<Rightarrow> st
      | d # ds \<Rightarrow>
          (if d \<le> u
           then fire_due u (st\<lparr>messages := messages st @ [teacher_response d],
                              isTyping := False, pending := ds\<rparr>)
           else st))"
  by pat_completeness auto
termination
  by (relation "measure (\<lambda>(u, st). length (pending st))") auto

datatype chat_event =
    OpenChat
  | CloseChat
  | SetNewMessage string
  | SendClick
  | KeyPress string bool
  | Tick nat

text \<open>
  The modal's controls exist only while it is open; the send button is disabled while
  the trimmed input is empty. Time passes whether or not the modal is open.
\<close>

fun chat_step :: "chat_state \<Rightarrow> chat_event \<Rightarrow> chat_state option" where
  "chat_step st OpenChat = (if chat_open st then None else Some (st\<lparr>chat_open := True\<rparr>))"
| "chat_step st CloseChat = (if chat_open st then Some (st\<lparr>chat_open := False\<rparr>) else None)"
| "chat_step st (SetNewMessage s) =
     (if chat_open st then Some (st\<lparr>newMessage := s\<rparr>) else None)"
| "chat_step st SendClick =
     (if chat_open st \<and> js_trim (newMessage st) \<noteq> [] then Some (handle_send_message st)
      else None)"
| "chat_step st (KeyPress k shift) =
     (if chat_open st then Some (handle_key_press k shift st) else None)"
| "chat_step st (Tick n) =
     Some ((fire_due (clock st + int n) st)\<lparr>clock := clock st + int n\<rparr>)"

inductive chat_reachable :: "teacher \<Rightarrow> int \<Rightarrow> chat_state \<Rightarrow> bool"
  for t :: teacher and t0 :: int where
  init: "chat_reachable t t0 (chat_init t t0)"
| step: "chat_reachable t t0 st \<Longrightarrow> chat_step st e = Some st' \<Longrightarrow> chat_reachable t t0 st'"

fun chat_run :: "chat_state \<Rightarrow> chat_event list \<Rightarrow> chat_state option" where
  "chat_run st [] = Some st"
| "chat_run st (e # es) =
     (case chat_step st e of None \<Rightarrow> None | Some st' \<Rightarrow> chat_run st' es)"

definition is_user_msg :: "message \<Rightarrow> bool" where
  "is_user_msg m \<longleftrightarrow> sender m = SenderUser"

text \<open>
  What every reachable state keeps: the timers are due in order, each within the next
  2000 ms; the typing indicator is on only while a reply is pending; and every user
  message has exactly one reply, delivered or pending, on top of the greeting.
\<close>

definition chat_inv :: "chat_state \<Rightarrow> bool" where
  "chat_inv st \<longleftrightarrow>
     sorted (pending st) \<and> list_all (\<lambda>d. clock st < d \<and> d \<le> clock st + reply_delay) (pending st) \<and>
     (isTyping st \<longrightarrow> pending st \<noteq> []) \<and>
     length (filter (\<lambda>m. \<not> is_user_msg m) (messages st)) + length (pending st) =
       1 + length (filter is_user_msg (messages st))"

text \<open>States of a session with the first teacher opened at 2024-01-01T12:00Z, the input holding \<open>Oi\<close>, and after sending it.\<close>

definition chat_hello :: "chat_state" where
  "chat_hello = (chat_init (teachers ! 0) 1704110400000)\<lparr>chat_open := True, newMessage := ''Oi''\<rparr>"

definition chat_sent :: "chat_state" where
  "chat_sent = handle_send_message chat_hello"

declare greeting_def [step_eval] chat_init_def [step_eval] reply_delay_def [step_eval]
  teacher_response_def [step_eval] handle_send_message_def [step_eval]
  handle_key_press_def [step_eval] is_user_msg_def [step_eval]

subsection \<open>Lemmas\<close>

lemma fire_due_eq:
  "fire_due u st =
     st\<lparr>messages := messages st @ map teacher_response (takeWhile (\<lambda>d. d \<le> u) (pending st)),
        isTyping := (if takeWhile (\<lambda>d. d \<le> u) (pending st) = [] then isTyping st else False),
        pending := dropWhile (\<lambda>d. d \<le> u) (pending st)\<rparr>"
proof (induction u st rule: fire_due.induct)
  case (1 u st)
  show ?case
  proof (cases "pending st")
    case Nil
    then show ?thesis by (simp add: fire_due.simps [of u st])
  next
    case (Cons d ds)
    with "1.IH" show ?thesis by (simp add: fire_due.simps [of u st])
  qed
qed

declare fire_due.simps [simp del]

lemma chat_inv_init: "chat_inv (chat_init t t0)"
  by (simp add: chat_inv_def step_eval)

lemma chat_inv_send:
  assumes "chat_inv st"
  shows "chat_inv (handle_send_message st)"
proof (cases "js_trim (newMessage st) = []")
  case True
  with assms show ?thesis by (simp add: handle_send_message_def)
next
  case False
  from assms have "\<forall>d\<in>set (pending st). d \<le> clock st + reply_delay"
    by (auto simp: chat_inv_def list_all_iff)
  with assms False show ?thesis
    by (auto simp: chat_inv_def handle_send_message_def sorted_append list_all_iff is_user_msg_def
        reply_delay_def)
qed

lemma chat_inv_key: "chat_inv st \<Longrightarrow> chat_inv (handle_key_press k s st)"
  by (simp add: handle_key_press_def chat_inv_send)

lemma chat_inv_tick:
  assumes "chat_inv st"
  shows "chat_inv ((fire_due (clock st + int n) st)\<lparr>clock := clock st + int n\<rparr>)"
proof -
  let ?u = "clock st + int n"
  let ?fired = "takeWhile (\<lambda>d. d \<le> ?u) (pending st)"
  let ?rest = "dropWhile (\<lambda>d. d \<le> ?u) (pending st)"
  from assms have s: "sorted (pending st)" by (simp add: chat_inv_def)
  have rest_sorted: "sorted ?rest" using s by (rule sorted_dropWhile)
  have rest_gt: "\<forall>d\<in>set ?rest. ?u < d" using s sorted_dropWhile_gt by blast
  have rest_le: "\<forall>d\<in>set ?rest. d \<le> ?u + reply_delay"
    using assms set_dropWhileD by (fastforce simp: chat_inv_def list_all_iff)
  have len: "length ?fired + length ?rest = length (pending st)"
    by (metis length_append takeWhile_dropWhile_id)
  have none_fired: "?fired = [] \<Longrightarrow> ?rest = pending st"
    by (metis append_Nil takeWhile_dropWhile_id)
  have resp: "filter is_user_msg (map teacher_response ?fired) = []"
    by (simp add: is_user_msg_def teacher_response_def filter_empty_conv)
  have resp': "filter (\<lambda>m. \<not> is_user_msg m) (map teacher_response ?fired) = map teacher_response ?fired"
    by (simp add: is_user_msg_def teacher_response_def)
  show ?thesis
    using assms rest_sorted rest_gt rest_le len none_fired resp resp'
    by (auto simp: chat_inv_def fire_due_eq list_all_iff) (metis list.set_sel(1) not_le)
qed

lemma chat_inv_open [simp]: "chat_inv (st\<lparr>chat_open := b\<rparr>) = chat_inv st"
  by (simp add: chat_inv_def)

lemma chat_inv_input [simp]: "chat_inv (st\<lparr>newMessage := s\<rparr>) = chat_inv st"
  by (simp add: chat_inv_def)

lemma chat_step_inv: "chat_inv st \<Longrightarrow> chat_step st e = Some st' \<Longrightarrow> chat_inv st'"
  by (cases e) (auto simp: chat_inv_send chat_inv_key chat_inv_tick split: if_splits)

lemma chat_reachable_inv: "chat_reachable t t0 st \<Longrightarrow> chat_inv st"
  by (induction rule: chat_reachable.induct) (auto intro: chat_inv_init chat_step_inv)

lemma chat_run_reachable:
  "chat_reachable t t0 st \<Longrightarrow> chat_run st es = Some st' \<Longrightarrow> chat_reachable t t0 st'"
proof (induction es arbitrary: st)
  case Nil
  then show ?case by simp
next
  case (Cons e es)
  then obtain s1 where s1: "chat_step st e = Some s1" and r: "chat_run s1 es = Some st'"
    by (auto split: option.splits)
  from Cons.prems(1) s1 have "chat_reachable t t0 s1" by (rule chat_reachable.step)
  then show ?case using r by (rule Cons.IH)
qed

lemma chat_step_messages_prefix:
  "chat_step st e = Some st' \<Longrightarrow> prefix (messages st) (messages st')"
  by (cases e) (auto simp: handle_send_message_def handle_key_press_def fire_due_eq split: if_splits)

subsection \<open>Properties of the chat\<close>

text \<open>
  C23: sending a non-blank message, by the button or by Enter without Shift, appends exactly one user message with the input text, stamped and identified by the current instant, clears the input, turns the typing indicator on and schedules one reply 2000 ms later.
\<close>
theorem chat_send_appends:
  assumes "chat_open st" and "js_trim (newMessage st) \<noteq> []"
  shows "chat_step st SendClick = chat_step st (KeyPress ''Enter'' False) \<and>
         chat_step st SendClick =
           Some (st\<lparr>messages := messages st @
                    [\<lparr>mid = clock st, text' = newMessage st, sender = SenderUser,
                      timestamp = clock st\<rparr>],
                  newMessage := [], isTyping := True,
                  pending := pending st @ [clock st + 2000]\<rparr>)"
  using assms by (simp add: handle_send_message_def handle_key_press_def reply_delay_def)

theorem chat_send_appends_witness:
  "chat_open chat_hello \<and> js_trim (newMessage chat_hello) \<noteq> [] \<and>
   map text' (messages (the (chat_step chat_hello SendClick))) =
     [text' (greeting (teachers ! 0) 1704110400000), ''Oi'']"
proof -
  have h: "chat_open chat_hello" "js_trim (newMessage chat_hello) \<noteq> []"
    by (simp_all add: chat_hello_def step_eval js_eval)
  show ?thesis using h chat_send_appends [OF h] by (simp add: chat_hello_def step_eval)
qed

text \<open>
  C24: a blank (all white-space) input cannot be sent: the send button is disabled and Enter leaves the state unchanged.
\<close>
theorem chat_blank_ignored:
  assumes "chat_open st" and "js_trim (newMessage st) = []"
  shows "chat_step st SendClick = None \<and> chat_step st (KeyPress ''Enter'' False) = Some st"
  using assms by (simp add: handle_send_message_def handle_key_press_def)

theorem chat_blank_ignored_witness:
  "chat_open (chat_hello\<lparr>newMessage := ''  ''\<rparr>) \<and>
   js_trim (newMessage (chat_hello\<lparr>newMessage := ''  ''\<rparr>)) = [] \<and>
   chat_step (chat_hello\<lparr>newMessage := ''  ''\<rparr>) SendClick = None"
proof -
  have h: "chat_open (chat_hello\<lparr>newMessage := ''  ''\<rparr>)"
      "js_trim (newMessage (chat_hello\<lparr>newMessage := ''  ''\<rparr>)) = []"
    by (simp_all add: chat_hello_def step_eval js_eval)
  show ?thesis using h chat_blank_ignored [OF h] by simp
qed

text \<open>
  C25: in every reachable state the pending replies are due in order within the next 2000 ms, the typing indicator is on only while a reply is pending, and the teacher messages plus pending replies number one more than the user messages.
\<close>
theorem chat_invariant: "chat_reachable t t0 st \<Longrightarrow> chat_inv st"
  by (rule chat_reachable_inv)

lemma chat_hello_reachable: "chat_reachable (teachers ! 0) 1704110400000 chat_hello"
proof -
  have "chat_run (chat_init (teachers ! 0) 1704110400000) [OpenChat, SetNewMessage ''Oi'']
          = Some chat_hello"
    by (simp add: chat_hello_def step_eval)
  then show ?thesis by (rule chat_run_reachable [OF chat_reachable.init])
qed

theorem chat_invariant_witness:
  "chat_reachable (teachers ! 0) 1704110400000 chat_hello \<and> chat_inv chat_hello"
  using chat_hello_reachable chat_invariant [OF chat_hello_reachable] by simp

text \<open>
  C26: once 2000 ms pass, every pending reply has been delivered, in the order the messages were sent, the typing indicator is off, and there is exactly one teacher message per user message besides the greeting.
\<close>
theorem chat_replies_delivered:
  assumes "chat_reachable t t0 st" and "2000 \<le> n" and "chat_step st (Tick n) = Some st'"
  shows "pending st' = [] \<and> \<not> isTyping st' \<and>
         messages st' = messages st @ map teacher_response (pending st) \<and>
         length (filter (\<lambda>m. \<not> is_user_msg m) (messages st')) =
           1 + length (filter is_user_msg (messages st'))"
proof -
  from assms(1) have inv: "chat_inv st" by (rule chat_reachable_inv)
  then have due: "\<forall>d\<in>set (pending st). d \<le> clock st + int n"
    using assms(2) by (auto simp: chat_inv_def list_all_iff reply_delay_def)
  then have tw: "takeWhile (\<lambda>d. d \<le> clock st + int n) (pending st) = pending st"
    by (simp add: takeWhile_eq_all_conv)
  from due have dw: "dropWhile (\<lambda>d. d \<le> clock st + int n) (pending st) = []"
    by (simp add: dropWhile_eq_Nil_conv)
  have st': "st' = (fire_due (clock st + int n) st)\<lparr>clock := clock st + int n\<rparr>"
    using assms(3) by simp
  from chat_step_inv [OF inv assms(3)] have "chat_inv st'" .
  with st' tw dw inv show ?thesis
    by (auto simp: fire_due_eq chat_inv_def)
qed

theorem chat_replies_delivered_witness:
  "chat_reachable (teachers ! 0) 1704110400000 chat_sent \<and>
   chat_step chat_sent (Tick 2000) = Some ((fire_due 1704110402000 chat_sent)\<lparr>clock := 1704110402000\<rparr>) \<and>
   map text' (messages ((fire_due 1704110402000 chat_sent)\<lparr>clock := 1704110402000\<rparr>)) =
     [text' (greeting (teachers ! 0) 1704110400000), ''Oi'', reply_text]"
proof -
  have r: "chat_reachable (teachers ! 0) 1704110400000 chat_sent"
  proof -
    have "chat_step chat_hello SendClick = Some chat_sent"
      by (simp add: chat_sent_def chat_hello_def step_eval js_eval)
    then show ?thesis by (rule chat_reachable.step [OF chat_hello_reachable])
  qed
  have s: "chat_step chat_sent (Tick 2000) =
             Some ((fire_due 1704110402000 chat_sent)\<lparr>clock := 1704110402000\<rparr>)"
    by (simp add: chat_sent_def chat_hello_def step_eval js_eval)
  from chat_replies_delivered [OF r _ s]
  have "messages ((fire_due 1704110402000 chat_sent)\<lparr>clock := 1704110402000\<rparr>) =
          messages chat_sent @ map teacher_response (pending chat_sent)" by simp
  then show ?thesis using r s
    by (simp add: chat_sent_def chat_hello_def step_eval js_eval)
qed

lemma chat_run_messages_prefix:
  "chat_run st es = Some st' \<Longrightarrow> prefix (messages st) (messages st')"
proof (induction es arbitrary: st)
  case Nil
  then show ?case by simp
next
  case (Cons e es)
  then obtain s1 where s1: "chat_step st e = Some s1" and r: "chat_run s1 es = Some st'"
    by (auto split: option.splits)
  from chat_step_messages_prefix [OF s1] Cons.IH [OF r] show ?case
    by (rule prefix_order.trans)
qed

text \<open>
  C27: the message list is append-only: no run of events removes or reorders a message.
\<close>
theorem chat_append_only:
  "chat_run st es = Some st' \<Longrightarrow> prefix (messages st) (messages st')"
  by (rule chat_run_messages_prefix)

theorem chat_append_only_witness:
  "chat_run chat_hello [SendClick, Tick 2000] =
     Some ((fire_due 1704110402000 chat_sent)\<lparr>clock := 1704110402000\<rparr>) \<and>
   prefix (messages chat_hello) (messages ((fire_due 1704110402000 chat_sent)\<lparr>clock := 1704110402000\<rparr>))"
proof -
  have r: "chat_run chat_hello [SendClick, Tick 2000] =
     Some ((fire_due 1704110402000 chat_sent)\<lparr>clock := 1704110402000\<rparr>)"
    by (simp add: chat_sent_def chat_hello_def step_eval js_eval)
  show ?thesis using r chat_append_only [OF r] by simp
qed

lemma distinct_map_same_key:
  "distinct (map f xs) \<Longrightarrow> x \<in> set xs \<Longrightarrow> y \<in> set xs \<Longrightarrow> f x = f y \<Longrightarrow> x = y"
  by (auto simp: distinct_map inj_on_def)

text \<open>
  C28: the typing indicator goes off while a reply is still pending: whenever two replies
  are pending and time passes the first one's due instant but not the second's, the
  first reply's callback is delivered and clears the flag although the second reply is
  still to come.
\<close>
theorem chat_typing_cleared_early:
  assumes "pending st = d1 # d2 # ds" and "d1 \<le> clock st + int n" and "clock st + int n < d2"
  shows "\<exists>st'. chat_step st (Tick n) = Some st' \<and> \<not> isTyping st' \<and> pending st' = d2 # ds \<and>
               messages st' = messages st @ [teacher_response d1]"
  using assms by (simp add: fire_due_eq)

theorem chat_typing_cleared_early_witness:
  "chat_run chat_sent [Tick 1000, SetNewMessage ''Ainda?'', SendClick] =
     Some ((handle_send_message ((chat_sent\<lparr>clock := 1704110401000\<rparr>)\<lparr>newMessage := ''Ainda?''\<rparr>))) \<and>
   pending (handle_send_message ((chat_sent\<lparr>clock := 1704110401000\<rparr>)\<lparr>newMessage := ''Ainda?''\<rparr>)) =
     [1704110402000, 1704110403000] \<and>
   (\<exists>st'. chat_step (handle_send_message ((chat_sent\<lparr>clock := 1704110401000\<rparr>)\<lparr>newMessage := ''Ainda?''\<rparr>))
            (Tick 1000) = Some st' \<and> \<not> isTyping st' \<and> pending st' = [1704110403000])"
proof -
  define st where "st = handle_send_message ((chat_sent\<lparr>clock := 1704110401000\<rparr>)\<lparr>newMessage := ''Ainda?''\<rparr>)"
  have run: "chat_run chat_sent [Tick 1000, SetNewMessage ''Ainda?'', SendClick] = Some st"
    by (simp add: st_def chat_sent_def chat_hello_def step_eval js_eval fire_due_eq)
  have p: "pending st = [1704110402000, 1704110403000]"
    by (simp add: st_def chat_sent_def chat_hello_def step_eval js_eval)
  have c: "clock st = 1704110401000" by (simp add: st_def chat_sent_def step_eval)
  have "\<exists>st'. chat_step st (Tick 1000) = Some st' \<and> \<not> isTyping st' \<and> pending st' = [1704110403000] \<and>
               messages st' = messages st @ [teacher_response 1704110402000]"
    using chat_typing_cleared_early [of st 1704110402000 1704110403000 "[]" 1000] p c by simp
  with run p show ?thesis by (auto simp: st_def)
qed

text \<open>
  C29: message ids, which key the rendered list, are not unique: whenever a reply is due
  at instant d and the user sends a message at instant d + 1, the reply (whose id is
  \<open>Date.now() + 1\<close> when its callback runs) and the user's message (id \<open>Date.now()\<close>)
  get the same id d + 1.
\<close>
theorem chat_duplicate_ids:
  assumes "pending st = d # ds" and "clock st + int n = d + 1" and "chat_open st"
    and "js_trim (newMessage st) \<noteq> []"
  shows "\<exists>st'. chat_run st [Tick n, SendClick] = Some st' \<and>
               teacher_response d \<in> set (messages st') \<and>
               mid (last (messages st')) = d + 1 \<and> sender (last (messages st')) = SenderUser \<and>
               \<not> distinct (map mid (messages st'))"
proof -
  let ?u = "clock st + int n"
  define s1 where "s1 = (fire_due ?u st)\<lparr>clock := ?u\<rparr>"
  have fired: "takeWhile (\<lambda>x. x \<le> ?u) (pending st) = d # takeWhile (\<lambda>x. x \<le> ?u) ds"
    using assms(1,2) by simp
  have s1: "chat_open s1" "newMessage s1 = newMessage st" "clock s1 = d + 1"
      "teacher_response d \<in> set (messages s1)"
    using assms(2,3) fired by (simp_all add: s1_def fire_due_eq)
  define st' where "st' = handle_send_message s1"
  have run: "chat_run st [Tick n, SendClick] = Some st'"
    using s1 assms(4) by (simp add: st'_def s1_def)
  have in1: "teacher_response d \<in> set (messages st')" and
    l: "last (messages st') = \<lparr>mid = d + 1, text' = newMessage st, sender = SenderUser, timestamp = d + 1\<rparr>"
    using s1 assms(4) by (simp_all add: st'_def handle_send_message_def)
  have in2: "last (messages st') \<in> set (messages st')"
    using in1 by (metis empty_iff empty_set last_in_set)
  have "\<not> distinct (map mid (messages st'))"
  proof
    assume "distinct (map mid (messages st'))"
    from distinct_map_same_key [OF this in1 in2] l show False
      by (simp add: teacher_response_def)
  qed
  with run in1 l show ?thesis by auto
qed

theorem chat_duplicate_ids_witness:
  "pending chat_sent = [1704110402000] \<and> chat_open chat_sent \<and>
   (\<exists>st'. chat_run (chat_sent\<lparr>newMessage := ''Ola''\<rparr>) [Tick 2001, SendClick] = Some st' \<and>
          \<not> distinct (map mid (messages st')))"
proof -
  have h: "pending (chat_sent\<lparr>newMessage := ''Ola''\<rparr>) = 1704110402000 # []"
      "clock (chat_sent\<lparr>newMessage := ''Ola''\<rparr>) + int 2001 = 1704110402000 + 1"
      "chat_open (chat_sent\<lparr>newMessage := ''Ola''\<rparr>)"
      "js_trim (newMessage (chat_sent\<lparr>newMessage := ''Ola''\<rparr>)) \<noteq> []"
    by (simp_all add: chat_sent_def chat_hello_def step_eval js_eval)
  obtain st' where "chat_run (chat_sent\<lparr>newMessage := ''Ola''\<rparr>) [Tick 2001, SendClick] = Some st'"
      "\<not> distinct (map mid (messages st'))"
    using chat_duplicate_ids [OF h] by blast
  moreover have "pending chat_sent = [1704110402000]" "chat_open chat_sent" using h by simp_all
  ultimately show ?thesis by blast
qed

end
