(* ===== verification/JsFormat.thy ===== *)
theory JsFormat
  imports JsLib
begin

text \<open>
  The formatting builtins the pages call, modelled from the ECMAScript and ECMA-402
  specifications (not code of the repository): \<open>Number.prototype.toFixed(2)\<close>, the
  \<open>pt-BR\<close> currency format of \<open>Intl.NumberFormat\<close> for \<open>BRL\<close>, and the parsing of a
  date-only string \<open>YYYY-MM-DD\<close> by \<open>new Date(s)\<close>, which gives UTC midnight of that
  day. Numbers below \<open>10^21\<close> only (larger ones are printed in exponent form).
\<close>

subsection \<open>Digits\<close>

lemma js_nat_to_string_digits: "list_all js_is_digit (js_nat_to_string n)"
proof (induction n rule: js_nat_to_string.induct)
  case (1 n)
  then show ?case
    by (subst js_nat_to_string.simps) (auto simp: js_is_digit_def list_all_iff)
qed

lemma digits_value_append:
  "digits_value (xs @ ys) = digits_value xs * 10 ^ length ys + digits_value ys"
proof (induction ys rule: rev_induct)
  case Nil
  then show ?case by (simp add: digits_value_def)
next
  case (snoc y ys)
  then show ?case
    by (simp add: digits_value_def algebra_simps)
qed

lemma digits_value_js_nat_to_string: "digits_value (js_nat_to_string n) = n"
proof (induction n rule: js_nat_to_string.induct)
  case (1 n)
  then show ?case
    by (subst js_nat_to_string.simps) (auto simp: digits_value_append digits_value_def)
qed

lemma digits_value_replicate: "digits_value (replicate k (CHR ''0'')) = 0"
  by (induction k) (simp_all add: digits_value_def)

lemma digits_value_replicate_zero: "digits_value (replicate k (CHR ''0'') @ s) = digits_value s"
  by (simp add: digits_value_append digits_value_replicate)

lemma js_is_digit_not_space: "js_is_digit c \<Longrightarrow> \<not> js_is_space c"
  by (auto simp: js_is_digit_def js_is_space_def Let_def)

lemma js_nat_to_string_hd_digit: "js_is_digit (hd (js_nat_to_string n))"
  using js_nat_to_string_digits [of n] js_nat_to_string_nonempty [of n]
  by (cases "js_nat_to_string n") auto

lemma length_js_nat_to_string_le:
  "n < 10 ^ k \<Longrightarrow> 0 < k \<Longrightarrow> length (js_nat_to_string n) \<le> k"
proof (induction n arbitrary: k rule: js_nat_to_string.induct)
  case (1 n)
  show ?case
  proof (cases "n < 10")
    case True
    with "1.prems" show ?thesis by (simp add: js_nat_to_string.simps [of n])
  next
    case False
    have "k \<noteq> 1" using False "1.prems"(1) by auto
    then obtain k' where k: "k = Suc k'" "0 < k'" using "1.prems"(2) by (cases k) auto
    have "n div 10 < 10 ^ k'" using "1.prems"(1) k(1) by (simp add: div_less_iff_less_mult)
    with "1.IH" False k show ?thesis by (simp add: js_nat_to_string.simps [of n])
  qed
qed

text \<open>\<open>String(n).padStart(k, '0')\<close>: the digits of \<open>n\<close> with leading zeros up to length \<open>k\<close>.\<close>

definition pad_digits :: "nat \<Rightarrow> nat \<Rightarrow> string" where
  "pad_digits k n = js_pad_start k (CHR ''0'') (js_nat_to_string n)"

definition two_digits :: "nat \<Rightarrow> string" where
  "two_digits n = pad_digits 2 n"

lemma pad_digits_digits: "list_all js_is_digit (pad_digits k n)"
  using js_nat_to_string_digits [of n]
  by (auto simp: pad_digits_def js_pad_start_def list_all_iff js_is_digit_def)

lemma digits_value_pad_digits: "digits_value (pad_digits k n) = n"
  by (simp add: pad_digits_def js_pad_start_def digits_value_replicate_zero
      digits_value_js_nat_to_string)

lemma length_pad_digits: "n < 10 ^ k \<Longrightarrow> 0 < k \<Longrightarrow> length (pad_digits k n) = k"
  using length_js_nat_to_string_le [of n k] by (simp add: pad_digits_def length_js_pad_start)

lemma two_digits_digits: "list_all js_is_digit (two_digits n)"
  by (simp add: two_digits_def pad_digits_digits)

lemma digits_value_two_digits: "digits_value (two_digits n) = n"
  by (simp add: two_digits_def digits_value_pad_digits)

lemma length_two_digits: "n < 100 \<Longrightarrow> length (two_digits n) = 2"
  using length_pad_digits [of n 2] by (simp add: two_digits_def)

subsection \<open>toFixed and toString\<close>

text \<open>
  \<open>x.toFixed(k)\<close>: the sign, then the integer \<open>n\<close> closest to \<open>|x| * 10^k\<close> (the larger
  one on a tie), written with a point before its last \<open>k\<close> digits (no point for
  \<open>k = 0\<close>).
\<close>

definition js_scaled :: "nat \<Rightarrow> rat \<Rightarrow> nat" where
  "js_scaled k x = nat \<lfloor>\<bar>x\<bar> * 10 ^ k + 1 / 2\<rfloor>"

definition js_to_fixed :: "nat \<Rightarrow> rat \<Rightarrow> string" where
  "js_to_fixed k x =
     (if x < 0 then ''-'' else []) @ js_nat_to_string (js_scaled k x div 10 ^ k) @
     (if k = 0 then [] else ''.'' @ pad_digits k (js_scaled k x mod 10 ^ k))"

definition js_cents :: "rat \<Rightarrow> nat" where
  "js_cents x = js_scaled 2 x"

definition js_to_fixed2 :: "rat \<Rightarrow> string" where
  "js_to_fixed2 x = js_to_fixed 2 x"

text \<open>
  \<open>String(x)\<close> (\<open>Number::toString\<close>) for a number with at most 6 decimals and at most 15
  significant digits: the double nearest to such a decimal prints as the decimal
  itself, which is \<open>toFixed\<close> with its number of decimals. Other numbers (exponent
  notation, more digits than a double keeps) are not modelled: \<open>None\<close>.
\<close>

function js_decimals :: "nat \<Rightarrow> rat \<Rightarrow> nat option" where
  "js_decimals k r =
     (if 6 < k then None
      else if of_int \<lfloor>r * 10 ^ k\<rfloor> = r * 10 ^ k then Some k else js_decimals (Suc k) r)"
  by pat_completeness auto
termination
  by (relation "measure (\<lambda>(k, r). 7 - k)") auto

declare js_decimals.simps [simp del]

definition js_number_to_string :: "rat \<Rightarrow> string option" where
  "js_number_to_string r =
     (case js_decimals 0 r of
        None \<Rightarrow> None
      | Some k \<Rightarrow> if \<bar>r\<bar> * 10 ^ k < 10 ^ 15 then Some (js_to_fixed k r) else None)"


text \<open>\<open>String(x)\<close> for a value \<open>parseFloat\<close> can return.\<close>

definition js_num_to_string :: "js_num \<Rightarrow> string option" where
  "js_num_to_string x =
     (case x of Num r \<Rightarrow> js_number_to_string r | NaN \<Rightarrow> Some ''NaN''
      | PosInf \<Rightarrow> Some ''Infinity'' | NegInf \<Rightarrow> Some ''-Infinity'')"

lemma floor_numeral_divide_rat [js_eval]:
  "\<lfloor>(numeral a :: rat) / numeral b\<rfloor> = numeral a div numeral b"
  using floor_divide_of_int_eq [of "numeral a" "numeral b", where 'a = rat] by simp

lemma js_scaled_of_int: "js_scaled k (of_int m / 10 ^ k) = nat \<bar>m\<bar>"
proof -
  have "\<bar>of_int m / 10 ^ k :: rat\<bar> * 10 ^ k + 1 / 2 = of_int \<bar>m\<bar> + 1 / 2" by (simp add: abs_divide)
  moreover have "\<lfloor>of_int \<bar>m\<bar> + 1 / 2 :: rat\<rfloor> = \<bar>m\<bar>" by (intro floor_unique) simp_all
  ultimately show ?thesis unfolding js_scaled_def by simp
qed

text \<open>A decimal with \<open>k\<close> digits printed by \<open>toFixed(k)\<close> reads back unchanged with \<open>parseFloat\<close>.\<close>

lemma js_parse_float_to_fixed:
  "js_parse_float (js_to_fixed k (of_int m / 10 ^ k)) = Num (of_int m / 10 ^ k)"
proof -
  define n where "n = nat \<bar>m\<bar>"
  define A where "A = js_nat_to_string (n div 10 ^ k)"
  define B where "B = pad_digits k (n mod 10 ^ k)"
  define F where "F = (if k = 0 then [] else ''.'' @ B)"
  have dA: "list_all js_is_digit A" by (simp add: A_def js_nat_to_string_digits)
  have hA: "A \<noteq> [] \<and> js_is_digit (hd A)"
    by (simp add: A_def js_nat_to_string_nonempty js_nat_to_string_hd_digit)
  have dB: "list_all js_is_digit B" by (simp add: B_def pad_digits_digits)
  have lB: "0 < k \<Longrightarrow> length B = k" by (simp add: B_def length_pad_digits)
  have dot: "\<not> js_is_digit (CHR ''.'')" by (simp add: js_is_digit_def)
  define R where "R = A @ F"
  have t: "takeWhile js_is_digit R = A" "dropWhile js_is_digit R = F"
    using dA dot by (simp_all add: R_def F_def list_all_iff)
  have t2: "takeWhile js_is_digit B = B" "dropWhile js_is_digit B = []"
    using dB by (simp_all add: list_all_iff)
  have inf: "\<not> prefix ''Infinity'' R"
    using hA by (cases A) (auto simp: R_def js_is_digit_def)
  have sign: "js_sign (dropWhile js_is_space ((if m < 0 then ''-'' else []) @ R)) =
      (if m < 0 then -1 else 1, R)"
  proof -
    have "R \<noteq> [] \<and> js_is_digit (hd R)" using hA by (cases A) (auto simp: R_def)
    then have "\<not> js_is_space (hd R) \<and> hd R \<noteq> CHR ''-'' \<and> hd R \<noteq> CHR ''+''"
      by (auto simp: js_is_digit_def js_is_space_def)
    with \<open>R \<noteq> [] \<and> js_is_digit (hd R)\<close> show ?thesis
      by (cases R) (auto simp: js_sign_def js_is_space_def)
  qed
  have neg: "(of_int m / 10 ^ k < (0::rat)) = (m < 0)" by (simp add: divide_less_0_iff)
  have fx: "js_to_fixed k (of_int m / 10 ^ k) = (if m < 0 then ''-'' else []) @ R"
    by (simp add: js_to_fixed_def js_scaled_of_int neg n_def A_def B_def F_def R_def)
  have split: "of_nat (n div 10 ^ k) * 10 ^ k + of_nat (n mod 10 ^ k) = (of_nat n :: rat)"
    by (metis of_nat_add of_nat_mult of_nat_power of_nat_numeral div_mult_mod_eq)
  have "js_parse_float ((if m < 0 then ''-'' else []) @ R) =
        Num (of_int (if m < 0 then -1 else 1) * (of_nat n / 10 ^ k))"
  proof (cases "k = 0")
    case True
    then show ?thesis
      unfolding js_parse_float_def sign using hA
      by (simp add: t F_def inf js_exponent_def pow10_def A_def digits_value_js_nat_to_string)
  next
    case False
    then have "of_nat (digits_value (A @ B)) = (of_nat n :: rat)"
      using lB split by (simp add: digits_value_append A_def B_def digits_value_js_nat_to_string
          digits_value_pad_digits)
    with False show ?thesis
      unfolding js_parse_float_def sign using hA lB
      by (simp add: t t2 F_def inf js_exponent_def pow10_def)
  qed
  moreover have "of_int (if m < 0 then -1 else 1) * (of_nat n / 10 ^ k) = (of_int m / 10 ^ k :: rat)"
    by (simp add: n_def)
  ultimately show ?thesis using fx by simp
qed

lemma js_parse_float_to_fixed2:
  "js_parse_float (js_to_fixed2 (of_int m / 100)) = Num (of_int m / 100)"
  using js_parse_float_to_fixed [of 2 m] by (simp add: js_to_fixed2_def)

lemma js_decimals_Some:
  "js_decimals k r = Some k' \<Longrightarrow> \<exists>m. r * 10 ^ k' = of_int m"
proof (induction k r rule: js_decimals.induct)
  case (1 k r)
  then show ?case by (auto simp: js_decimals.simps [of k r] split: if_splits)
qed

text \<open>\<open>String(x)\<close>, where modelled, reads back unchanged with \<open>parseFloat\<close>.\<close>

lemma js_parse_float_number_to_string:
  assumes "js_number_to_string r = Some s"
  shows "js_parse_float s = Num r"
proof -
  from assms obtain k where k: "js_decimals 0 r = Some k" and s: "s = js_to_fixed k r"
    by (auto simp: js_number_to_string_def split: option.splits if_splits)
  obtain m where "r * 10 ^ k = of_int m" using js_decimals_Some [OF k] by blast
  then have "r = of_int m / 10 ^ k" by (simp add: field_simps)
  then show ?thesis using s js_parse_float_to_fixed [of k m] by simp
qed

subsection \<open>Currency in pt-BR\<close>

text \<open>
  \<open>new Intl.NumberFormat('pt-BR', {style: 'currency', currency: 'BRL'}).format(x)\<close>:
  a minus sign for a negative amount, the symbol \<open>R$\<close> and a no-break space, the whole
  reais grouped by thousands with \<open>.\<close>, a comma and two digits of centavos; the
  centavos are rounded half away from zero (the default \<open>halfExpand\<close>).
\<close>

fun group_thousands :: "nat \<Rightarrow> string" where
  "group_thousands n =
     (if n < 1000 then js_nat_to_string n
      else group_thousands (n div 1000) @ ''.'' @ js_pad_start 3 (CHR ''0'') (js_nat_to_string (n mod 1000)))"

declare group_thousands.simps [simp del]

definition js_format_brl :: "rat \<Rightarrow> string" where
  "js_format_brl x =
     (if x < 0 then ''-'' else []) @ ''R$'' @ [CHR 0xA0] @ group_thousands (js_cents x div 100) @
     '','' @ two_digits (js_cents x mod 100)"

lemma filter_digits_pad3:
  "m < 1000 \<Longrightarrow> filter js_is_digit (js_pad_start 3 (CHR ''0'') (js_nat_to_string m)) =
     js_pad_start 3 (CHR ''0'') (js_nat_to_string m) \<and>
   length (js_pad_start 3 (CHR ''0'') (js_nat_to_string m)) = 3"
  using js_nat_to_string_digits [of m] length_js_nat_to_string_le [of m 3]
  by (auto simp: js_pad_start_def list_all_iff js_is_digit_def filter_id_conv)

lemma digits_value_group_thousands: "digits_value (filter js_is_digit (group_thousands n)) = n"
proof (induction n rule: group_thousands.induct)
  case (1 n)
  show ?case
  proof (cases "n < 1000")
    case True
    then show ?thesis
      using js_nat_to_string_digits [of n]
      by (simp add: group_thousands.simps [of n] filter_id_conv list_all_iff digits_value_js_nat_to_string)
  next
    case False
    have "\<not> js_is_digit (CHR ''.'')" by (simp add: js_is_digit_def)
    with "1.IH" False filter_digits_pad3 [of "n mod 1000"] show ?thesis
      by (simp add: group_thousands.simps [of n] digits_value_append js_pad_start_def
          digits_value_replicate digits_value_js_nat_to_string)
  qed
qed

text \<open>The digits of a formatted amount are its centavos, and it starts with a minus exactly when negative.\<close>

lemma js_format_brl_cents:
  "digits_value (filter js_is_digit (js_format_brl x)) = js_cents x \<and>
   (take 1 (js_format_brl x) = ''-'') = (x < 0)"
proof -
  have nd: "\<not> js_is_digit c" if "c \<in> {CHR ''-'', CHR ''R'', CHR ''$'', CHR 0xA0, CHR '',''}" for c
    using that by (auto simp: js_is_digit_def)
  have "filter js_is_digit (two_digits (js_cents x mod 100)) = two_digits (js_cents x mod 100)"
    using two_digits_digits by (simp add: filter_id_conv list_all_iff)
  moreover have "length (two_digits (js_cents x mod 100)) = 2" by (simp add: length_two_digits)
  ultimately have "digits_value (filter js_is_digit (js_format_brl x)) = js_cents x"
    using nd by (simp add: js_format_brl_def digits_value_append digits_value_group_thousands
        digits_value_two_digits)
  moreover have "(take 1 (js_format_brl x) = ''-'') = (x < 0)" by (simp add: js_format_brl_def)
  ultimately show ?thesis by simp
qed

text \<open>A formatted amount shows a minus sign exactly when it is negative.\<close>

lemma set_group_thousands: "set (group_thousands n) \<subseteq> Collect js_is_digit \<union> {CHR ''.''}"
proof (induction n rule: group_thousands.induct)
  case (1 n)
  have "set (js_pad_start 3 (CHR ''0'') (js_nat_to_string m)) \<subseteq> Collect js_is_digit" for m
    using js_nat_to_string_digits [of m]
    by (auto simp: js_pad_start_def list_all_iff js_is_digit_def)
  moreover have "set (js_nat_to_string n) \<subseteq> Collect js_is_digit"
    using js_nat_to_string_digits [of n] by (auto simp: list_all_iff)
  ultimately show ?case using "1.IH" by (auto simp: group_thousands.simps [of n])
qed

lemma js_format_brl_minus: "CHR ''-'' \<in> set (js_format_brl x) \<longleftrightarrow> x < 0"
proof -
  have "\<not> js_is_digit (CHR ''-'')" by (simp add: js_is_digit_def)
  then have "CHR ''-'' \<notin> set (group_thousands n)" for n using set_group_thousands [of n] by blast
  moreover have "CHR ''-'' \<notin> set (two_digits n)" for n
    using two_digits_digits [of n] \<open>\<not> js_is_digit (CHR ''-'')\<close> by (auto simp: list_all_iff)
  ultimately show ?thesis by (auto simp: js_format_brl_def)
qed
subsection \<open>Date-only strings\<close>

text \<open>
  \<open>new Date('YYYY-MM-DD')\<close>: a string of exactly that form with a month from 1 to 12
  and a day of that month denotes UTC midnight of the day, returned here as the day
  number since 1970-01-01 (the representation of \<open>JsLib\<close>); anything else is an
  invalid date, \<open>None\<close>. The day number is Howard Hinnant's \<open>days_from_civil\<close>.
\<close>

definition leap_year :: "int \<Rightarrow> bool" where
  "leap_year y \<longleftrightarrow> (4 dvd y \<and> \<not> 100 dvd y) \<or> 400 dvd y"

definition days_in_month :: "int \<Rightarrow> int \<Rightarrow> int" where
  "days_in_month y m =
     (if m = 2 then (if leap_year y then 29 else 28)
      else if m \<in> {4, 6, 9, 11} then 30 else 31)"

definition days_from_civil :: "int \<Rightarrow> int \<Rightarrow> int \<Rightarrow> int" where
  "days_from_civil y m d =
     (let y' = (if m \<le> 2 then y - 1 else y); era = y' div 400; yoe = y' - era * 400;
          mp = (m + 9) mod 12; doy = (153 * mp + 2) div 5 + d - 1;
          doe = yoe * 365 + yoe div 4 - yoe div 100 + doy
      in era * 146097 + doe - 719468)"

definition js_parse_date_only :: "string \<Rightarrow> int option" where
  "js_parse_date_only s =
     (if length s = 10 \<and> s ! 4 = CHR ''-'' \<and> s ! 7 = CHR ''-'' \<and>
         list_all js_is_digit (take 4 s @ take 2 (drop 5 s) @ drop 8 s)
      then (let y = int (digits_value (take 4 s)); m = int (digits_value (take 2 (drop 5 s)));
                d = int (digits_value (drop 8 s))
            in if 1 \<le> m \<and> m \<le> 12 \<and> 1 \<le> d \<and> d \<le> days_in_month y m
               then Some (days_from_civil y m d) else None)
      else None)"

declare leap_year_def [js_eval] days_in_month_def [js_eval] days_from_civil_def [js_eval]
  js_parse_date_only_def [js_eval] js_format_brl_def [js_eval] js_to_fixed2_def [js_eval]
  js_cents_def [js_eval] two_digits_def [js_eval] pad_digits_def [js_eval] js_scaled_def [js_eval]
  js_to_fixed_def [js_eval] js_number_to_string_def [js_eval] js_num_to_string_def [js_eval]


subsection \<open>Dates in pt-BR\<close>

text \<open>
  The calendar date of a day number (Hinnant's \<open>civil_from_days\<close>), and the two
  \<open>pt-BR\<close> formats the pages use: \<open>toLocaleDateString('pt-BR')\<close>, \<open>dd/mm/yyyy\<close>,
  and \<open>toLocaleDateString('pt-BR', {weekday: 'long', day: 'numeric', month: 'long'})\<close>,
  for instance \<open>segunda-feira, 15 de janeiro\<close>. Both read the local day.
\<close>

definition civil_from_days :: "int \<Rightarrow> int \<times> int \<times> int" where
  "civil_from_days z =
     (let z' = z + 719468; era = z' div 146097; doe = z' - era * 146097;
          yoe = (doe - doe div 1460 + doe div 36524 - doe div 146096) div 365;
          doy = doe - (365 * yoe + yoe div 4 - yoe div 100);
          mp = (5 * doy + 2) div 153; d = doy - (153 * mp + 2) div 5 + 1;
          m = (if mp < 10 then mp + 3 else mp - 9)
      in (yoe + era * 400 + (if m \<le> 2 then 1 else 0), m, d))"

definition weekday_names_pt :: "string list" where
  "weekday_names_pt =
     [''domingo'', ''segunda-feira'', ''ter'' @ [CHR 0xE7] @ ''a-feira'', ''quarta-feira'',
      ''quinta-feira'', ''sexta-feira'', ''s'' @ [CHR 0xE1] @ ''bado'']"

definition month_names_pt :: "string list" where
  "month_names_pt =
     [''janeiro'', ''fevereiro'', ''mar'' @ [CHR 0xE7] @ ''o'', ''abril'', ''maio'', ''junho'',
      ''julho'', ''agosto'', ''setembro'', ''outubro'', ''novembro'', ''dezembro'']"

definition js_locale_date_pt :: "int \<Rightarrow> string" where
  "js_locale_date_pt day =
     (let (y, m, d) = civil_from_days day
      in two_digits (nat d) @ ''/'' @ two_digits (nat m) @ ''/'' @ js_pad_start 4 (CHR ''0'') (js_nat_to_string (nat y)))"

definition js_locale_date_long_pt :: "int \<Rightarrow> string" where
  "js_locale_date_long_pt day =
     (let (y, m, d) = civil_from_days day
      in weekday_names_pt ! nat ((day + 4) mod 7) @ '', '' @ js_nat_to_string (nat d) @ '' de '' @
         month_names_pt ! nat (m - 1))"

declare civil_from_days_def [js_eval] weekday_names_pt_def [js_eval] month_names_pt_def [js_eval]
  js_locale_date_pt_def [js_eval] js_locale_date_long_pt_def [js_eval]

text \<open>
  Shown in local time, UTC midnight of a day is that day east of UTC and the day
  before west of it (for an offset of less than a day).
\<close>

lemma div_shift_day:
  "0 < (M::int) \<Longrightarrow> 0 \<le> r \<Longrightarrow> r < M \<Longrightarrow> (q * M + r) div M = q"
  by (simp add: div_pos_pos_trivial)

lemma js_local_day_midnight:
  assumes "\<bar>tz\<bar> < 1440"
  shows "js_local_day tz (js_parse_iso_day d) = (if tz < 0 then d - 1 else d)"
proof (cases "tz < 0")
  case True
  have r: "0 < ms_per_day" "0 \<le> ms_per_day + tz * 60000" "ms_per_day + tz * 60000 < ms_per_day"
    using assms True by (simp_all add: ms_per_day_def)
  have "((d - 1) * ms_per_day + (ms_per_day + tz * 60000)) div ms_per_day = d - 1"
    by (rule div_shift_day [OF r])
  then have "(d * ms_per_day + tz * 60000) div ms_per_day = d - 1"
    by (simp add: algebra_simps)
  then show ?thesis
    using True by (simp add: js_local_day_def js_parse_iso_day_def)
next
  case False
  have "0 \<le> tz * 60000" "tz * 60000 < ms_per_day" "0 < ms_per_day"
    using assms False by (simp_all add: ms_per_day_def)
  then show ?thesis
    using False by (simp add: js_local_day_def js_parse_iso_day_def div_shift_day)
qed

end
