(* ===== verification/Dashboard.thy ===== *)
theory Dashboard
  imports Data JsFormat
begin

text \<open>
  The teacher dashboard \<open>src/pages/TeacherDashboard.tsx\<close>: the editable profile, the
  wallet view and the withdrawal form. The interfaces \<open>TeacherProfile\<close>,
  \<open>WalletData\<close> and \<open>Transaction\<close> are records (fields prefixed \<open>prof_\<close>,
  \<open>tx_\<close>), their string unions datatypes; the hooks form \<open>dash_state\<close>, initialised
  with the source's literals. \<open>hourlyRate\<close> holds what \<open>parseFloat\<close> returns, so
  it is a \<open>js_num\<close> (it can become \<open>NaN\<close>). Every rendered control is an event
  of \<open>dash_step\<close>; the step returns what the handler logs: the saved profile or the
  withdrawal request. The withdrawal modal's overlay only stops pointer clicks, so the
  page's controls stay usable while it is shown. The rate and amount inputs are number
  inputs, whose value is sanitized (\<open>JsLib.number_input_value\<close>).
  \<open>walletData\<close> has no setter: no event changes it.
\<close>

subsection \<open>Data\<close>

record teacher_profile =
  prof_id :: string
  prof_name :: string
  prof_email :: string
  prof_avatar :: string
  prof_bio :: string
  prof_subjects :: "string list"
  prof_hourlyRate :: js_num
  prof_experience :: string
  prof_languages :: "string list"
  prof_availability :: "string list"
  prof_education :: string
  prof_certifications :: "string list"
  prof_phone :: string
  prof_location :: string

datatype transaction_type = Earning | Withdrawal

datatype transaction_status = TxCompleted | TxPending | TxFailed

record transaction =
  tx_id :: string
  tx_type :: transaction_type
  tx_amount :: js_number
  tx_description :: string
  tx_date :: string
  tx_status :: transaction_status

record wallet_data =
  balance :: js_number
  totalEarnings :: js_number
  pendingPayments :: js_number
  monthlyEarnings :: js_number
  transactions :: "transaction list"

datatype dash_tab = ProfileTab | WalletTab

record dash_state =
  activeTab :: dash_tab
  isEditing :: bool
  showWithdrawModal :: bool
  withdrawAmount :: string
  withdrawMethod :: string
  profile :: teacher_profile
  walletData :: wallet_data

definition initial_profile :: teacher_profile where
  "initial_profile =
     \<lparr>prof_id = ''1'', prof_name = ''Sarah Johnson'', prof_email = ''sarah.johnson@email.com'',
      prof_avatar = ''https://images.pexels.com/photos/774909/pexels-photo-774909.jpeg?auto=compress&cs=tinysrgb&w=400'',
      prof_bio = ''Professora apaixonada por matem'' @ [CHR 0xE1] @ ''tica e f'' @ [CHR 0xED] @ ''sica com doutorado em Matem'' @ [CHR 0xE1] @ ''tica Aplicada. Especializo-me em tornar conceitos complexos acess'' @ [CHR 0xED] @ ''veis e envolventes para estudantes de todos os n'' @ [CHR 0xED] @ ''veis.'',
      prof_subjects = [''Matem'' @ [CHR 0xE1] @ ''tica'', ''F'' @ [CHR 0xED] @ ''sica'', ''C'' @ [CHR 0xE1] @ ''lculo''], prof_hourlyRate = Num 45, prof_experience = ''8 anos'',
      prof_languages = [''Portugu'' @ [CHR 0xEA] @ ''s'', ''Ingl'' @ [CHR 0xEA] @ ''s''],
      prof_availability = [''Segunda'', ''Ter'' @ [CHR 0xE7] @ ''a'', ''Quarta'', ''Sexta''],
      prof_education = ''Doutorado em Matem'' @ [CHR 0xE1] @ ''tica Aplicada - USP'',
      prof_certifications = [''Certifica'' @ [CHR 0xE7] @ [CHR 0xE3] @ ''o em Ensino Online'', ''Especializa'' @ [CHR 0xE7] @ [CHR 0xE3] @ ''o em Did'' @ [CHR 0xE1] @ ''tica''],
      prof_phone = ''+55 11 99999-9999'', prof_location = ''S'' @ [CHR 0xE3] @ ''o Paulo, SP''\<rparr>"

definition initial_wallet :: wallet_data where
  "initial_wallet =
     \<lparr>balance = 2501/2, totalEarnings = 8750, pendingPayments = 320, monthlyEarnings = 2100,
      transactions =
       [\<lparr>tx_id = ''1'', tx_type = Earning, tx_amount = 45, tx_description = ''Aula de Matem'' @ [CHR 0xE1] @ ''tica - Jo'' @ [CHR 0xE3] @ ''o Silva'', tx_date = ''2024-01-15'', tx_status = TxCompleted\<rparr>,
        \<lparr>tx_id = ''2'', tx_type = Earning, tx_amount = 90, tx_description = ''Aula de F'' @ [CHR 0xED] @ ''sica - Maria Santos'', tx_date = ''2024-01-14'', tx_status = TxCompleted\<rparr>,
        \<lparr>tx_id = ''3'', tx_type = Withdrawal, tx_amount = -500, tx_description = ''Saque via PIX'', tx_date = ''2024-01-10'', tx_status = TxCompleted\<rparr>]\<rparr>"

definition dash_init :: dash_state where
  "dash_init = \<lparr>activeTab = ProfileTab, isEditing = False, showWithdrawModal = False,
                withdrawAmount = [], withdrawMethod = ''pix'', profile = initial_profile,
                walletData = initial_wallet\<rparr>"

text \<open>The week days of the availability check boxes, Monday first.\<close>

definition week_days :: "string list" where
  "week_days = [''Segunda'', ''Ter'' @ [CHR 0xE7] @ ''a'', ''Quarta'', ''Quinta'', ''Sexta'', ''S'' @ [CHR 0xE1] @ ''bado'', ''Domingo'']"

subsection \<open>Profile editing\<close>

datatype profile_field =
    FName | FEmail | FPhone | FLocation | FHourlyRate | FExperience | FEducation
  | FLanguages | FBio | FSubjects

text \<open>The \<open>onChange\<close> handlers of the edit form: \<open>setProfile({...profile, f: v})\<close>.\<close>

fun update_profile :: "profile_field \<Rightarrow> string \<Rightarrow> teacher_profile \<Rightarrow> teacher_profile" where
  "update_profile FName v p = p\<lparr>prof_name := v\<rparr>"
| "update_profile FEmail v p = p\<lparr>prof_email := v\<rparr>"
| "update_profile FPhone v p = p\<lparr>prof_phone := v\<rparr>"
| "update_profile FLocation v p = p\<lparr>prof_location := v\<rparr>"
| "update_profile FHourlyRate v p = p\<lparr>prof_hourlyRate := js_parse_float v\<rparr>"
| "update_profile FExperience v p = p\<lparr>prof_experience := v\<rparr>"
| "update_profile FEducation v p = p\<lparr>prof_education := v\<rparr>"
| "update_profile FLanguages v p = p\<lparr>prof_languages := js_split '', '' v\<rparr>"
| "update_profile FBio v p = p\<lparr>prof_bio := v\<rparr>"
| "update_profile FSubjects v p = p\<lparr>prof_subjects := js_split '', '' v\<rparr>"

text \<open>The text the two list inputs display: \<open>languages.join(', ')\<close>, \<open>subjects.join(', ')\<close>.\<close>

text \<open>
  What an input of the edit form hands to its handler for the typed text \<open>v\<close>: the
  hourly rate input is \<open>type="number"\<close> (line 271), so its value is sanitized; the
  other inputs deliver the text as typed.
\<close>

definition field_value :: "profile_field \<Rightarrow> string \<Rightarrow> string" where
  "field_value f v = (if f = FHourlyRate then number_input_value v else v)"

definition languages_text :: "teacher_profile \<Rightarrow> string" where
  "languages_text p = js_join '', '' (prof_languages p)"

definition subjects_text :: "teacher_profile \<Rightarrow> string" where
  "subjects_text p = js_join '', '' (prof_subjects p)"

text \<open>
  What a profile field shows: in view mode the paragraph (\<open>R$ {hourlyRate}\<close> for the
  rate), in edit mode the input's value; both print the rate with \<open>String(x)\<close>, \<open>None\<close>
  where that is not modelled.
\<close>

definition field_view_text :: "profile_field \<Rightarrow> teacher_profile \<Rightarrow> string option" where
  "field_view_text f p =
     (case f of
        FName \<Rightarrow> Some (prof_name p) | FEmail \<Rightarrow> Some (prof_email p) | FPhone \<Rightarrow> Some (prof_phone p)
      | FLocation \<Rightarrow> Some (prof_location p)
      | FHourlyRate \<Rightarrow> map_option (\<lambda>r. ''R$ '' @ r) (js_num_to_string (prof_hourlyRate p))
      | FExperience \<Rightarrow> Some (prof_experience p) | FEducation \<Rightarrow> Some (prof_education p)
      | FLanguages \<Rightarrow> Some (languages_text p) | FBio \<Rightarrow> Some (prof_bio p)
      | FSubjects \<Rightarrow> Some (subjects_text p))"

definition field_input_value :: "profile_field \<Rightarrow> teacher_profile \<Rightarrow> string option" where
  "field_input_value f p =
     (case f of
        FHourlyRate \<Rightarrow> js_num_to_string (prof_hourlyRate p)
      | _ \<Rightarrow> field_view_text f p)"

text \<open>A day's check box: checked when the day is available; a click flips it.\<close>

definition toggle_day :: "string \<Rightarrow> teacher_profile \<Rightarrow> teacher_profile" where
  "toggle_day day p =
     (if \<not> (day \<in> set (prof_availability p))
      then p\<lparr>prof_availability := prof_availability p @ [day]\<rparr>
      else p\<lparr>prof_availability := filter (\<lambda>d. d \<noteq> day) (prof_availability p)\<rparr>)"

subsection \<open>Withdrawal\<close>

text \<open>The \<open>disabled\<close> condition of the confirm button, and the guard of \<open>handleWithdraw\<close>.\<close>

definition withdraw_disabled :: "string \<Rightarrow> js_number \<Rightarrow> bool" where
  "withdraw_disabled s bal \<longleftrightarrow>
     s = [] \<or> js_num_le (js_parse_float s) 0 \<or> js_num_gt (js_parse_float s) bal"

definition withdraw_accepts :: "string \<Rightarrow> js_number \<Rightarrow> bool" where
  "withdraw_accepts s bal \<longleftrightarrow> js_num_gt (js_parse_float s) 0 \<and> js_num_le (js_parse_float s) bal"

datatype dash_output = ProfileSaved teacher_profile | WithdrawalRequest js_num string

definition handle_withdraw :: "dash_state \<Rightarrow> dash_state \<times> dash_output option" where
  "handle_withdraw st =
     (if withdraw_accepts (withdrawAmount st) (balance (walletData st))
      then (st\<lparr>showWithdrawModal := False, withdrawAmount := []\<rparr>,
            Some (WithdrawalRequest (js_parse_float (withdrawAmount st)) (withdrawMethod st)))
      else (st, None))"

definition handle_save_profile :: "dash_state \<Rightarrow> dash_state \<times> dash_output option" where
  "handle_save_profile st = (st\<lparr>isEditing := False\<rparr>, Some (ProfileSaved (profile st)))"

subsection \<open>Wallet display\<close>

text \<open>
  \<open>formatCurrency\<close> and \<open>formatDate\<close>, and what the wallet tab shows: the four
  cards and one row per transaction. \<open>new Date(dateString)\<close> reads a date-only string
  as UTC midnight and \<open>toLocaleDateString('pt-BR')\<close> prints the local day, so the
  host's offset \<open>tz\<close> is a parameter.
\<close>

definition format_currency :: "js_number \<Rightarrow> string" where
  "format_currency amount = js_format_brl amount"

definition format_date :: "int \<Rightarrow> string \<Rightarrow> string" where
  "format_date tz s =
     (case js_parse_date_only s of
        None \<Rightarrow> ''Invalid Date''
      | Some d \<Rightarrow> js_locale_date_pt (js_local_day tz (js_parse_iso_day d)))"

definition wallet_cards :: "wallet_data \<Rightarrow> (string \<times> string) list" where
  "wallet_cards w =
     [(''Saldo Dispon'' @ [CHR 0xED] @ ''vel'', format_currency (balance w)),
      (''Ganhos Totais'', format_currency (totalEarnings w)),
      (''Pagamentos Pendentes'', format_currency (pendingPayments w)),
      (''Este M'' @ [CHR 0xEA] @ ''s'', format_currency (monthlyEarnings w))]"

record tx_row =
  row_earning :: bool
  row_description :: string
  row_date :: string
  row_amount :: string
  row_status :: string
  row_status_color :: string

definition transaction_row :: "int \<Rightarrow> transaction \<Rightarrow> tx_row" where
  "transaction_row tz tx =
     \<lparr>row_earning = (tx_type tx = Earning), row_description = tx_description tx,
      row_date = format_date tz (tx_date tx),
      row_amount = (if tx_type tx = Earning then ''+'' else []) @ format_currency (tx_amount tx),
      row_status = (case tx_status tx of
                      TxCompleted \<Rightarrow> ''Conclu'' @ [CHR 0xED] @ ''do''
                    | TxPending \<Rightarrow> ''Pendente'' | TxFailed \<Rightarrow> ''Falhou''),
      row_status_color = (case tx_status tx of
                            TxCompleted \<Rightarrow> ''text-green-600''
                          | TxPending \<Rightarrow> ''text-orange-600'' | TxFailed \<Rightarrow> ''text-red-600'')\<rparr>"

definition wallet_view :: "int \<Rightarrow> dash_state \<Rightarrow> ((string \<times> string) list \<times> tx_row list) option" where
  "wallet_view tz st =
     (if activeTab st = WalletTab
      then Some (wallet_cards (walletData st), map (transaction_row tz) (transactions (walletData st)))
      else None)"

subsection \<open>Events\<close>

datatype dash_event =
    SelectTab dash_tab
  | StartEdit
  | SaveProfile
  | CancelEdit
  | EditField profile_field string
  | ToggleDay string
  | OpenWithdraw
  | CloseWithdraw
  | SetWithdrawAmount string
  | SetWithdrawMethod string
  | ConfirmWithdraw

text \<open>
  The controls and the conditions that render them: the tab buttons always, the profile
  form's controls on the profile tab (in edit mode, or the Edit button outside it), the
  withdraw button on the wallet tab, and the withdrawal modal's controls while it is
  shown. The modal's overlay only stops pointer clicks; the page's controls behind it
  stay reachable with the keyboard, so they are not guarded by it.
\<close>

fun dash_step :: "dash_state \<Rightarrow> dash_event \<Rightarrow> (dash_state \<times> dash_output option) option" where
  "dash_step st (SelectTab t) =
     Some (st\<lparr>activeTab := t\<rparr>, None)"
| "dash_step st StartEdit =
     (if activeTab st = ProfileTab \<and> \<not> isEditing st
      then Some (st\<lparr>isEditing := True\<rparr>, None) else None)"
| "dash_step st SaveProfile =
     (if activeTab st = ProfileTab \<and> isEditing st
      then Some (handle_save_profile st) else None)"
| "dash_step st CancelEdit =
     (if activeTab st = ProfileTab \<and> isEditing st
      then Some (st\<lparr>isEditing := False\<rparr>, None) else None)"
| "dash_step st (EditField f v) =
     (if activeTab st = ProfileTab \<and> isEditing st
      then Some (st\<lparr>profile := update_profile f (field_value f v) (profile st)\<rparr>, None) else None)"
| "dash_step st (ToggleDay d) =
     (if activeTab st = ProfileTab \<and> isEditing st \<and> d \<in> set week_days
      then Some (st\<lparr>profile := toggle_day d (profile st)\<rparr>, None) else None)"
| "dash_step st OpenWithdraw =
     (if activeTab st = WalletTab
      then Some (st\<lparr>showWithdrawModal := True\<rparr>, None) else None)"
| "dash_step st CloseWithdraw =
     (if showWithdrawModal st then Some (st\<lparr>showWithdrawModal := False\<rparr>, None) else None)"
| "dash_step st (SetWithdrawAmount s) =
     (if showWithdrawModal st then Some (st\<lparr>withdrawAmount := number_input_value s\<rparr>, None)
      else None)"
| "dash_step st (SetWithdrawMethod m) =
     (if showWithdrawModal st \<and> m \<in> {''pix'', ''bank''}
      then Some (st\<lparr>withdrawMethod := m\<rparr>, None) else None)"
| "dash_step st ConfirmWithdraw =
     (if showWithdrawModal st \<and> \<not> withdraw_disabled (withdrawAmount st) (balance (walletData st))
      then Some (handle_withdraw st) else None)"

inductive dash_reachable :: "dash_state \<Rightarrow> bool" where
  init: "dash_reachable dash_init"
| step: "dash_reachable st \<Longrightarrow> dash_step st e = Some (st', out) \<Longrightarrow> dash_reachable st'"

fun dash_run :: "dash_state \<Rightarrow> dash_event list \<Rightarrow> dash_state option" where
  "dash_run st [] = Some st"
| "dash_run st (e # es) =
     (case dash_step st e of None \<Rightarrow> None | Some (st', _) \<Rightarrow> dash_run st' es)"

text \<open>
  What every reachable state keeps: the wallet as initialised, the available days
  distinct week days, and the withdrawal amount, the value of a number input, empty or
  a valid number.
\<close>

definition dash_inv :: "dash_state \<Rightarrow> bool" where
  "dash_inv st \<longleftrightarrow>
     walletData st = initial_wallet \<and> distinct (prof_availability (profile st)) \<and>
     set (prof_availability (profile st)) \<subseteq> set week_days \<and>
     (withdrawAmount st = [] \<or> html_valid_float (withdrawAmount st))"

declare initial_profile_def [data_eval] initial_wallet_def [data_eval] week_days_def [data_eval]
  dash_init_def [step_eval] toggle_day_def [step_eval] handle_withdraw_def [step_eval]
  handle_save_profile_def [step_eval] withdraw_disabled_def [step_eval]
  withdraw_accepts_def [step_eval] format_currency_def [step_eval] format_date_def [step_eval]
  transaction_row_def [step_eval] wallet_cards_def [step_eval]

subsection \<open>Step lemmas\<close>

lemma update_profile_availability [simp]:
  "prof_availability (update_profile f v p) = prof_availability p"
  by (cases f) simp_all

fun_cases dash_step_ConfirmWithdraw: "dash_step st ConfirmWithdraw = Some r"

lemma dash_inv_init: "dash_inv dash_init"
  by (simp add: dash_inv_def dash_init_def data_eval)

lemma dash_step_inv: "dash_inv st \<Longrightarrow> dash_step st e = Some (st', out) \<Longrightarrow> dash_inv st'"
  by (cases e) (auto simp: dash_inv_def step_eval number_input_value_valid split: if_splits)

lemma dash_reachable_inv: "dash_reachable st \<Longrightarrow> dash_inv st"
  by (induction rule: dash_reachable.induct) (auto intro: dash_inv_init dash_step_inv)

lemma dash_run_reachable:
  "dash_reachable st \<Longrightarrow> dash_run st es = Some st' \<Longrightarrow> dash_reachable st'"
proof (induction es arbitrary: st)
  case Nil
  then show ?case by simp
next
  case (Cons e es)
  then obtain st1 out where "dash_step st e = Some (st1, out)" "dash_run st1 es = Some st'"
    by (auto split: option.splits)
  with Cons show ?case by (blast intro: dash_reachable.step)
qed

lemma withdraw_accepts_Num:
  assumes "withdraw_accepts s bal"
  obtains r where "js_parse_float s = Num r" "0 < r" "r \<le> bal"
  using assms by (cases "js_parse_float s") (auto simp: withdraw_accepts_def)

lemma withdraw_guards_agree:
  "js_parse_float s \<noteq> NaN \<Longrightarrow> \<not> withdraw_disabled s bal \<longleftrightarrow> withdraw_accepts s bal"
  by (cases "js_parse_float s") (auto simp: withdraw_disabled_def withdraw_accepts_def)

text \<open>The value of the amount input: empty, or a number the confirm button and the handler judge alike.\<close>

lemma withdraw_amount_agrees:
  assumes "s = [] \<or> html_valid_float s"
  shows "\<not> withdraw_disabled s bal \<longleftrightarrow> withdraw_accepts s bal"
  using assms
proof
  assume "html_valid_float s"
  then obtain r where "js_parse_float s = Num r" using html_valid_float_parse by blast
  then show ?thesis by (simp add: withdraw_guards_agree)
qed (simp add: withdraw_disabled_def withdraw_accepts_def)

text \<open>
  Leaving a field's input as it is displayed keeps the profile: for the text fields
  always, for the rate whenever it prints (a cleared rate, \<open>NaN\<close>, prints as \<open>NaN\<close>,
  which reads back as \<open>NaN\<close>; the infinities read back too).
\<close>

lemma field_input_roundtrip:
  assumes "f \<notin> {FLanguages, FSubjects}" and "field_input_value f p = Some v"
  shows "update_profile f v p = p"
proof (cases f)
  case FHourlyRate
  show ?thesis
  proof (cases "prof_hourlyRate p")
    case (Num r)
    with assms(2) FHourlyRate have "js_number_to_string r = Some v"
      by (simp add: field_input_value_def js_num_to_string_def)
    then have "js_parse_float v = Num r" by (rule js_parse_float_number_to_string)
    with Num FHourlyRate show ?thesis by simp
  next
    case NaN
    with assms(2) FHourlyRate have "v = ''NaN''"
      by (simp add: field_input_value_def js_num_to_string_def)
    with NaN FHourlyRate show ?thesis by (simp add: js_eval)
  next
    case PosInf
    with assms(2) FHourlyRate have "v = ''Infinity''"
      by (simp add: field_input_value_def js_num_to_string_def)
    with PosInf FHourlyRate show ?thesis by (simp add: js_eval)
  next
    case NegInf
    with assms(2) FHourlyRate have "v = ''-Infinity''"
      by (simp add: field_input_value_def js_num_to_string_def)
    with NegInf FHourlyRate show ?thesis by (simp add: js_eval)
  qed
qed (use assms in \<open>simp_all add: field_input_value_def field_view_text_def\<close>)

text \<open>A transaction row's amount: its digits are the centavos, \<open>+\<close> marks an earning, \<open>-\<close> a negative amount.\<close>

lemma transaction_row_amount:
  "digits_value (filter js_is_digit (row_amount (transaction_row tz tx))) = js_cents (tx_amount tx) \<and>
   (take 1 (row_amount (transaction_row tz tx)) = ''+'') = (tx_type tx = Earning) \<and>
   (CHR ''-'' \<in> set (row_amount (transaction_row tz tx))) = (tx_amount tx < 0)"
proof -
  have "\<not> js_is_digit (CHR ''+'')" by (simp add: js_is_digit_def)
  moreover have "take 1 (js_format_brl x) \<noteq> ''+''" for x by (simp add: js_format_brl_def)
  ultimately show ?thesis
    by (simp add: transaction_row_def format_currency_def js_format_brl_cents js_format_brl_minus)
qed

subsection \<open>Withdrawal\<close>

text \<open>
  C30. A withdrawal request leaves the dashboard only for a positive amount no larger
  than the balance shown, parsed from what the user typed and sent with the chosen
  method; it closes the modal and clears the amount, and the balance is not changed.
\<close>

theorem dashboard_withdraw_safe:
  assumes "dash_step st ConfirmWithdraw = Some (st', Some (WithdrawalRequest a m))"
  shows "(\<exists>r. a = Num r \<and> 0 < r \<and> r \<le> balance (walletData st)) \<and>
         a = js_parse_float (withdrawAmount st) \<and> m = withdrawMethod st \<and>
         walletData st' = walletData st \<and> \<not> showWithdrawModal st' \<and> withdrawAmount st' = []"
proof -
  have "withdraw_accepts (withdrawAmount st) (balance (walletData st))"
    using assms by (auto simp: handle_withdraw_def split: if_splits)
  then obtain r where r: "js_parse_float (withdrawAmount st) = Num r" "0 < r"
      "r \<le> balance (walletData st)"
    by (rule withdraw_accepts_Num)
  then show ?thesis using assms
    by (auto simp: r(1) step_eval split: if_splits)
qed

theorem dashboard_withdraw_safe_witness:
  "dash_step (dash_init\<lparr>activeTab := WalletTab, showWithdrawModal := True, withdrawAmount := ''100''\<rparr>)
     ConfirmWithdraw =
   Some (dash_init\<lparr>activeTab := WalletTab\<rparr>, Some (WithdrawalRequest (Num 100) ''pix''))
   \<and> (\<exists>r. Num 100 = Num r \<and> 0 < r \<and> r \<le> balance initial_wallet)"
proof -
  have s: "dash_step (dash_init\<lparr>activeTab := WalletTab, showWithdrawModal := True, withdrawAmount := ''100''\<rparr>)
     ConfirmWithdraw =
   Some (dash_init\<lparr>activeTab := WalletTab\<rparr>, Some (WithdrawalRequest (Num 100) ''pix''))"
    by (simp add: dash_init_def step_eval data_eval js_eval)
  show ?thesis using dashboard_withdraw_safe [OF s] s by (simp add: dash_init_def js_eval)
qed

text \<open>
  C32. Whenever the amount parses to a number (or an infinity), the button's
  \<open>disabled\<close> condition and the handler's guard agree: an enabled button is a request
  the handler accepts.
\<close>

theorem dashboard_button_agrees:
  "js_parse_float s \<noteq> NaN \<Longrightarrow> \<not> withdraw_disabled s bal \<longleftrightarrow> withdraw_accepts s bal"
  by (rule withdraw_guards_agree)

theorem dashboard_button_agrees_witness:
  "js_parse_float ''300'' \<noteq> NaN \<and> withdraw_accepts ''300'' (balance initial_wallet)"
proof -
  have "js_parse_float ''300'' = Num 300" by (simp add: js_eval)
  then show ?thesis
    using dashboard_button_agrees [of "''300''" "balance initial_wallet"]
    by (simp add: withdraw_disabled_def data_eval)
qed

text \<open>
  C31. In every reachable state of the dashboard, a click on the withdrawal's confirm
  button is possible exactly when it sends a withdrawal request: the amount field is a
  number input, so its value is empty or a valid number, and for those values the
  button's \<open>disabled\<close> condition and the guard of \<open>handleWithdraw\<close> agree. No click
  on the enabled button is ignored.
\<close>

theorem dashboard_no_ignored_click:
  assumes "dash_reachable st" and "showWithdrawModal st"
  shows "dash_step st ConfirmWithdraw \<noteq> None \<longleftrightarrow>
         (\<exists>st' a m. dash_step st ConfirmWithdraw = Some (st', Some (WithdrawalRequest a m)))"
proof -
  have "withdrawAmount st = [] \<or> html_valid_float (withdrawAmount st)"
    using dash_reachable_inv [OF assms(1)] by (simp add: dash_inv_def)
  then have "\<not> withdraw_disabled (withdrawAmount st) (balance (walletData st)) \<longleftrightarrow>
             withdraw_accepts (withdrawAmount st) (balance (walletData st))"
    by (rule withdraw_amount_agrees)
  with assms(2) show ?thesis by (auto simp: handle_withdraw_def)
qed

theorem dashboard_no_ignored_click_witness:
  "dash_run dash_init [SelectTab WalletTab, OpenWithdraw, SetWithdrawAmount ''abc''] =
     Some (dash_init\<lparr>activeTab := WalletTab, showWithdrawModal := True\<rparr>) \<and>
   dash_run dash_init [SelectTab WalletTab, OpenWithdraw, SetWithdrawAmount ''100''] =
     Some (dash_init\<lparr>activeTab := WalletTab, showWithdrawModal := True, withdrawAmount := ''100''\<rparr>) \<and>
   (\<exists>st' a m. dash_step (dash_init\<lparr>activeTab := WalletTab, showWithdrawModal := True,
        withdrawAmount := ''100''\<rparr>) ConfirmWithdraw = Some (st', Some (WithdrawalRequest a m)))"
proof -
  define st where "st = dash_init\<lparr>activeTab := WalletTab, showWithdrawModal := True, withdrawAmount := ''100''\<rparr>"
  have abc: "dash_run dash_init [SelectTab WalletTab, OpenWithdraw, SetWithdrawAmount ''abc''] =
     Some (dash_init\<lparr>activeTab := WalletTab, showWithdrawModal := True\<rparr>)"
    by (simp add: dash_init_def js_eval)
  have run: "dash_run dash_init [SelectTab WalletTab, OpenWithdraw, SetWithdrawAmount ''100''] = Some st"
    by (simp add: st_def dash_init_def js_eval)
  have r: "dash_reachable st" by (rule dash_run_reachable [OF dash_reachable.init run])
  have o: "showWithdrawModal st" by (simp add: st_def)
  have "dash_step st ConfirmWithdraw \<noteq> None"
    by (simp add: st_def dash_init_def step_eval data_eval js_eval)
  with dashboard_no_ignored_click [OF r o] abc run show ?thesis by (simp add: st_def)
qed

subsection \<open>Wallet display\<close>

text \<open>
  C4. Every amount the wallet tab prints is exact to the centavo: the digits of each of
  the four cards (balance, total earnings, pending payments, this month) and of each
  transaction row read back as the amount in centavos, a row starts with \<open>+\<close> exactly
  for an earning, and it shows a minus sign exactly for a negative amount.
\<close>

theorem dashboard_wallet_amounts:
  assumes "wallet_view tz st = Some (cards, rows)"
  shows "map (\<lambda>(_, v). digits_value (filter js_is_digit v)) cards =
           map js_cents [balance (walletData st), totalEarnings (walletData st),
                         pendingPayments (walletData st), monthlyEarnings (walletData st)] \<and>
         list_all2 (\<lambda>tx r. digits_value (filter js_is_digit (row_amount r)) = js_cents (tx_amount tx) \<and>
                          (take 1 (row_amount r) = ''+'') = (tx_type tx = Earning) \<and>
                          (CHR ''-'' \<in> set (row_amount r)) = (tx_amount tx < 0))
           (transactions (walletData st)) rows"
proof -
  from assms have cards: "cards = wallet_cards (walletData st)"
    and rows: "rows = map (transaction_row tz) (transactions (walletData st))"
    by (auto simp: wallet_view_def split: if_splits)
  have "list_all2 (\<lambda>tx r. digits_value (filter js_is_digit (row_amount r)) = js_cents (tx_amount tx) \<and>
                          (take 1 (row_amount r) = ''+'') = (tx_type tx = Earning) \<and>
                          (CHR ''-'' \<in> set (row_amount r)) = (tx_amount tx < 0))
           (transactions (walletData st)) rows"
    unfolding rows list_all2_map2 list_all2_same using transaction_row_amount by blast
  then show ?thesis
    by (simp add: cards wallet_cards_def format_currency_def js_format_brl_cents)
qed

theorem dashboard_wallet_amounts_witness:
  "wallet_view (-180) (dash_init\<lparr>activeTab := WalletTab\<rparr>) =
     Some (wallet_cards initial_wallet, map (transaction_row (-180)) (transactions initial_wallet)) \<and>
   map (\<lambda>(_, v). digits_value (filter js_is_digit v)) (wallet_cards initial_wallet) =
     [125050, 875000, 32000, 210000] \<and>
   CHR ''-'' \<in> set (row_amount (transaction_row (-180) (transactions initial_wallet ! 2)))"
proof -
  have v: "wallet_view (-180) (dash_init\<lparr>activeTab := WalletTab\<rparr>) =
     Some (wallet_cards initial_wallet, map (transaction_row (-180)) (transactions initial_wallet))"
    by (simp add: wallet_view_def dash_init_def)
  have c: "map js_cents [balance initial_wallet, totalEarnings initial_wallet,
             pendingPayments initial_wallet, monthlyEarnings initial_wallet] = [125050, 875000, 32000, 210000]"
    by (simp add: initial_wallet_def js_cents_def js_scaled_def js_eval)
  have n: "tx_amount (transactions initial_wallet ! 2) < 0" by (simp add: initial_wallet_def)
  have len: "2 < length (transactions initial_wallet)" by (simp add: initial_wallet_def)
  from dashboard_wallet_amounts [OF v]
  have m: "map (\<lambda>(_, v). digits_value (filter js_is_digit v)) (wallet_cards initial_wallet) =
      map js_cents [balance initial_wallet, totalEarnings initial_wallet,
                    pendingPayments initial_wallet, monthlyEarnings initial_wallet]"
    and l: "list_all2 (\<lambda>tx r. digits_value (filter js_is_digit (row_amount r)) = js_cents (tx_amount tx) \<and>
                          (take 1 (row_amount r) = ''+'') = (tx_type tx = Earning) \<and>
                          (CHR ''-'' \<in> set (row_amount r)) = (tx_amount tx < 0))
           (transactions initial_wallet) (map (transaction_row (-180)) (transactions initial_wallet))"
    by (simp_all add: dash_init_def)
  from list_all2_nthD [OF l len] n
  have "CHR ''-'' \<in> set (row_amount (transaction_row (-180) (transactions initial_wallet ! 2)))"
    using len by simp
  with v m c show ?thesis by simp
qed

subsection \<open>Reachable states\<close>

text \<open>
  C33. In every state reachable from the initial dashboard the wallet is the initial
  wallet (no event changes it, a confirmed withdrawal included), the available days
  are distinct week days, and the withdrawal amount is empty or a valid number.
\<close>

theorem dashboard_invariant: "dash_reachable st \<Longrightarrow> dash_inv st"
  by (rule dash_reachable_inv)

theorem dashboard_invariant_witness:
  "dash_run dash_init [SelectTab WalletTab, OpenWithdraw, SetWithdrawAmount ''100'', ConfirmWithdraw] =
     Some (dash_init\<lparr>activeTab := WalletTab\<rparr>) \<and>
   dash_reachable (dash_init\<lparr>activeTab := WalletTab\<rparr>) \<and> dash_inv (dash_init\<lparr>activeTab := WalletTab\<rparr>)"
proof -
  have run: "dash_run dash_init [SelectTab WalletTab, OpenWithdraw, SetWithdrawAmount ''100'', ConfirmWithdraw] =
     Some (dash_init\<lparr>activeTab := WalletTab\<rparr>)"
    by (simp add: dash_init_def step_eval data_eval js_eval)
  have r: "dash_reachable (dash_init\<lparr>activeTab := WalletTab\<rparr>)"
    by (rule dash_run_reachable [OF dash_reachable.init run])
  show ?thesis using run r dashboard_invariant [OF r] by simp
qed

subsection \<open>Profile editing\<close>

text \<open>
  C34. Editing the languages input without typing a separator gives back the profile:
  splitting the displayed text \<open>languages.join(', ')\<close> at \<open>', '\<close> returns the list,
  as long as the list is not empty and no language contains the separator (no language
  followed by a comma contains \<open>', '\<close>).
\<close>

theorem dashboard_languages_roundtrip:
  "prof_languages p \<noteq> [] \<Longrightarrow>
   \<forall>x\<in>set (prof_languages p). \<not> js_str_includes (x @ '','') '', '' \<Longrightarrow>
   update_profile FLanguages (languages_text p) p = p"
  by (simp add: languages_text_def js_split_join js_str_includes_iff_sublist)

theorem dashboard_languages_roundtrip_witness:
  "update_profile FLanguages (languages_text initial_profile) initial_profile = initial_profile"
  using dashboard_languages_roundtrip [of initial_profile] by (simp add: data_eval js_eval)

text \<open>
  C35. The edit form's Cancel button only leaves edit mode: the profile keeps every edit
  made since Edit was pressed, exactly as Save would (the edits are applied to the
  profile state as they are typed, and nothing restores the earlier profile).
\<close>

theorem dashboard_cancel_keeps_edits:
  "dash_step st CancelEdit = Some (st', out) \<Longrightarrow>
   profile st' = profile st \<and> \<not> isEditing st' \<and> out = None \<and>
   dash_step st SaveProfile = Some (st', Some (ProfileSaved (profile st)))"
  by (auto simp: handle_save_profile_def split: if_splits)

theorem dashboard_cancel_keeps_edits_witness:
  "dash_run dash_init [StartEdit, EditField FName ''Ana''] =
     Some (dash_init\<lparr>isEditing := True, profile := update_profile FName ''Ana'' initial_profile\<rparr>) \<and>
   (\<exists>st'. dash_step (dash_init\<lparr>isEditing := True, profile := update_profile FName ''Ana'' initial_profile\<rparr>)
            CancelEdit = Some (st', None) \<and>
          prof_name (profile st') = ''Ana'' \<and> prof_name (profile st') \<noteq> prof_name initial_profile)"
proof -
  define st1 where "st1 = dash_init\<lparr>isEditing := True, profile := update_profile FName ''Ana'' initial_profile\<rparr>"
  have run: "dash_run dash_init [StartEdit, EditField FName ''Ana''] = Some st1"
    by (simp add: st1_def dash_init_def field_value_def)
  obtain st' where st': "dash_step st1 CancelEdit = Some (st', None)"
    by (simp add: st1_def dash_init_def)
  have "profile st' = profile st1" using dashboard_cancel_keeps_edits [OF st'] by simp
  with run st' show ?thesis by (simp add: st1_def data_eval)
qed

text \<open>
  C36. Clearing the hourly rate input stores \<open>NaN\<close> as the rate (the number input's
  value is then empty; \<open>parseFloat\<close> gives \<open>NaN\<close> for any text that is not a number);
  clearing the languages or subjects input stores one empty entry, not an empty list.
\<close>

theorem dashboard_cleared_fields:
  "prof_hourlyRate (update_profile FHourlyRate [] p) = NaN \<and>
   prof_hourlyRate (update_profile FHourlyRate ''abc'' p) = NaN \<and>
   prof_languages (update_profile FLanguages [] p) = [[]] \<and>
   prof_subjects (update_profile FSubjects [] p) = [[]]"
  by (simp add: js_eval)

end
