(* ===== verification/Schedule.thy ===== *)
theory Schedule
  imports Data JsFormat
begin

text \<open>
  The student's class list \<open>src/components/MySchedule.tsx\<close>. The interface
  \<open>ScheduledClass\<close> is a record, its status union a datatype, the component's constant
  array \<open>scheduledClasses\<close> a definition, the two filtered lists functions of a class list.
  The four hooks form \<open>my_schedule_state\<close>; the rendered controls are the events of
  \<open>ms_step\<close>, which returns what the handlers log (the class id passed to
  \<open>console.log\<close>). The menu's transparent backdrop is an event of its own; the model
  does not decide which control it covers, so every menu button stays usable while a
  menu is open (more behaviours than the page allows). The cancel dialog's overlay only
  stops pointer clicks: the page's controls behind it stay reachable with the keyboard,
  so they are not guarded by it.
\<close>

subsection \<open>Data\<close>

datatype class_status = Upcoming | Completed | Cancelled

record scheduled_class =
  sc_id :: string
  sc_teacherName :: string
  sc_teacherAvatar :: string
  sc_subject :: string
  sc_date :: string
  sc_time :: string
  sc_duration :: js_number
  sc_status :: class_status
  sc_meetingLink :: "string option"
  sc_price :: js_number

definition scheduled_classes :: "scheduled_class list" where
  "scheduled_classes =
     [\<lparr>sc_id = ''1'', sc_teacherName = ''Sarah Johnson'',
       sc_teacherAvatar = ''https://images.pexels.com/photos/774909/pexels-photo-774909.jpeg?auto=compress&cs=tinysrgb&w=400'',
       sc_subject = ''Matem'' @ [CHR 0xE1] @ ''tica'', sc_date = ''2024-01-15'', sc_time = ''14:00'',
       sc_duration = 60, sc_status = Upcoming,
       sc_meetingLink = Some ''https://meet.google.com/abc-def-ghi'', sc_price = 45\<rparr>,
      \<lparr>sc_id = ''2'', sc_teacherName = ''Michael Chen'',
       sc_teacherAvatar = ''https://images.pexels.com/photos/1222271/pexels-photo-1222271.jpeg?auto=compress&cs=tinysrgb&w=400'',
       sc_subject = ''Programa'' @ [CHR 0xE7, CHR 0xE3] @ ''o'', sc_date = ''2024-01-12'', sc_time = ''16:30'',
       sc_duration = 90, sc_status = Completed, sc_meetingLink = None, sc_price = 165 / 2\<rparr>]"

definition upcoming_classes :: "scheduled_class list \<Rightarrow> scheduled_class list" where
  "upcoming_classes cs = filter (\<lambda>c. sc_status c = Upcoming) cs"

definition completed_classes :: "scheduled_class list \<Rightarrow> scheduled_class list" where
  "completed_classes cs = filter (\<lambda>c. sc_status c = Completed) cs"

fun status_color :: "class_status \<Rightarrow> string" where
  "status_color Upcoming = ''bg-blue-100 text-blue-800''"
| "status_color Completed = ''bg-green-100 text-green-800''"
| "status_color Cancelled = ''bg-red-100 text-red-800''"

fun status_text :: "class_status \<Rightarrow> string" where
  "status_text Upcoming = ''Agendada''"
| "status_text Completed = ''Conclu'' @ [CHR 0xED] @ ''da''"
| "status_text Cancelled = ''Cancelada''"

text \<open>
  What a class card shows: the title, \<open>formatDate(date)\<close> (the local weekday, day and
  month of \<open>new Date(date)\<close>, which is UTC midnight), the time and duration, the
  status badge and \<open>R$\<close> with \<open>price.toFixed(2)\<close>. Durations are whole minutes.
\<close>

definition format_class_date :: "int \<Rightarrow> string \<Rightarrow> string" where
  "format_class_date tz s =
     (case js_parse_date_only s of
        None \<Rightarrow> ''Invalid Date''
      | Some d \<Rightarrow> js_locale_date_long_pt (js_local_day tz (js_parse_iso_day d)))"

record class_card =
  card_title :: string
  card_date :: string
  card_time :: string
  card_status :: string
  card_status_color :: string
  card_price :: string
  card_has_meeting :: bool

definition class_card_of :: "int \<Rightarrow> scheduled_class \<Rightarrow> class_card" where
  "class_card_of tz c =
     \<lparr>card_title = sc_subject c @ '' com '' @ sc_teacherName c,
      card_date = format_class_date tz (sc_date c),
      card_time = sc_time c @ '' ('' @ js_nat_to_string (nat \<lfloor>sc_duration c\<rfloor>) @ ''min)'',
      card_status = status_text (sc_status c), card_status_color = status_color (sc_status c),
      card_price = ''R$'' @ js_to_fixed2 (sc_price c),
      card_has_meeting = (sc_meetingLink c \<noteq> None)\<rparr>"

subsection \<open>State and handlers\<close>

datatype ms_tab = UpcomingTab | CompletedTab

record my_schedule_state =
  ms_activeTab :: ms_tab
  openMenuId :: "string option"
  showCancelModal :: bool
  classToCancel :: "scheduled_class option"

definition ms_init :: my_schedule_state where
  "ms_init = \<lparr>ms_activeTab = UpcomingTab, openMenuId = None, showCancelModal = False,
              classToCancel = None\<rparr>"

datatype ms_output = CancelRequested string | RescheduleRequested string

definition handle_menu_toggle :: "string \<Rightarrow> my_schedule_state \<Rightarrow> my_schedule_state" where
  "handle_menu_toggle cid st =
     st\<lparr>openMenuId := (if openMenuId st = Some cid then None else Some cid)\<rparr>"

definition handle_cancel_class :: "scheduled_class \<Rightarrow> my_schedule_state \<Rightarrow> my_schedule_state" where
  "handle_cancel_class c st = st\<lparr>classToCancel := Some c, showCancelModal := True, openMenuId := None\<rparr>"

definition confirm_cancel_class ::
  "my_schedule_state \<Rightarrow> my_schedule_state \<times> ms_output option" where
  "confirm_cancel_class st =
     (case classToCancel st of
        None \<Rightarrow> (st, None)
      | Some c \<Rightarrow> (st\<lparr>showCancelModal := False, classToCancel := None\<rparr>,
                  Some (CancelRequested (sc_id c))))"

definition handle_reschedule_class ::
  "scheduled_class \<Rightarrow> my_schedule_state \<Rightarrow> my_schedule_state \<times> ms_output option" where
  "handle_reschedule_class c st = (st\<lparr>openMenuId := None\<rparr>, Some (RescheduleRequested (sc_id c)))"

text \<open>The list the active tab renders, and the class a menu of that list belongs to.\<close>

definition visible_classes :: "my_schedule_state \<Rightarrow> scheduled_class list" where
  "visible_classes st =
     (if ms_activeTab st = UpcomingTab then upcoming_classes scheduled_classes
      else completed_classes scheduled_classes)"

definition menu_class :: "string \<Rightarrow> scheduled_class option" where
  "menu_class cid = find (\<lambda>c. sc_id c = cid) (upcoming_classes scheduled_classes)"

definition cancel_dialog_shown :: "my_schedule_state \<Rightarrow> bool" where
  "cancel_dialog_shown st \<longleftrightarrow> showCancelModal st \<and> classToCancel st \<noteq> None"

datatype ms_event =
    MsSelectTab ms_tab
  | MenuToggle string
  | RescheduleClick string
  | CancelClassClick string
  | KeepClass
  | ConfirmCancel
  | MenuBackdrop

fun ms_step :: "my_schedule_state \<Rightarrow> ms_event \<Rightarrow> (my_schedule_state \<times> ms_output option) option" where
  "ms_step st (MsSelectTab t) =
     Some (st\<lparr>ms_activeTab := t\<rparr>, None)"
| "ms_step st (MenuToggle cid) =
     (if ms_activeTab st = UpcomingTab \<and> menu_class cid \<noteq> None
      then Some (handle_menu_toggle cid st, None) else None)"
| "ms_step st (RescheduleClick cid) =
     (case menu_class cid of
        Some c \<Rightarrow> if ms_activeTab st = UpcomingTab \<and> openMenuId st = Some cid
                  then Some (handle_reschedule_class c st) else None
      | None \<Rightarrow> None)"
| "ms_step st (CancelClassClick cid) =
     (case menu_class cid of
        Some c \<Rightarrow> if ms_activeTab st = UpcomingTab \<and> openMenuId st = Some cid
                  then Some (handle_cancel_class c st, None) else None
      | None \<Rightarrow> None)"
| "ms_step st KeepClass =
     (if cancel_dialog_shown st then Some (st\<lparr>showCancelModal := False\<rparr>, None) else None)"
| "ms_step st ConfirmCancel =
     (if cancel_dialog_shown st then Some (confirm_cancel_class st) else None)"
| "ms_step st MenuBackdrop =
     (if openMenuId st \<noteq> None
      then Some (st\<lparr>openMenuId := None\<rparr>, None) else None)"

inductive ms_reachable :: "my_schedule_state \<Rightarrow> bool" where
  init: "ms_reachable ms_init"
| step: "ms_reachable st \<Longrightarrow> ms_step st e = Some (st', out) \<Longrightarrow> ms_reachable st'"

fun ms_run :: "my_schedule_state \<Rightarrow> ms_event list \<Rightarrow> (my_schedule_state \<times> ms_output list) option" where
  "ms_run st [] = Some (st, [])"
| "ms_run st (e # es) =
     (case ms_step st e of
        None \<Rightarrow> None
      | Some (st', out) \<Rightarrow>
          (case ms_run st' es of None \<Rightarrow> None
           | Some (st'', outs) \<Rightarrow> Some (st'', (case out of None \<Rightarrow> outs | Some x \<Rightarrow> x # outs))))"

text \<open>A class chosen for cancelling, and an open menu, belong to a listed upcoming class.\<close>

definition ms_inv :: "my_schedule_state \<Rightarrow> bool" where
  "ms_inv st \<longleftrightarrow>
     (case classToCancel st of None \<Rightarrow> True | Some c \<Rightarrow> c \<in> set (upcoming_classes scheduled_classes)) \<and>
     (case openMenuId st of None \<Rightarrow> True | Some cid \<Rightarrow> menu_class cid \<noteq> None)"

declare scheduled_classes_def [data_eval] ms_init_def [step_eval] handle_menu_toggle_def [step_eval]
  handle_cancel_class_def [step_eval] confirm_cancel_class_def [step_eval]
  handle_reschedule_class_def [step_eval] cancel_dialog_shown_def [step_eval]

subsection \<open>Lemmas\<close>

lemma menu_class_SomeD:
  "menu_class cid = Some c \<Longrightarrow> c \<in> set (upcoming_classes scheduled_classes) \<and> sc_id c = cid"
  unfolding menu_class_def by (auto dest: find_Some_iff[THEN iffD1] simp: in_set_conv_nth)

lemma menu_class_1: "menu_class ''1'' = Some (hd scheduled_classes)"
  by (simp add: menu_class_def upcoming_classes_def scheduled_classes_def)

lemma sc_id_hd_scheduled_classes: "sc_id (hd scheduled_classes) = ''1''"
  by (simp add: scheduled_classes_def)

lemma ms_inv_init: "ms_inv ms_init"
  by (simp add: ms_inv_def ms_init_def)

lemma ms_step_inv: "ms_inv st \<Longrightarrow> ms_step st e = Some (st', out) \<Longrightarrow> ms_inv st'"
  by (cases e)
     (auto simp: ms_inv_def step_eval dest: menu_class_SomeD split: if_splits option.splits)

lemma ms_reachable_inv: "ms_reachable st \<Longrightarrow> ms_inv st"
  by (induction rule: ms_reachable.induct) (auto intro: ms_inv_init ms_step_inv)

lemma length_filter_status:
  "length (filter (\<lambda>c. sc_status c = Upcoming) cs) + length (filter (\<lambda>c. sc_status c = Completed) cs) +
   length (filter (\<lambda>c. sc_status c = Cancelled) cs) = length cs"
proof (induction cs)
  case Nil
  then show ?case by simp
next
  case (Cons c cs)
  then show ?case by (cases "sc_status c") simp_all
qed

subsection \<open>Properties\<close>

text \<open>
  C37. The two tabs partition the classes by status without overlap, and the classes
  neither tab shows are exactly the cancelled ones: every class is upcoming, completed
  or cancelled, and a cancelled class is listed nowhere. On the static list each tab
  has one class.
\<close>

theorem schedule_tabs_partition:
  "length (upcoming_classes cs) + length (completed_classes cs) +
     length (filter (\<lambda>c. sc_status c = Cancelled) cs) = length cs \<and>
   set (upcoming_classes cs) \<inter> set (completed_classes cs) = {} \<and>
   {c \<in> set cs. c \<notin> set (upcoming_classes cs) \<union> set (completed_classes cs)} =
     {c \<in> set cs. sc_status c = Cancelled} \<and>
   length (upcoming_classes scheduled_classes) = 1 \<and> length (completed_classes scheduled_classes) = 1"
proof (intro conjI)
  show "length (upcoming_classes cs) + length (completed_classes cs) +
          length (filter (\<lambda>c. sc_status c = Cancelled) cs) = length cs"
    unfolding upcoming_classes_def completed_classes_def by (rule length_filter_status)
  show "set (upcoming_classes cs) \<inter> set (completed_classes cs) = {}"
    by (auto simp: upcoming_classes_def completed_classes_def)
  show "{c \<in> set cs. c \<notin> set (upcoming_classes cs) \<union> set (completed_classes cs)} =
        {c \<in> set cs. sc_status c = Cancelled}"
    apply (auto simp: upcoming_classes_def completed_classes_def)
    using class_status.exhaust by blast
  show "length (upcoming_classes scheduled_classes) = 1"
    by (simp add: upcoming_classes_def scheduled_classes_def)
  show "length (completed_classes scheduled_classes) = 1"
    by (simp add: completed_classes_def scheduled_classes_def)
qed

text \<open>
  C38. Confirming a cancellation in a reachable state only logs the id of the class the
  dialog shows, a listed upcoming class, and closes the dialog: the class list is not
  touched, so the class is still shown as upcoming in the same tab.
\<close>

theorem schedule_confirm_only_logs:
  assumes "ms_reachable st" and "ms_step st ConfirmCancel = Some (st', out)"
  shows "\<exists>c. classToCancel st = Some c \<and> out = Some (CancelRequested (sc_id c)) \<and>
             c \<in> set (upcoming_classes scheduled_classes) \<and> sc_status c = Upcoming \<and>
             \<not> cancel_dialog_shown st' \<and> visible_classes st' = visible_classes st"
proof -
  have inv: "ms_inv st" using assms(1) by (rule ms_reachable_inv)
  from assms(2) obtain c where c: "classToCancel st = Some c"
    by (auto simp: cancel_dialog_shown_def split: if_splits)
  with inv have "c \<in> set (upcoming_classes scheduled_classes)" by (simp add: ms_inv_def)
  with c assms(2) show ?thesis
    by (auto simp: step_eval visible_classes_def upcoming_classes_def split: if_splits)
qed

theorem schedule_confirm_only_logs_witness:
  "ms_run ms_init [MenuToggle ''1'', CancelClassClick ''1'', ConfirmCancel] =
     Some (ms_init, [CancelRequested ''1'']) \<and>
   (\<exists>c. classToCancel (ms_init\<lparr>showCancelModal := True, classToCancel := Some (hd scheduled_classes)\<rparr>) = Some c \<and>
        sc_status c = Upcoming)"
proof -
  define st where "st = ms_init\<lparr>showCancelModal := True, classToCancel := Some (hd scheduled_classes)\<rparr>"
  have s1: "ms_step ms_init (MenuToggle ''1'') = Some (ms_init\<lparr>openMenuId := Some ''1''\<rparr>, None)"
    by (simp add: step_eval menu_class_1)
  have s2: "ms_step (ms_init\<lparr>openMenuId := Some ''1''\<rparr>) (CancelClassClick ''1'') = Some (st, None)"
    by (simp add: st_def step_eval menu_class_1)
  have s3: "ms_step st ConfirmCancel = Some (ms_init, Some (CancelRequested ''1''))"
    by (simp add: st_def step_eval sc_id_hd_scheduled_classes)
  have r: "ms_reachable st"
    by (rule ms_reachable.step [OF ms_reachable.step [OF ms_reachable.init s1] s2])
  have "\<exists>c. classToCancel st = Some c \<and> sc_status c = Upcoming"
    using schedule_confirm_only_logs [OF r s3] by blast
  with s1 s2 s3 show ?thesis by (simp add: st_def)
qed

end
