(* ===== verification/Shell.thy ===== *)
theory Shell
  imports Data JsFormat
begin

text \<open>
  The session shell: \<open>src/App.tsx\<close> holds the signed-in user and the route table,
  \<open>src/components/Header.tsx\<close> the navigation links offered to that user,
  \<open>src/pages/TeacherProfile.tsx\<close> the page the route \<open>/teacher/:id\<close> renders (its two
  modals are composed in \<open>ProfilePage\<close>) and
  \<open>src/components/TeacherCard.tsx\<close> the catalog card that links to it. The router's
  matching (react-router, not part of the sources) is modelled as it behaves for this
  table: static paths match case-insensitively, \<open>:id\<close> matches one non-empty segment
  and keeps its case; trailing slashes and percent-decoding are not modelled. The login
  and register pages are not in the sources: the user they pass to \<open>onLogin\<close> is an
  arbitrary \<open>user\<close> of the event.
\<close>

subsection \<open>Routes\<close>

datatype page =
    LandingPage | CatalogPage | ProfileRoute string | LoginPage | RegisterPage
  | SchedulePage | DashboardPage

definition profile_prefix :: string where
  "profile_prefix = ''/teacher/''"

definition route :: "string \<Rightarrow> page option" where
  "route p =
     (let lp = js_to_lower_case p; pid = drop (length profile_prefix) p in
      if lp = ''/'' then Some LandingPage
      else if lp = ''/catalog'' then Some CatalogPage
      else if js_prefix profile_prefix lp \<and> pid \<noteq> [] \<and> CHR ''/'' \<notin> set pid
        then Some (ProfileRoute pid)
      else if lp = ''/login'' then Some LoginPage
      else if lp = ''/register'' then Some RegisterPage
      else if lp = ''/schedule'' then Some SchedulePage
      else if lp = ''/teacher-dashboard'' then Some DashboardPage
      else None)"

subsection \<open>Header\<close>

text \<open>The link targets the header renders, in order: logo, catalog, the signed-in links, sign-in.\<close>

definition header_links :: "user option \<Rightarrow> string list" where
  "header_links u =
     [''/'', ''/catalog''] @
     (case u of
        None \<Rightarrow> []
      | Some v \<Rightarrow> ''/schedule'' # (if role v = Teacher then [''/teacher-dashboard''] else [])) @
     (case u of None \<Rightarrow> [''/login'', ''/register''] | Some _ \<Rightarrow> [])"

definition is_active :: "string \<Rightarrow> string \<Rightarrow> bool" where
  "is_active pathname p \<longleftrightarrow> pathname = p"

subsection \<open>Session\<close>

record app_state =
  app_user :: "user option"
  app_path :: string

definition app_init :: "string \<Rightarrow> app_state" where
  "app_init p = \<lparr>app_user = None, app_path = p\<rparr>"

datatype app_event = OnLogin user | Logout | FollowLink string | GoTo string

text \<open>
  \<open>onLogin\<close> is only handed to the login and register pages, the logout button and the
  links are the header's, and any path can be typed in the address bar.
\<close>

fun app_step :: "app_state \<Rightarrow> app_event \<Rightarrow> app_state option" where
  "app_step st (OnLogin v) =
     (if route (app_path st) \<in> {Some LoginPage, Some RegisterPage}
      then Some (st\<lparr>app_user := Some v\<rparr>) else None)"
| "app_step st Logout =
     (if app_user st \<noteq> None then Some (st\<lparr>app_user := None\<rparr>) else None)"
| "app_step st (FollowLink p) =
     (if p \<in> set (header_links (app_user st)) then Some (st\<lparr>app_path := p\<rparr>) else None)"
| "app_step st (GoTo p) = Some (st\<lparr>app_path := p\<rparr>)"

subsection \<open>Teacher profile page\<close>

datatype profile_view = Redirect string | ShowProfile teacher

definition teacher_profile_view :: "string \<Rightarrow> profile_view" where
  "teacher_profile_view i =
     (case find (\<lambda>t. tid t = i) teachers of
        None \<Rightarrow> Redirect ''/catalog''
      | Some t \<Rightarrow> ShowProfile t)"

definition teacher_page :: "string \<Rightarrow> profile_view option" where
  "teacher_page p =
     (case route p of Some (ProfileRoute i) \<Rightarrow> Some (teacher_profile_view i) | _ \<Rightarrow> None)"

definition profile_week_days :: "string list" where
  "profile_week_days =
     [''Segunda'', ''Ter'' @ [CHR 0xE7] @ ''a'', ''Quarta'', ''Quinta'', ''Sexta'',
      ''S'' @ [CHR 0xE1] @ ''bado'', ''Domingo'']"

definition availability_labels :: "teacher \<Rightarrow> (string \<times> string) list" where
  "availability_labels t =
     map (\<lambda>d. (d, if d \<in> set (availability t) then ''Dispon'' @ [CHR 0xED] @ ''vel''
                  else ''Indispon'' @ [CHR 0xED] @ ''vel'')) profile_week_days"

subsection \<open>Teacher card\<close>

definition card_link :: "teacher \<Rightarrow> string" where
  "card_link t = profile_prefix @ tid t"

definition card_subject_chips :: "teacher \<Rightarrow> string list" where
  "card_subject_chips t = take 3 (subjects t)"

definition card_more_subjects :: "teacher \<Rightarrow> nat option" where
  "card_more_subjects t =
     (if length (subjects t) > 3 then Some (length (subjects t) - 3) else None)"

definition card_languages :: "teacher \<Rightarrow> string \<times> nat option" where
  "card_languages t =
     (js_join '', '' (take 2 (languages t)),
      if length (languages t) > 2 then Some (length (languages t) - 2) else None)"

definition card_bio :: "teacher \<Rightarrow> string" where
  "card_bio t = (if length (bio t) > 100 then take 100 (bio t) @ ''...'' else bio t)"

text \<open>
  What the card shows of a teacher, in the order of the markup: avatar and verified
  badge, \<open>rating\<close> and \<open>reviewCount avaliacoes\<close>, name, experience, the subject chips,
  the language line, the review count, the bio preview, \<open>R${hourlyRate}\<close> per hour and
  the profile link. Numbers are printed by \<open>String(x)\<close>, \<open>None\<close> where that is not modelled.
\<close>

record card_view =
  cv_avatar :: string
  cv_verified :: bool
  cv_rating :: "string option"
  cv_reviews :: "string option"
  cv_name :: string
  cv_experience :: string
  cv_chips :: "string list"
  cv_more_subjects :: "nat option"
  cv_languages :: "string \<times> nat option"
  cv_bio :: string
  cv_rate :: "string option"
  cv_link :: string

definition teacher_card_view :: "teacher \<Rightarrow> card_view" where
  "teacher_card_view t =
     \<lparr>cv_avatar = avatar t, cv_verified = verified t, cv_rating = js_number_to_string (rating t),
      cv_reviews = map_option (\<lambda>n. n @ '' avalia'' @ [CHR 0xE7, CHR 0xF5] @ ''es'') (js_number_to_string (reviewCount t)),
      cv_name = name t, cv_experience = experience t @ '' de experi'' @ [CHR 0xEA] @ ''ncia'',
      cv_chips = card_subject_chips t, cv_more_subjects = card_more_subjects t,
      cv_languages = card_languages t, cv_bio = card_bio t,
      cv_rate = map_option (\<lambda>r. ''R$'' @ r) (js_number_to_string (hourlyRate t)),
      cv_link = card_link t\<rparr>"

declare profile_prefix_def [js_eval]

subsection \<open>Lemmas\<close>

text \<open>Every teacher of the table is the page its card links to (ids are distinct single segments).\<close>

lemma teachers_card_links:
  "list_all (\<lambda>t. teacher_page (card_link t) = Some (ShowProfile t)) teachers"
  by (simp add: teachers_def teacher_page_def card_link_def route_def teacher_profile_view_def js_eval)

text \<open>The chips and the \<open>+n\<close> badge of a card together account for every subject.\<close>

lemma card_subjects_cover:
  "length (card_subject_chips t) + (case card_more_subjects t of None \<Rightarrow> 0 | Some n \<Rightarrow> n) =
   length (subjects t)"
  by (simp add: card_subject_chips_def card_more_subjects_def)

subsection \<open>Properties\<close>

text \<open>
  C39. The header offers the teacher dashboard exactly to a signed-in teacher, the
  schedule exactly to a signed-in user and the sign-in links exactly to a visitor; but
  the routes are not guarded: a visitor who types \<open>/teacher-dashboard\<close> (in any letter
  case) is shown the dashboard.
\<close>

theorem shell_header_links:
  "(''/teacher-dashboard'' \<in> set (header_links u) \<longleftrightarrow> (\<exists>v. u = Some v \<and> role v = Teacher)) \<and>
   (''/schedule'' \<in> set (header_links u) \<longleftrightarrow> u \<noteq> None) \<and>
   (''/login'' \<in> set (header_links u) \<longleftrightarrow> u = None) \<and>
   (''/register'' \<in> set (header_links u) \<longleftrightarrow> u = None) \<and>
   app_step (app_init ''/'') (GoTo ''/Teacher-Dashboard'') = Some (app_init ''/Teacher-Dashboard'') \<and>
   app_user (app_init ''/Teacher-Dashboard'') = None \<and>
   route ''/Teacher-Dashboard'' = Some DashboardPage"
proof (intro conjI)
  show "app_step (app_init ''/'') (GoTo ''/Teacher-Dashboard'') = Some (app_init ''/Teacher-Dashboard'')"
    by (simp add: app_init_def)
  show "app_user (app_init ''/Teacher-Dashboard'') = None" by (simp add: app_init_def)
  show "route ''/Teacher-Dashboard'' = Some DashboardPage" by (simp add: route_def js_eval)
qed (cases u; auto simp: header_links_def)+

text \<open>
  C40. Following the "Ver Perfil" link of any teacher's card opens that teacher's
  profile page, and a profile route with an id no teacher has redirects to the catalog.
\<close>

theorem shell_card_opens_profile:
  "t \<in> set teachers \<Longrightarrow>
   teacher_page (card_link t) = Some (ShowProfile t) \<and>
   teacher_page ''/teacher/7'' = Some (Redirect ''/catalog'')"
proof
  assume "t \<in> set teachers"
  then show "teacher_page (card_link t) = Some (ShowProfile t)"
    using teachers_card_links by (simp add: list_all_iff)
  show "teacher_page ''/teacher/7'' = Some (Redirect ''/catalog'')"
    by (simp add: teacher_page_def route_def teacher_profile_view_def teachers_def js_eval)
qed

theorem shell_card_opens_profile_witness:
  "hd teachers \<in> set teachers \<and> teacher_page ''/teacher/1'' = Some (ShowProfile (hd teachers))"
proof -
  have t: "hd teachers \<in> set teachers" by (simp add: teachers_def)
  have "card_link (hd teachers) = ''/teacher/1''" by (simp add: card_link_def teachers_def js_eval)
  with shell_card_opens_profile [OF t] t show ?thesis by simp
qed

end
