(* ===== verification/ProfilePage.thy ===== *)
theory ProfilePage
  imports Shell Booking Chat
begin

text \<open>
  The teacher profile page \<open>src/pages/TeacherProfile.tsx\<close> as the composition of its two
  modals. The page looks the teacher up by the route's id (\<open>Shell.teacher_profile_view\<close>)
  and passes the same teacher to \<open>SchedulingModal\<close> and \<open>ChatModal\<close>; its flags
  \<open>isSchedulingOpen\<close> and \<open>isChatOpen\<close> are the modals' \<open>isOpen\<close> props, which the
  component models already hold as \<open>modal_open\<close> and \<open>chat_open\<close>. The page buttons
  "Agendar Aula" and "Enviar Mensagem" are the modals' \<open>OpenModal\<close> and \<open>OpenChat\<close>
  events, their \<open>onClose\<close> callbacks the modals' close events. The two flags are
  independent hooks and no handler reads the other's: an open modal's overlay only
  intercepts pointer clicks, and the page's buttons stay reachable with the keyboard, so
  every event of either modal can occur in every state of the other. The page is
  therefore the interleaving of the two components (\<open>page_step\<close>), which share no
  state; the chat's timers keep firing whatever the wizard does.
  \<open>profile_page_view\<close> is what the page shows of its teacher.
\<close>

record page_state =
  ps_sched :: sched_state
  ps_chat :: chat_state

definition page_init :: "teacher \<Rightarrow> int \<Rightarrow> page_state" where
  "page_init t t0 = \<lparr>ps_sched = sched_init, ps_chat = chat_init t t0\<rparr>"

text \<open>The page for a route id: the teacher's page in its initial state, or the redirect.\<close>

definition page_for_id :: "string \<Rightarrow> int \<Rightarrow> (teacher \<times> page_state) option" where
  "page_for_id i t0 =
     (case teacher_profile_view i of
        ShowProfile t \<Rightarrow> Some (t, page_init t t0)
      | Redirect _ \<Rightarrow> None)"

datatype page_event = PSched sched_event | PChat chat_event

fun page_step ::
  "teacher \<Rightarrow> int \<Rightarrow> int \<Rightarrow> page_state \<Rightarrow> page_event \<Rightarrow> (page_state \<times> booking option) option"
where
  "page_step t tz now ps (PSched e) =
     map_option (\<lambda>(ss, out). (ps\<lparr>ps_sched := ss\<rparr>, out)) (sched_step t tz now (ps_sched ps) e)"
| "page_step t tz now ps (PChat e) =
     map_option (\<lambda>cs. (ps\<lparr>ps_chat := cs\<rparr>, None)) (chat_step (ps_chat ps) e)"

fun page_run ::
  "teacher \<Rightarrow> int \<Rightarrow> int \<Rightarrow> page_state \<Rightarrow> page_event list \<Rightarrow> (page_state \<times> booking list) option"
where
  "page_run t tz now ps [] = Some (ps, [])"
| "page_run t tz now ps (e # es) =
     (case page_step t tz now ps e of
        None \<Rightarrow> None
      | Some (ps', out) \<Rightarrow>
          (case page_run t tz now ps' es of
             None \<Rightarrow> None
           | Some (ps'', bs) \<Rightarrow> Some (ps'', (case out of None \<Rightarrow> bs | Some b \<Rightarrow> b # bs))))"

text \<open>The events of a page run that reach each modal, in order.\<close>

fun sched_events :: "page_event list \<Rightarrow> sched_event list" where
  "sched_events [] = []"
| "sched_events (PSched e # es) = e # sched_events es"
| "sched_events (PChat e # es) = sched_events es"

fun chat_events :: "page_event list \<Rightarrow> chat_event list" where
  "chat_events [] = []"
| "chat_events (PSched e # es) = chat_events es"
| "chat_events (PChat e # es) = e # chat_events es"

text \<open>
  What the page shows of its teacher: the header (avatar, the verified badge when
  \<open>teacher.verified\<close>, name, rating, review count, experience, \<open>R${hourlyRate}\<close>,
  subject chips), the about text, the subject list, the review count of the reviews
  box, and the side bar (languages joined by \<open>', '\<close>, experience, the status line
  "Professor Verificado", the availability of each week day).
\<close>

record profile_view_model =
  pv_avatar :: string
  pv_verified_badge :: bool
  pv_name :: string
  pv_rating :: "string option"
  pv_reviews :: "string option"
  pv_experience :: string
  pv_rate :: "string option"
  pv_subjects :: "string list"
  pv_bio :: string
  pv_languages :: string
  pv_status :: string
  pv_availability :: "(string \<times> string) list"

definition profile_page_view :: "teacher \<Rightarrow> profile_view_model" where
  "profile_page_view t =
     \<lparr>pv_avatar = avatar t, pv_verified_badge = verified t, pv_name = name t,
      pv_rating = js_number_to_string (rating t),
      pv_reviews = js_number_to_string (reviewCount t),
      pv_experience = experience t,
      pv_rate = map_option (\<lambda>r. ''R$'' @ r) (js_number_to_string (hourlyRate t)),
      pv_subjects = subjects t, pv_bio = bio t, pv_languages = js_join '', '' (languages t),
      pv_status = ''Professor Verificado'', pv_availability = availability_labels t\<rparr>"

subsection \<open>Lemmas\<close>

text \<open>A page run is the pair of the two modals' runs on their own events.\<close>

lemma page_run_decompose:
  "page_run t tz now ps es =
     (case (sched_run t tz now (ps_sched ps) (sched_events es), chat_run (ps_chat ps) (chat_events es)) of
        (Some (ss, bs), Some cs) \<Rightarrow> Some (\<lparr>ps_sched = ss, ps_chat = cs\<rparr>, bs)
      | _ \<Rightarrow> None)"
proof (induction es arbitrary: ps)
  case Nil
  then show ?case by simp
next
  case (Cons e es)
  then show ?case
    by (cases e) (auto split: option.splits prod.splits)
qed

text \<open>Both modals can be open at once: the chat, then the wizard from the keyboard.\<close>

lemma page_both_modals_open:
  "page_run t tz now (page_init t t0) [PChat OpenChat, PSched OpenModal] =
     Some (\<lparr>ps_sched = sched_init\<lparr>modal_open := True\<rparr>, ps_chat = (chat_init t t0)\<lparr>chat_open := True\<rparr>\<rparr>, [])"
  by (simp add: page_init_def sched_init_def chat_init_def)

subsection \<open>Properties\<close>


text \<open>
  C13. The profile page and the catalog card show a teacher the same way (name,
  rating, rate, verified badge), and for every teacher of the table the numbers print;
  but the page's side bar states "Professor Verificado" whatever the \<open>verified\<close> flag
  says, while the header badge follows the flag.
\<close>

theorem profile_status_ignores_flag:
  "pv_status (profile_page_view t) = ''Professor Verificado'' \<and>
   pv_verified_badge (profile_page_view t) = verified t \<and>
   cv_verified (teacher_card_view t) = verified t \<and>
   pv_name (profile_page_view t) = cv_name (teacher_card_view t) \<and>
   pv_rating (profile_page_view t) = cv_rating (teacher_card_view t) \<and>
   pv_rate (profile_page_view t) = cv_rate (teacher_card_view t) \<and>
   list_all (\<lambda>t. pv_rating (profile_page_view t) \<noteq> None \<and> pv_rate (profile_page_view t) \<noteq> None \<and>
                 pv_reviews (profile_page_view t) \<noteq> None) teachers"
proof -
  have "list_all (\<lambda>t. pv_rating (profile_page_view t) \<noteq> None \<and> pv_rate (profile_page_view t) \<noteq> None \<and>
                 pv_reviews (profile_page_view t) \<noteq> None) teachers"
    by (simp add: profile_page_view_def teachers_def js_number_to_string_def js_decimals.simps)
  then show ?thesis by (simp add: profile_page_view_def teacher_card_view_def)
qed

end
