(* ===== verification/Spec2Isabelle.thy ===== *)
theory Spec2Isabelle
  imports Catalog Booking Chat Dashboard Schedule Shell ProfilePage
begin

text \<open>
  \<^bold>\<open>DiscipulusClient: a verification development.\<close>

  DiscipulusClient (sources under \<open>src/\<close>) is a React single-page application for
  booking private lessons. It has no server: every page works on static tables and on
  its own \<open>useState\<close> hooks, and every state change is a handler run on a DOM event.
  The parts and how they interact:
  \<^item> \<open>App.tsx\<close> keeps the signed-in user and routes paths to pages; \<open>Header.tsx\<close>
    shows the navigation links for that user.
  \<^item> \<open>TeacherCatalog.tsx\<close> with \<open>SubjectFilter.tsx\<close> searches, filters and sorts
    the teacher table of \<open>data/teachers.ts\<close>. Each result is a \<open>TeacherCard.tsx\<close>
    that links to \<open>/teacher/:id\<close>.
  \<^item> \<open>TeacherProfile.tsx\<close> looks the teacher up by id (or redirects to the catalog)
    and opens two modals on that teacher: the booking wizard \<open>SchedulingModal.tsx\<close>
    and the chat \<open>ChatModal.tsx\<close>.
  \<^item> \<open>MySchedule.tsx\<close> lists the student's classes. \<open>TeacherDashboard.tsx\<close> edits
    the teacher's profile and requests withdrawals from the wallet.

  \<^bold>\<open>Theories.\<close> Each component is one theory. It holds the component's state as a
  \<open>record\<close> of its hooks (plus the props its parent passes in), the handlers as
  definitions, and an event datatype with one constructor per rendered control. A step
  function applies the control's handler and returns \<open>None\<close> when the control is not
  on the screen in that state. It also returns what the handler logs (the booking, the
  withdrawal request, the cancelled class). An \<open>inductive\<close> predicate gives the
  reachable states, and an invariant is proved over them by rule induction. A \<open>run\<close>
  function executes a list of events, so that concrete scenarios evaluate by \<open>simp\<close>.
  \<^item> \<open>Prelude\<close>: the number type (\<open>js_number = rat\<close>), the named collections
    \<open>js_eval\<close>, \<open>data_eval\<close> and \<open>step_eval\<close> that the proofs unfold, and list lemmas.
  \<^item> \<open>JsLib\<close>: the ECMAScript builtins the code calls, modelled from the language
    specification: \<open>toLowerCase\<close>, \<open>includes\<close>, \<open>trim\<close>, \<open>padStart\<close>, \<open>split\<close>/\<open>join\<close>
    (round trip \<open>js_split_join\<close>), \<open>parseFloat\<close> (type \<open>js_num\<close> with \<open>NaN\<close>),
    the value of an HTML number input (empty unless a valid number, which
    \<open>parseFloat\<close> reads as a number: \<open>html_valid_float_parse\<close>), \<open>Date\<close> in a
    fixed time-zone offset, and stable \<open>sort\<close> (equal to \<open>sort_key\<close>).
  \<^item> \<open>JsFormat\<close>: the formatting builtins: \<open>toFixed(k)\<close> and \<open>String(x)\<close> for
    decimals (their output reads back unchanged through \<open>parseFloat\<close>,
    \<open>js_parse_float_to_fixed\<close>, \<open>js_parse_float_number_to_string\<close>), the pt-BR currency
    format of \<open>Intl.NumberFormat\<close> (its digits are the centavos, \<open>js_format_brl_cents\<close>),
    the parsing of a date-only string as UTC midnight, and the two pt-BR date formats.
  \<^item> \<open>Data\<close>: \<open>types/index.ts\<close> and the tables \<open>teachers\<close>, \<open>subjects_table\<close>,
    \<open>categories\<close>, transcribed literally.
  \<^item> \<open>Catalog\<close> (\<open>catalog_state\<close>, \<open>filter_teachers\<close>, \<open>catalog_step\<close>): the
    filter returns exactly the matching teachers (C1). The sort is sorted and stable
    (C2, C3). Lower-casing the query changes nothing (C7). The invariant holds on
    reachable states (C8). The spec's claim that
    selected subjects stay visible is refuted by a reachable state (C9).
  \<^item> \<open>WizardSpec\<close>: the specification's booking wizard (spec section 4.2) as an
    abstract labelled transition system \<open>awiz_step\<close> over \<open>Step1\<close>..\<open>Step3\<close>, with
    its own invariant.
  \<^item> \<open>Booking\<close> (\<open>sched_state\<close>, \<open>get_available_dates\<close>, \<open>get_available_times\<close>,
    \<open>sched_step\<close>): every confirmed booking carries a date and a time offered, and the
    price of the chosen duration (C11). Every step moves by one (C14), and the wizard
    refines \<open>WizardSpec\<close> event by event through the abstraction \<open>sched_abs\<close>
    (C15). The offered slots and dates are characterised (C17, C18). Two time-zone
    defects of the \<open>toISOString\<close> key are proved for every offset west of UTC: the
    summary shows the day before the key (C19), and from local time 24:00 + offset on
    every key is the day after the button's label (C20).
  \<^item> \<open>Chat\<close> (\<open>chat_state\<close> with the clock and the pending \<open>setTimeout\<close> queue,
    \<open>chat_step\<close>): sending appends one message and schedules one reply (C23). Blank
    input is ignored (C24). The invariant holds (C25). Every pending reply is
    delivered once the clock passes its due time (C26). The list is append-only (C27).
    Two defects are proved in general: whenever two replies are pending the first one
    clears the typing flag (C28), and a message sent 1 ms after a reply is due gets the
    reply's id (C29).
  \<^item> \<open>Dashboard\<close> (\<open>dash_state\<close>, \<open>update_profile\<close>, \<open>handle_withdraw\<close>,
    \<open>dash_step\<close>, \<open>wallet_view\<close>): every amount the wallet prints is exact to the
    centavo (C4). A withdrawal request is positive and within the balance (C30). The
    confirm button agrees with the handler for parsable amounts (C32) and, since the
    amount is a number input, no click of the enabled button is ignored in a reachable
    state (C31). The wallet never changes (C33). The languages field round-trips (C34).
    Cancel keeps the edits, and a cleared field stores \<open>NaN\<close> or \<open>['']\<close> (C35, C36).
  \<^item> \<open>Schedule\<close> (\<open>my_schedule_state\<close>, \<open>ms_step\<close>, \<open>class_card_of\<close>): the tabs
    partition the classes by status and cancelled classes are listed nowhere (C37).
    Confirming a cancellation only logs it (C38).
  \<^item> \<open>Shell\<close> (\<open>route\<close>, \<open>header_links\<close>, \<open>app_step\<close>, \<open>teacher_page\<close>, card
    functions): the links match the session but the routes are unguarded (C39). Every
    card link opens its teacher's profile (C40).
  \<^item> \<open>ProfilePage\<close> (\<open>page_step\<close>, \<open>page_run\<close>): the profile page as the
    interleaving of the booking wizard and the chat on the same teacher. The two
    \<open>isOpen\<close> flags are independent and the overlays stop only pointer clicks, so any
    event of either modal may occur in any state of the other. A page run is exactly the
    pair of the two modals' runs on their own events (C6); both modals can be open at
    once (\<open>page_both_modals_open\<close>). The page and the card show a teacher alike, but
    the page's side bar announces every teacher as verified (C13).
  \<^item> This theory: the teacher table is well formed for every component that reads it
    (C10); the dashboard and the schedule show every stored date one day early west
    of UTC (C5); and, across Shell, ProfilePage and Booking, every booking made on the
    profile page a catalog card links to names that card's teacher and is priced at the
    teacher's rate, whatever chat events interleave (C12).

  \<^bold>\<open>Bounds and termination.\<close> Every source loop has a fixed bound: dates run over
  the next 14 days, times over hours 8 to 20 in steps of 30 minutes, and the chat's
  timer loop over the pending queue. Each is a \<open>function\<close> with a \<open>measure\<close>
  termination proof, so no fuel is needed and every definition is total. Numbers are
  exact rationals: the program only compares, adds, multiplies and divides by 60 small
  decimals (ratings, rates, prices, minutes), and the rounding of IEEE doubles in those
  operations is not modelled. The host time zone is a fixed offset of less than a day,
  which the \<open>Date\<close> lemmas assume.

  \<^bold>\<open>Not modelled.\<close>
  \<^item> Rendering and styling.
  \<^item> Locale formatting beyond the pt-BR formats the pages use. \<open>toFixed\<close> and the
    currency format assume amounts below \<open>10^21\<close>. The date-only parser rejects a day
    beyond the month's length, where engines differ.
  \<^item> \<open>alert\<close> and \<open>console.log\<close> beyond the value logged.
  \<^item> The landing, login and register pages, which are not in the sources; the user
    they pass to \<open>onLogin\<close> is arbitrary.
  \<^item> react-router beyond the matching rules \<open>Shell.route\<close> states.
  \<^item> Which controls a transparent backdrop or a modal overlay covers: overlays stop
    pointer clicks only, so the model keeps the controls behind them usable (keyboard
    focus), which only adds behaviours.
  \<^item> The wizard's \<open>new Date()\<close> is evaluated on every render; the model fixes
    \<open>now\<close> for a session, so a session that crosses midnight is not modelled.
  \<^item> Timer callbacks run exactly at their due instant; a browser may run them later.
\<close>

section \<open>Properties that span components\<close>

text \<open>
  What the components assume of a teacher record without checking it: the card link
  and the profile route need a non-empty id without a slash, the date buttons of the
  booking wizard need the availability names spelled as \<open>dayNames\<close> spells them, the
  subject filter finds a teacher only through the names of the subject table, and the
  catalog's sort and the price assume a rating between 0 and 5 and a positive rate.
\<close>

definition teacher_wf :: "teacher \<Rightarrow> bool" where
  "teacher_wf t \<longleftrightarrow>
     tid t \<noteq> [] \<and> CHR ''/'' \<notin> set (tid t) \<and> 0 \<le> rating t \<and> rating t \<le> 5 \<and>
     0 < hourlyRate t \<and> subjects t \<noteq> [] \<and> distinct (availability t) \<and>
     set (availability t) \<subseteq> set day_names \<and> set (subjects t) \<subseteq> set (map sname subjects_table)"

text \<open>
  C10. The teacher table is well typed for every component that reads it: the ids are
  distinct, and every record is well formed in the sense of \<open>teacher_wf\<close>.
\<close>

theorem teachers_well_formed: "distinct (map tid teachers) \<and> list_all teacher_wf teachers"
  by (simp add: teacher_wf_def teachers_def subjects_table_def day_names_def)

text \<open>
  C5. A date-only string (a transaction date of the dashboard, a class date of the
  schedule) is parsed as UTC midnight and printed in local time, so both pages show the
  day before the stored date in every time zone west of UTC (all of Brazil), and the
  stored date east of it.
\<close>

theorem dates_shown_day_early:
  assumes "\<bar>tz\<bar> < 1440" and "js_parse_date_only s = Some d"
  shows "format_date tz s = js_locale_date_pt (if tz < 0 then d - 1 else d) \<and>
         format_class_date tz s = js_locale_date_long_pt (if tz < 0 then d - 1 else d)"
  using assms by (simp add: format_date_def format_class_date_def js_local_day_midnight)

theorem dates_shown_day_early_witness:
  "format_date (-180) ''2024-01-15'' = ''14/01/2024'' \<and>
   format_class_date (-180) ''2024-01-15'' = ''domingo, 14 de janeiro''"
proof -
  have p: "js_parse_date_only ''2024-01-15'' = Some 19737" by (simp add: js_eval)
  have tz: "\<bar>-180::int\<bar> < 1440" by simp
  have "format_date (-180) ''2024-01-15'' = js_locale_date_pt 19736 \<and>
        format_class_date (-180) ''2024-01-15'' = js_locale_date_long_pt 19736"
    using dates_shown_day_early [OF tz p] by simp
  moreover have "js_locale_date_pt 19736 = ''14/01/2024''" by code_simp
  moreover have "js_locale_date_long_pt 19736 = ''domingo, 14 de janeiro''" by code_simp
  ultimately show ?thesis by simp
qed

text \<open>
  C12. From a catalog card to a booking: for every teacher of the table, the card's
  "Ver Perfil" link opens that teacher's profile page, and every booking confirmed there,
  whatever chat events are interleaved with the wizard's, names that teacher, a date
  among the date buttons, an offered time, a duration of the select and the price of
  that duration at the teacher's hourly rate.
\<close>

theorem card_booking_end_to_end:
  assumes "t \<in> set teachers" and "page_run t tz now (page_init t t0) es = Some (ps, bs)"
  shows "teacher_page (card_link t) = Some (ShowProfile t) \<and>
         (\<forall>b\<in>set bs. b_teacher b = tid t \<and> (\<exists>d. b_date b = Some d \<and> d \<in> set (date_keys t tz now)) \<and>
            b_time b \<in> set get_available_times \<and> b_duration b \<in> set duration_values \<and>
            b_total b = hourlyRate t * b_duration b / 60)"
proof
  show "teacher_page (card_link t) = Some (ShowProfile t)"
    using assms(1) teachers_card_links by (simp add: list_all_iff)
  from assms(2) obtain ss where "sched_run t tz now sched_init (sched_events es) = Some (ss, bs)"
    by (auto simp: page_run_decompose page_init_def split: option.splits prod.splits)
  from sched_run_bookings_ok [OF sched_reachable.init this]
  show "\<forall>b\<in>set bs. b_teacher b = tid t \<and> (\<exists>d. b_date b = Some d \<and> d \<in> set (date_keys t tz now)) \<and>
            b_time b \<in> set get_available_times \<and> b_duration b \<in> set duration_values \<and>
            b_total b = hourlyRate t * b_duration b / 60"
    by (simp add: booking_ok_def)
qed

theorem card_booking_end_to_end_witness:
  "teachers ! 0 \<in> set teachers \<and>
   (\<exists>ps bs. page_run (teachers ! 0) (-180) jan1_noon (page_init (teachers ! 0) jan1_noon)
       [PChat OpenChat, PSched OpenModal, PSched (SelectDate 19724), PChat (SetNewMessage ''Oi''),
        PSched (SelectTime ''14:00''), PChat SendClick, PSched ContinueToDetails, PSched (SetDuration 90),
        PSched ContinueToPayment, PSched ConfirmBooking] = Some (ps, bs) \<and>
     map b_total bs = [135 / 2] \<and> (\<forall>b\<in>set bs. b_total b = hourlyRate (teachers ! 0) * b_duration b / 60))"
proof -
  have t: "teachers ! 0 \<in> set teachers" by (simp add: teachers_def)
  have h: "hourlyRate (teachers ! 0) = 45" by (simp add: teachers_def)
  obtain ps bs where r: "page_run (teachers ! 0) (-180) jan1_noon (page_init (teachers ! 0) jan1_noon)
       [PChat OpenChat, PSched OpenModal, PSched (SelectDate 19724), PChat (SetNewMessage ''Oi''),
        PSched (SelectTime ''14:00''), PChat SendClick, PSched ContinueToDetails, PSched (SetDuration 90),
        PSched ContinueToPayment, PSched ConfirmBooking] = Some (ps, bs)" and b: "map b_total bs = [135 / 2]"
    by (simp add: page_init_def sarah_date_keys get_available_times_eq step_eval js_eval h)
  have p: "\<forall>b\<in>set bs. b_total b = hourlyRate (teachers ! 0) * b_duration b / 60"
    using card_booking_end_to_end [OF t r] by blast
  show ?thesis
    by (intro conjI t exI [where x = ps] exI [where x = bs] r b p)
qed

end
